theory Spec2Isabelle
  imports Complex_Main
begin

section \<open>Numbers of the programs\<close>

text \<open>
  Both ports of \<^verbatim>\<open>unbindEnergy\<close> compute in \<^verbatim>\<open>double\<close>. The program is modelled twice.

  The first model, in this and the following sections, is the program in exact
  arithmetic: a finite double is a \<^typ>\<open>real\<close> (no rounding, no overflow). The one
  non-finite value kept is \<^verbatim>\<open>+inf\<close>, produced when the positive binding energy is divided
  by an effective efficiency of \<^verbatim>\<open>0.0\<close> (a retention band of \<^verbatim>\<open>0.00\<close>); HOL's \<open>x / 0 = 0\<close>
  would hide it, so it is a value of its own. This model serves for what does not depend
  on the last bits: the retention tables, the order of the checks and of the output, the
  reference scenario to its printed digits, and the algebra of the formulas.

  The second model, from the section on binary64 arithmetic on, is the C program with
  every operation rounded. What the program computes at the edges (a speed that rounds
  to \<open>c\<close>, an energy lost in \<open>1.0 + x\<close>, an overflow, a NaN) is stated there.
\<close>

datatype dbl = Fin real | PInf

text \<open>\<^verbatim>\<open>a < t\<close> for a finite threshold: false at \<^verbatim>\<open>+inf\<close>.\<close>

fun lt :: "dbl \<Rightarrow> real \<Rightarrow> bool" where
  "lt (Fin a) t = (a < t)"
| "lt PInf t = False"

text \<open>\<^verbatim>\<open>a <= b\<close> on two such values.\<close>

fun le :: "dbl \<Rightarrow> dbl \<Rightarrow> bool" where
  "le (Fin a) (Fin b) = (a \<le> b)"
| "le PInf (Fin b) = False"
| "le a PInf = True"

text \<open>
  \<^verbatim>\<open>u / x\<close> for a positive numerator \<open>u\<close> and a divisor \<open>x \<ge> 0\<close>:
  IEEE division gives \<^verbatim>\<open>+inf\<close> at \<open>x = 0\<close>.
\<close>

definition quot :: "real \<Rightarrow> real \<Rightarrow> dbl" where
  "quot u x = (if x = 0 then PInf else Fin (u / x))"

text \<open>
  A chain of operations that keeps \<^verbatim>\<open>+inf\<close> at \<^verbatim>\<open>+inf\<close> (multiplying or dividing by a
  positive finite number, adding a finite number, squaring, \<^verbatim>\<open>sqrt\<close>, \<^verbatim>\<open>cbrt\<close>) is applied to
  the finite value and leaves the infinite one alone.
\<close>

fun lift :: "(real \<Rightarrow> real) \<Rightarrow> dbl \<Rightarrow> dbl" where
  "lift f (Fin a) = Fin (f a)"
| "lift f PInf = PInf"

text \<open>\<^verbatim>\<open>1.0 / a\<close> for \<open>a > 0\<close>: zero at \<^verbatim>\<open>+inf\<close>.\<close>

fun recip :: "dbl \<Rightarrow> real" where
  "recip (Fin a) = 1 / a"
| "recip PInf = 0"

section \<open>Constants\<close>

abbreviation c :: real where "c \<equiv> 299792458"
abbreviation PI :: real where "PI \<equiv> 3.14159265358979323846"
abbreviation MERCURY_MASS :: real where "MERCURY_MASS \<equiv> 3.30 * 10 ^ 23"
abbreviation CERES_MASS :: real where "CERES_MASS \<equiv> 9.38 * 10 ^ 20"

abbreviation (input) PLANET_EARTH :: int where "PLANET_EARTH \<equiv> 0"
abbreviation (input) PLANET_MARS :: int where "PLANET_MARS \<equiv> 1"
abbreviation (input) PLANET_VENUS :: int where "PLANET_VENUS \<equiv> 2"
abbreviation (input) PLANET_JUPITER :: int where "PLANET_JUPITER \<equiv> 3"
abbreviation (input) PLANET_SATURN :: int where "PLANET_SATURN \<equiv> 4"
abbreviation (input) PLANET_URANUS :: int where "PLANET_URANUS \<equiv> 5"
abbreviation (input) PLANET_NEPTUNE :: int where "PLANET_NEPTUNE \<equiv> 6"
abbreviation (input) PLANET_PLUTO :: int where "PLANET_PLUTO \<equiv> 7"
abbreviation (input) PLANET_MOON :: int where "PLANET_MOON \<equiv> 8"
abbreviation (input) PLANET_VACUUM :: int where "PLANET_VACUUM \<equiv> 9"

abbreviation (input) MATERIAL_STONY :: int where "MATERIAL_STONY \<equiv> 0"
abbreviation (input) MATERIAL_IRON :: int where "MATERIAL_IRON \<equiv> 1"
abbreviation (input) MATERIAL_COMETARY :: int where "MATERIAL_COMETARY \<equiv> 2"

section \<open>Binding energy and atmospheric retention (C port)\<close>

definition get_planetary_binding_energy :: "int \<Rightarrow> real" where
  "get_planetary_binding_energy planet_type =
     (if planet_type = PLANET_EARTH then 2.49 * 10 ^ 32
      else if planet_type = PLANET_MARS then 4.87 * 10 ^ 30
      else if planet_type = PLANET_VENUS then 1.57 * 10 ^ 32
      else if planet_type = PLANET_JUPITER then 2.06 * 10 ^ 36
      else if planet_type = PLANET_SATURN then 2.22 * 10 ^ 35
      else if planet_type = PLANET_URANUS then 1.19 * 10 ^ 34
      else if planet_type = PLANET_NEPTUNE then 1.69 * 10 ^ 34
      else if planet_type = PLANET_PLUTO then 2.85 * 10 ^ 27
      else if planet_type = PLANET_MOON then 1.23 * 10 ^ 29
      else 2.49 * 10 ^ 32)"

definition retention_earth :: "dbl \<Rightarrow> int \<Rightarrow> real" where
  "retention_earth diameter_km material_type =
     (if material_type = MATERIAL_IRON then
        (if lt diameter_km 0.01 then 0.00
         else if lt diameter_km 0.03 then 0.20
         else if lt diameter_km 0.05 then 0.50
         else if lt diameter_km 0.10 then 0.80
         else if lt diameter_km 0.20 then 0.90
         else 0.95)
      else if material_type = MATERIAL_COMETARY then
        (if lt diameter_km 0.05 then 0.00
         else if lt diameter_km 0.20 then 0.05
         else 0.80)
      else
        (if lt diameter_km 0.01 then 0.01
         else if lt diameter_km 0.03 then 0.10
         else if lt diameter_km 0.20 then 0.50
         else 0.90))"

definition retention_mars :: "dbl \<Rightarrow> int \<Rightarrow> real" where
  "retention_mars diameter_km material_type =
     (if material_type = MATERIAL_IRON then
        (if lt diameter_km 0.001 then 0.80 else 0.95)
      else if material_type = MATERIAL_COMETARY then
        (if lt diameter_km 0.01 then 0.70 else 0.90)
      else
        (if lt diameter_km 0.005 then 0.85 else 0.95))"

definition retention_venus :: "dbl \<Rightarrow> int \<Rightarrow> real" where
  "retention_venus diameter_km material_type =
     (if material_type = MATERIAL_IRON then
        (if lt diameter_km 0.10 then 0.00
         else if lt diameter_km 0.50 then 0.10
         else if lt diameter_km 1.00 then 0.50
         else 0.80)
      else if material_type = MATERIAL_COMETARY then
        (if lt diameter_km 1.00 then 0.00 else 0.30)
      else
        (if lt diameter_km 0.20 then 0.00
         else if lt diameter_km 1.00 then 0.05
         else 0.60))"

definition retention_jupiter :: "dbl \<Rightarrow> int \<Rightarrow> real" where
  "retention_jupiter diameter_km material_type =
     (if material_type = MATERIAL_IRON then
        (if lt diameter_km 1.00 then 0.00
         else if lt diameter_km 10.0 then 0.01
         else 0.20)
      else
        (if lt diameter_km 10.0 then 0.00 else 0.10))"

definition retention_saturn :: "dbl \<Rightarrow> int \<Rightarrow> real" where
  "retention_saturn diameter_km material_type =
     (if material_type = MATERIAL_IRON then
        (if lt diameter_km 0.50 then 0.00
         else if lt diameter_km 5.00 then 0.05
         else 0.30)
      else
        (if lt diameter_km 5.00 then 0.00 else 0.15))"

definition retention_uranus :: "dbl \<Rightarrow> int \<Rightarrow> real" where
  "retention_uranus diameter_km material_type =
     (if material_type = MATERIAL_IRON then
        (if lt diameter_km 2.00 then 0.00
         else if lt diameter_km 10.0 then 0.02
         else 0.25)
      else
        (if lt diameter_km 10.0 then 0.00 else 0.15))"

definition retention_neptune :: "dbl \<Rightarrow> int \<Rightarrow> real" where
  "retention_neptune diameter_km material_type =
     (if material_type = MATERIAL_IRON then
        (if lt diameter_km 3.00 then 0.00
         else if lt diameter_km 15.0 then 0.01
         else 0.20)
      else
        (if lt diameter_km 15.0 then 0.00 else 0.10))"

definition retention_pluto :: "dbl \<Rightarrow> int \<Rightarrow> real" where
  "retention_pluto diameter_km material_type =
     (if material_type = MATERIAL_IRON then
        (if lt diameter_km 0.001 then 0.95 else 0.99)
      else if material_type = MATERIAL_COMETARY then
        (if lt diameter_km 0.01 then 0.90 else 0.98)
      else
        (if lt diameter_km 0.005 then 0.92 else 0.98))"

definition retention_moon :: "dbl \<Rightarrow> int \<Rightarrow> real" where
  "retention_moon diameter_km material_type =
     (if material_type = MATERIAL_IRON then
        (if lt diameter_km 0.001 then 0.99 else 1.00)
      else if material_type = MATERIAL_COMETARY then
        (if lt diameter_km 0.001 then 0.98 else 0.99)
      else
        (if lt diameter_km 0.001 then 0.99 else 1.00))"

text \<open>
  \<^verbatim>\<open>atmospheric_retention\<close>: the \<^verbatim>\<open>switch\<close> over the planet type, one case per
  definition above (each is the body of that \<^verbatim>\<open>case\<close>, every band a \<^verbatim>\<open>return\<close>);
  \<^verbatim>\<open>PLANET_VACUUM\<close> and \<^verbatim>\<open>default\<close> return \<^verbatim>\<open>1.00\<close>.
\<close>

definition atmospheric_retention :: "dbl \<Rightarrow> int \<Rightarrow> int \<Rightarrow> real" where
  "atmospheric_retention diameter_km planet_type material_type =
     (if planet_type = PLANET_EARTH then retention_earth diameter_km material_type
      else if planet_type = PLANET_MARS then retention_mars diameter_km material_type
      else if planet_type = PLANET_VENUS then retention_venus diameter_km material_type
      else if planet_type = PLANET_JUPITER then retention_jupiter diameter_km material_type
      else if planet_type = PLANET_SATURN then retention_saturn diameter_km material_type
      else if planet_type = PLANET_URANUS then retention_uranus diameter_km material_type
      else if planet_type = PLANET_NEPTUNE then retention_neptune diameter_km material_type
      else if planet_type = PLANET_PLUTO then retention_pluto diameter_km material_type
      else if planet_type = PLANET_MOON then retention_moon diameter_km material_type
      else 1.00)"

section \<open>Atmospheric retention (QB64 port)\<close>

text \<open>
  \<^verbatim>\<open>FUNCTION AtmosphericRetention\<close>. In QB64 an assignment to the function's name sets
  the value to be returned and execution goes on with the next statement; the function
  has no \<^verbatim>\<open>EXIT FUNCTION\<close>. Each \<^verbatim>\<open>IF ... THEN AtmosphericRetention = x\<close> is therefore a
  conditional update of the result \<open>r\<close> (initially zero), and the unconditional assignment
  that ends each material branch comes last. \<^verbatim>\<open>SELECT CASE\<close> has the cases 0, 1, 2, 3,
  8 and 9 and a \<^verbatim>\<open>CASE ELSE\<close>.
\<close>

definition AtmosphericRetention :: "dbl \<Rightarrow> int \<Rightarrow> int \<Rightarrow> real" where
  "AtmosphericRetention diameter_km planet_type material_type =
     (if planet_type = 0 then
        (if material_type = MATERIAL_IRON then
           (let r = (0::real);
                r = (if lt diameter_km 0.01 then 0.00 else r);
                r = (if lt diameter_km 0.03 then 0.20 else r);
                r = (if lt diameter_km 0.05 then 0.50 else r);
                r = (if lt diameter_km 0.10 then 0.80 else r);
                r = (if lt diameter_km 0.20 then 0.90 else r);
                r = 0.95
            in r)
         else if material_type = MATERIAL_COMETARY then
           (let r = (0::real);
                r = (if lt diameter_km 0.05 then 0.00 else r);
                r = (if lt diameter_km 0.20 then 0.05 else r);
                r = 0.80
            in r)
         else
           (let r = (0::real);
                r = (if lt diameter_km 0.01 then 0.01 else r);
                r = (if lt diameter_km 0.03 then 0.10 else r);
                r = (if lt diameter_km 0.20 then 0.50 else r);
                r = 0.90
            in r))
      else if planet_type = 1 then
        (if material_type = MATERIAL_IRON then
           (let r = (0::real);
                r = (if lt diameter_km 0.001 then 0.80 else r);
                r = 0.95
            in r)
         else if material_type = MATERIAL_COMETARY then
           (let r = (0::real);
                r = (if lt diameter_km 0.01 then 0.70 else r);
                r = 0.90
            in r)
         else
           (let r = (0::real);
                r = (if lt diameter_km 0.005 then 0.85 else r);
                r = 0.95
            in r))
      else if planet_type = 2 then
        (if material_type = MATERIAL_IRON then
           (let r = (0::real);
                r = (if lt diameter_km 0.10 then 0.00 else r);
                r = (if lt diameter_km 0.50 then 0.10 else r);
                r = (if lt diameter_km 1.00 then 0.50 else r);
                r = 0.80
            in r)
         else if material_type = MATERIAL_COMETARY then
           (let r = (0::real);
                r = (if lt diameter_km 1.00 then 0.00 else r);
                r = 0.30
            in r)
         else
           (let r = (0::real);
                r = (if lt diameter_km 0.20 then 0.00 else r);
                r = (if lt diameter_km 1.00 then 0.05 else r);
                r = 0.60
            in r))
      else if planet_type = 3 then
        (if material_type = MATERIAL_IRON then
           (let r = (0::real);
                r = (if lt diameter_km 1.00 then 0.00 else r);
                r = (if lt diameter_km 10.0 then 0.01 else r);
                r = 0.20
            in r)
         else
           (let r = (0::real);
                r = (if lt diameter_km 10.0 then 0.00 else r);
                r = 0.10
            in r))
      else if planet_type = 8 then
        (if material_type = MATERIAL_IRON then
           (let r = (0::real);
                r = (if lt diameter_km 0.001 then 0.99 else r);
                r = 1.00
            in r)
         else if material_type = MATERIAL_COMETARY then
           (let r = (0::real);
                r = (if lt diameter_km 0.001 then 0.98 else r);
                r = 0.99
            in r)
         else
           (let r = (0::real);
                r = (if lt diameter_km 0.001 then 0.99 else r);
                r = 1.00
            in r))
      else if planet_type = 9 then 1.00
      else 1.00)"

section \<open>Names of planets and materials (C port)\<close>

text \<open>
  A \<^verbatim>\<open>const char*\<close> argument is \<open>None\<close> for \<^verbatim>\<open>NULL\<close>, else the characters before the
  terminator. \<^verbatim>\<open>strcasecmp(a, b) == 0\<close> compares the two strings after \<^verbatim>\<open>tolower\<close>
  (C locale: only \<^verbatim>\<open>A\<close> to \<^verbatim>\<open>Z\<close> change).
\<close>

definition tolower :: "char \<Rightarrow> char" where
  "tolower ch =
     (if 65 \<le> (of_char ch :: nat) \<and> (of_char ch :: nat) \<le> 90
      then char_of ((of_char ch :: nat) + 32) else ch)"

definition strcasecmp_eq :: "string \<Rightarrow> string \<Rightarrow> bool" where
  "strcasecmp_eq a b = (map tolower a = map tolower b)"

definition get_planet_type :: "string option \<Rightarrow> int" where
  "get_planet_type planet_name =
     (case planet_name of
        None \<Rightarrow> PLANET_EARTH
      | Some n \<Rightarrow>
          if strcasecmp_eq n ''earth'' then PLANET_EARTH
          else if strcasecmp_eq n ''mars'' then PLANET_MARS
          else if strcasecmp_eq n ''venus'' then PLANET_VENUS
          else if strcasecmp_eq n ''jupiter'' then PLANET_JUPITER
          else if strcasecmp_eq n ''saturn'' then PLANET_SATURN
          else if strcasecmp_eq n ''uranus'' then PLANET_URANUS
          else if strcasecmp_eq n ''neptune'' then PLANET_NEPTUNE
          else if strcasecmp_eq n ''pluto'' then PLANET_PLUTO
          else if strcasecmp_eq n ''moon'' then PLANET_MOON
          else if strcasecmp_eq n ''vacuum'' then PLANET_VACUUM
          else PLANET_EARTH)"

definition get_material_type :: "string option \<Rightarrow> int" where
  "get_material_type material_name =
     (case material_name of
        None \<Rightarrow> MATERIAL_STONY
      | Some n \<Rightarrow>
          if strcasecmp_eq n ''iron'' then MATERIAL_IRON
          else if strcasecmp_eq n ''cometary'' then MATERIAL_COMETARY
          else if strcasecmp_eq n ''stony'' then MATERIAL_STONY
          else MATERIAL_STONY)"

section \<open>Required speed for a given mass (modes m and d)\<close>

text \<open>
  The four lines that both modes run on the binding energy \<open>U\<close>, the effective
  efficiency and the mass \<open>m > 0\<close>:
  \<^verbatim>\<open>v_class = sqrt(2.0*(U/effective_eps)/m)\<close>,
  \<^verbatim>\<open>gamma = 1.0 + (U/effective_eps)/(m*c*c)\<close>,
  \<^verbatim>\<open>beta2 = 1.0 - 1.0/(gamma*gamma)\<close>,
  \<^verbatim>\<open>v_rel = c * sqrt(beta2<=0.0?0.0:beta2)\<close>.
  Here they are exact: \<open>gamma\<close> is above 1 and \<open>beta2\<close> below 1 for every finite energy.
  What rounding makes of them (\<open>gamma = 1\<close> or \<open>beta2 = 1\<close> exactly, an overflow of
  \<^verbatim>\<open>m*c*c\<close>) is in \<open>solve_m64\<close> and \<open>solve_d64\<close> below.
\<close>

definition v_class_of :: "real \<Rightarrow> real \<Rightarrow> real \<Rightarrow> dbl" where
  "v_class_of U effective_eps m = lift (\<lambda>t. sqrt (2 * t / m)) (quot U effective_eps)"

definition gamma_of :: "real \<Rightarrow> real \<Rightarrow> real \<Rightarrow> dbl" where
  "gamma_of U effective_eps m = lift (\<lambda>t. 1 + t / (m * c * c)) (quot U effective_eps)"

definition beta2_of :: "dbl \<Rightarrow> real" where
  "beta2_of gamma = 1 - recip (lift (\<lambda>g. g * g) gamma)"

definition v_rel_of :: "real \<Rightarrow> real" where
  "v_rel_of beta2 = c * sqrt (if beta2 \<le> 0 then 0 else beta2)"

record speeds =
  mass :: real
  retention :: real
  effective_eps :: real
  v_class :: dbl
  v_rel :: real

text \<open>
  The computations are written over the retention function, so that they serve the C
  port (with \<^const>\<open>atmospheric_retention\<close>) and the QB64 port (with
  \<^const>\<open>AtmosphericRetention\<close>); \<^verbatim>\<open>cbrt\<close> and QB64's \<^verbatim>\<open>^ (1.0 / 3.0)\<close> are
  \<^term>\<open>root 3\<close>.
\<close>

definition solve_m ::
  "(dbl \<Rightarrow> int \<Rightarrow> int \<Rightarrow> real) \<Rightarrow> real \<Rightarrow> int \<Rightarrow> int \<Rightarrow> real \<Rightarrow> real \<Rightarrow> speeds" where
  "solve_m ret U planet_type material_type m eps =
     (let volume = m / 3000;
          D_km = 2 * root 3 ((3 * volume) / (4 * PI)) / 1000;
          retention = ret (Fin D_km) planet_type material_type;
          effective_eps = eps * retention;
          v_class = v_class_of U effective_eps m;
          gamma = gamma_of U effective_eps m;
          beta2 = beta2_of gamma;
          v_rel = v_rel_of beta2
      in \<lparr>mass = m, retention = retention, effective_eps = effective_eps,
          v_class = v_class, v_rel = v_rel\<rparr>)"

definition solve_d ::
  "(dbl \<Rightarrow> int \<Rightarrow> int \<Rightarrow> real) \<Rightarrow> real \<Rightarrow> int \<Rightarrow> int \<Rightarrow> real \<Rightarrow> real \<Rightarrow> real \<Rightarrow> speeds" where
  "solve_d ret U planet_type material_type D_km rho eps =
     (let retention = ret (Fin D_km) planet_type material_type;
          effective_eps = eps * retention;
          D = D_km * 1000;
          volume = (4 / 3) * PI * (D / 2) ^ 3;
          m = rho * volume;
          v_class = v_class_of U effective_eps m;
          gamma = gamma_of U effective_eps m;
          beta2 = beta2_of gamma;
          v_rel = v_rel_of beta2
      in \<lparr>mass = m, retention = retention, effective_eps = effective_eps,
          v_class = v_class, v_rel = v_rel\<rparr>)"

section \<open>Required mass for a given speed (mode v)\<close>

text \<open>
  \<^verbatim>\<open>beta = v / c\<close>, \<^verbatim>\<open>gamma = 1.0 / sqrt(1.0 - beta*beta)\<close>,
  \<^verbatim>\<open>k_per_mass = (gamma - 1.0) * c * c\<close>; run only after the check \<^verbatim>\<open>beta >= 1.0\<close>.
  Exact here; in binary64 (\<open>solve_v64\<close> below) \<^verbatim>\<open>1.0 - beta*beta\<close> rounds to 1 for speeds
  of a few m/s.
\<close>

definition k_per_mass_of :: "real \<Rightarrow> real" where
  "k_per_mass_of v =
     (let beta = v / c;
          gamma = 1 / sqrt (1 - beta * beta)
      in (gamma - 1) * c * c)"

text \<open>\<^verbatim>\<open>volume = m_req / rho\<close>, \<^verbatim>\<open>2.0 * cbrt((3.0*volume)/(4.0*PI))\<close>, for \<open>rho > 0\<close>.\<close>

definition diameter_of :: "dbl \<Rightarrow> real \<Rightarrow> dbl" where
  "diameter_of m_req rho = lift (\<lambda>m. 2 * root 3 ((3 * (m / rho)) / (4 * PI))) m_req"

record sizes =
  retention_v :: real
  effective_eps_v :: real
  m_req :: dbl
  D_req :: dbl
  m_class :: dbl

definition solve_v ::
  "(dbl \<Rightarrow> int \<Rightarrow> int \<Rightarrow> real) \<Rightarrow> real \<Rightarrow> int \<Rightarrow> int \<Rightarrow> real \<Rightarrow> real \<Rightarrow> real \<Rightarrow> sizes" where
  "solve_v ret U planet_type material_type v_km_s rho eps =
     (let v = v_km_s * 1000;
          k_per_mass = k_per_mass_of v;
          m_req = quot U (eps * k_per_mass);
          D_initial = diameter_of m_req rho;
          D_km_initial = lift (\<lambda>d. d / 1000) D_initial;
          retention = ret D_km_initial planet_type material_type;
          effective_eps = eps * retention;
          m_req = quot U (effective_eps * k_per_mass);
          D_initial = diameter_of m_req rho;
          D_km_initial = lift (\<lambda>d. d / 1000) D_initial;
          retention = ret D_km_initial planet_type material_type;
          effective_eps = eps * retention;
          m_req = quot U (effective_eps * k_per_mass);
          D = diameter_of m_req rho;
          m_class = quot (2 * U) (effective_eps * v * v)
      in \<lparr>retention_v = retention, effective_eps_v = effective_eps, m_req = m_req,
          D_req = D, m_class = m_class\<rparr>)"

section \<open>The program (C port), after the command line is parsed\<close>

text \<open>
  \<^verbatim>\<open>main\<close> from the point where the arguments are parsed: the optional names and the
  numbers read by \<^verbatim>\<open>atof\<close> (or their defaults) are the inputs. What the program prints
  on standard output is a list of lines, each holding the values it formats; the
  message on standard error and the exit status complete a run. The comparisons of this
  model are exact; \<open>mode_m64\<close>, \<open>mode_d64\<close> and \<open>mode_v64\<close> below are the same runs on
  rounded values, where \<^verbatim>\<open>beta >= 1.0\<close> tests the rounded quotient.
\<close>

record args =
  has_object :: bool
  object_name :: string
  planet_name :: "string option"
  material_name :: "string option"

datatype line =
    OBJECT string
  | PLANET string real
  | MATERIAL string real
  | INPUT "real list"
  | TARGET dbl real
  | RESULT_mass real real real
  | RESULT_classical dbl
  | RESULT_relativistic real
  | NOTE_ultra
  | SURVIVES string
  | DESTROYED string real
  | RESULT_required_mass dbl dbl dbl
  | RESULT_classical_mass dbl
  | RESULT_diameter dbl
  | NOTE_any_impactor dbl real string

datatype run = Run (stdout: "line list") (stderr: "string list") (status: int)

definition object_line :: "args \<Rightarrow> line list" where
  "object_line a = (if has_object a then [OBJECT (object_name a)] else [])"

definition planet_line :: "args \<Rightarrow> real \<Rightarrow> line list" where
  "planet_line a U = (case planet_name a of Some n \<Rightarrow> [PLANET n U] | None \<Rightarrow> [])"

definition material_line :: "args \<Rightarrow> real \<Rightarrow> line list" where
  "material_line a fraction =
     (case material_name a of Some n \<Rightarrow> [MATERIAL n fraction] | None \<Rightarrow> [])"

definition planet_or :: "args \<Rightarrow> string \<Rightarrow> string" where
  "planet_or a dflt = (case planet_name a of Some n \<Rightarrow> n | None \<Rightarrow> dflt)"

text \<open>The \<^verbatim>\<open>if (v_rel >= 0.99*c)\<close> that ends modes m and d.\<close>

definition conclusion :: "args \<Rightarrow> real \<Rightarrow> line list" where
  "conclusion a speed =
     (if speed \<ge> 0.99 * c then [NOTE_ultra, SURVIVES (planet_or a ''TARGET'')]
      else [DESTROYED (planet_or a ''TARGET'') (speed / 1000)])"

definition mode_m :: "args \<Rightarrow> real \<Rightarrow> real \<Rightarrow> run" where
  "mode_m a m eps =
     (let planet_type = get_planet_type (planet_name a);
          material_type = get_material_type (material_name a);
          U = get_planetary_binding_energy planet_type
      in if m \<le> 0 \<or> eps \<le> 0 then Run [] [''Inputs must be positive.''] 1
         else
           let r = solve_m atmospheric_retention U planet_type material_type m eps
           in Run (object_line a @ planet_line a U @ material_line a (retention r) @
                   [INPUT [m, eps],
                    TARGET (quot U (effective_eps r)) (effective_eps r),
                    RESULT_classical (lift (\<lambda>x. x / 1000) (v_class r)),
                    RESULT_relativistic (v_rel r / 1000)] @
                   conclusion a (v_rel r))
                  [] 0)"

definition mode_d :: "args \<Rightarrow> real \<Rightarrow> real \<Rightarrow> real \<Rightarrow> run" where
  "mode_d a D_km rho eps =
     (let planet_type = get_planet_type (planet_name a);
          material_type = get_material_type (material_name a);
          U = get_planetary_binding_energy planet_type
      in if D_km \<le> 0 \<or> rho \<le> 0 \<or> eps \<le> 0 then Run [] [''Inputs must be positive.''] 1
         else
           let r = solve_d atmospheric_retention U planet_type material_type D_km rho eps
           in Run (object_line a @ planet_line a U @ material_line a (retention r) @
                   [INPUT [D_km, rho, eps],
                    TARGET (quot U (effective_eps r)) (effective_eps r),
                    RESULT_mass (mass r) (mass r / MERCURY_MASS) (mass r / CERES_MASS),
                    RESULT_classical (lift (\<lambda>x. x / 1000) (v_class r)),
                    RESULT_relativistic (v_rel r / 1000)] @
                   conclusion a (v_rel r))
                  [] 0)"

definition mode_v :: "args \<Rightarrow> real \<Rightarrow> real \<Rightarrow> real \<Rightarrow> run" where
  "mode_v a v_km_s rho eps =
     (let planet_type = get_planet_type (planet_name a);
          material_type = get_material_type (material_name a);
          U = get_planetary_binding_energy planet_type
      in if v_km_s \<le> 0 \<or> rho \<le> 0 \<or> eps \<le> 0 then Run [] [''Inputs must be positive.''] 1
         else
           let header = object_line a @ [PLANET (planet_or a ''target'') U];
               v = v_km_s * 1000;
               beta = v / c
           in if beta \<ge> 1 then Run header [''Speed must be < c.''] 1
              else
                let r = solve_v atmospheric_retention U planet_type material_type v_km_s rho eps
                in Run (header @ material_line a (retention_v r) @
                        [INPUT [v_km_s, rho, eps],
                         TARGET (quot U (effective_eps_v r)) (effective_eps_v r),
                         RESULT_required_mass (m_req r)
                           (lift (\<lambda>x. x / MERCURY_MASS) (m_req r))
                           (lift (\<lambda>x. x / CERES_MASS) (m_req r)),
                         RESULT_classical_mass (m_class r),
                         RESULT_diameter (lift (\<lambda>x. x / 1000) (D_req r)),
                         NOTE_any_impactor (lift (\<lambda>x. x / 1000) (D_req r)) v_km_s
                           (planet_or a ''target'')])
                       [] 0)"

section \<open>Notions of the specification\<close>

text \<open>
  \<open>relativisticVelocity\<close> in the specification's words: the Lorentz factor from the
  kinetic energy per unit mass, then the two lines \<^const>\<open>beta2_of\<close> and
  \<^const>\<open>v_rel_of\<close> of the programs. Modes m and d run it at
  \<^verbatim>\<open>(U/effective_eps)/m\<close> (lemma \<open>v_rel_is_relativisticVelocity\<close> below). This is the
  exact function; the rounded one is \<open>relativisticVelocity64\<close>.
\<close>

definition relativisticVelocity :: "real \<Rightarrow> real" where
  "relativisticVelocity energyPerMass =
     (let gamma = 1 + energyPerMass / (c * c);
          beta2 = beta2_of (Fin gamma)
      in v_rel_of beta2)"

text \<open>The names the two lookups recognise, in lower case.\<close>

definition planet_names :: "string list" where
  "planet_names = [''earth'', ''mars'', ''venus'', ''jupiter'', ''saturn'', ''uranus'',
     ''neptune'', ''pluto'', ''moon'', ''vacuum'']"

definition material_names :: "string list" where
  "material_names = [''iron'', ''cometary'', ''stony'']"

text \<open>The command line with no names, and the one of the reference scenario.\<close>

definition no_names :: args where
  "no_names = \<lparr>has_object = False, object_name = [], planet_name = None,
     material_name = None\<rparr>"

definition pluto_iron :: args where
  "pluto_iron = \<lparr>has_object = False, object_name = [], planet_name = Some ''pluto'',
     material_name = Some ''iron''\<rparr>"

section \<open>Binary64 arithmetic\<close>

text \<open>
  What the programs really compute: IEEE 754 binary64 with round to nearest, ties to even,
  one rounding per operation (no operation is fused with another). A value is a finite real (one that the format holds, when it
  is the result of an operation), an infinity or NaN. The sign of zero is not kept: no
  negative zero arises from the non-negative quantities of the three modes.

  \<open>pow2 e\<close> is the power of two \<open>2 ^ e\<close>; \<open>expo x\<close> the binary exponent of \<open>x\<close>; \<open>rhe\<close> rounds a
  real to the nearest integer, ties to even; the quantum of \<open>x\<close> is the spacing of the
  format at \<open>x\<close> (that of the smallest normal numbers below them); \<open>rr x\<close> is \<open>x\<close> rounded
  to a multiple of its quantum and \<open>rnd x\<close> the result of an operation whose exact value
  is \<open>x\<close>, an infinity from \<open>2 ^ 1024\<close> on.
\<close>

definition pow2 :: "int \<Rightarrow> real" where
  "pow2 e = 2 powr (of_int e)"

definition expo :: "real \<Rightarrow> int" where
  "expo x = \<lfloor>log 2 \<bar>x\<bar>\<rfloor>"

definition rhe :: "real \<Rightarrow> int" where
  "rhe x =
     (let f = \<lfloor>x\<rfloor>; d = x - of_int f
      in if d < 1 / 2 then f
         else if 1 / 2 < d then f + 1
         else if even f then f else f + 1)"

definition quantum :: "real \<Rightarrow> real" where
  "quantum x = pow2 (max (expo x) (- 1022) - 52)"

definition rr :: "real \<Rightarrow> real" where
  "rr x = quantum x * of_int (rhe (x / quantum x))"

definition eexp :: "real \<Rightarrow> int" where
  "eexp x = max (expo x) (- 1022)"

datatype f64 = Finite real | PlusInf | MinusInf | NaN

definition rnd :: "real \<Rightarrow> f64" where
  "rnd x =
     (let r = rr x
      in if pow2 1024 \<le> \<bar>r\<bar> then (if 0 < x then PlusInf else MinusInf) else Finite r)"

text \<open>A decimal literal, or a number read by \<^verbatim>\<open>atof\<close>.\<close>

definition lit :: "real \<Rightarrow> f64" where
  "lit x = rnd x"

fun neg64 :: "f64 \<Rightarrow> f64" where
  "neg64 (Finite a) = Finite (- a)"
| "neg64 PlusInf = MinusInf"
| "neg64 MinusInf = PlusInf"
| "neg64 NaN = NaN"

fun add64 :: "f64 \<Rightarrow> f64 \<Rightarrow> f64" where
  "add64 (Finite a) (Finite b) = rnd (a + b)"
| "add64 NaN y = NaN"
| "add64 x NaN = NaN"
| "add64 PlusInf MinusInf = NaN"
| "add64 MinusInf PlusInf = NaN"
| "add64 PlusInf y = PlusInf"
| "add64 x PlusInf = PlusInf"
| "add64 MinusInf y = MinusInf"
| "add64 x MinusInf = MinusInf"

definition sub64 :: "f64 \<Rightarrow> f64 \<Rightarrow> f64" where
  "sub64 x y = add64 x (neg64 y)"

fun sign64 :: "f64 \<Rightarrow> real" where
  "sign64 (Finite a) = sgn a"
| "sign64 PlusInf = 1"
| "sign64 MinusInf = - 1"
| "sign64 NaN = 0"

definition inf64 :: "real \<Rightarrow> f64" where
  "inf64 s = (if 0 < s then PlusInf else MinusInf)"

fun mul64 :: "f64 \<Rightarrow> f64 \<Rightarrow> f64" where
  "mul64 (Finite a) (Finite b) = rnd (a * b)"
| "mul64 NaN y = NaN"
| "mul64 x NaN = NaN"
| "mul64 x y = (if sign64 x * sign64 y = 0 then NaN else inf64 (sign64 x * sign64 y))"

fun div64 :: "f64 \<Rightarrow> f64 \<Rightarrow> f64" where
  "div64 (Finite a) (Finite b) =
     (if b = 0 then (if a = 0 then NaN else inf64 (sgn a)) else rnd (a / b))"
| "div64 NaN y = NaN"
| "div64 x NaN = NaN"
| "div64 (Finite a) y = Finite 0"
| "div64 x (Finite b) = inf64 (sign64 x * (if b < 0 then - 1 else 1))"
| "div64 x y = NaN"

fun sqrt64 :: "f64 \<Rightarrow> f64" where
  "sqrt64 (Finite a) = (if a < 0 then NaN else rnd (sqrt a))"
| "sqrt64 PlusInf = PlusInf"
| "sqrt64 MinusInf = NaN"
| "sqrt64 NaN = NaN"

fun lt64 :: "f64 \<Rightarrow> f64 \<Rightarrow> bool" where
  "lt64 (Finite a) (Finite b) = (a < b)"
| "lt64 NaN y = False"
| "lt64 x NaN = False"
| "lt64 x MinusInf = False"
| "lt64 PlusInf y = False"
| "lt64 x y = True"

fun le64 :: "f64 \<Rightarrow> f64 \<Rightarrow> bool" where
  "le64 (Finite a) (Finite b) = (a \<le> b)"
| "le64 NaN y = False"
| "le64 x NaN = False"
| "le64 MinusInf y = True"
| "le64 x PlusInf = True"
| "le64 x y = False"

definition ge64 :: "f64 \<Rightarrow> f64 \<Rightarrow> bool" where
  "ge64 x y = le64 y x"

text \<open>A finite value between two bounds.\<close>

definition ranged :: "real \<Rightarrow> real \<Rightarrow> f64 \<Rightarrow> bool" where
  "ranged lo hi x = (case x of Finite r \<Rightarrow> lo \<le> r \<and> r \<le> hi | _ \<Rightarrow> False)"

section \<open>The C program in binary64\<close>

text \<open>
  The same program with every operation rounded. Literals are converted by \<^const>\<open>lit\<close>;
  \<^verbatim>\<open>cbrt\<close> and \<^verbatim>\<open>pow\<close> come from the C library, whose last-bit behaviour is not
  fixed by a standard, so they are parameters.
\<close>

record libm =
  cbrt :: "f64 \<Rightarrow> f64"
  pow :: "f64 \<Rightarrow> f64 \<Rightarrow> f64"

definition c64 :: f64 where "c64 = lit 299792458.0"
definition PI64 :: f64 where "PI64 = lit 3.14159265358979323846"
definition MERCURY_MASS64 :: f64 where "MERCURY_MASS64 = lit (3.30 * 10 ^ 23)"
definition CERES_MASS64 :: f64 where "CERES_MASS64 = lit (9.38 * 10 ^ 20)"

definition get_planetary_binding_energy64 :: "int \<Rightarrow> f64" where
  "get_planetary_binding_energy64 planet_type =
     (if planet_type = PLANET_EARTH then lit (2.49 * 10 ^ 32)
      else if planet_type = PLANET_MARS then lit (4.87 * 10 ^ 30)
      else if planet_type = PLANET_VENUS then lit (1.57 * 10 ^ 32)
      else if planet_type = PLANET_JUPITER then lit (2.06 * 10 ^ 36)
      else if planet_type = PLANET_SATURN then lit (2.22 * 10 ^ 35)
      else if planet_type = PLANET_URANUS then lit (1.19 * 10 ^ 34)
      else if planet_type = PLANET_NEPTUNE then lit (1.69 * 10 ^ 34)
      else if planet_type = PLANET_PLUTO then lit (2.85 * 10 ^ 27)
      else if planet_type = PLANET_MOON then lit (1.23 * 10 ^ 29)
      else lit (2.49 * 10 ^ 32))"

definition retention_earth_64 :: "f64 \<Rightarrow> int \<Rightarrow> f64" where
  "retention_earth_64 diameter_km material_type =
     (if material_type = MATERIAL_IRON then
        (if lt64 diameter_km (lit 0.01) then lit 0.00
         else if lt64 diameter_km (lit 0.03) then lit 0.20
         else if lt64 diameter_km (lit 0.05) then lit 0.50
         else if lt64 diameter_km (lit 0.10) then lit 0.80
         else if lt64 diameter_km (lit 0.20) then lit 0.90
         else lit 0.95)
      else if material_type = MATERIAL_COMETARY then
        (if lt64 diameter_km (lit 0.05) then lit 0.00
         else if lt64 diameter_km (lit 0.20) then lit 0.05
         else lit 0.80)
      else
        (if lt64 diameter_km (lit 0.01) then lit 0.01
         else if lt64 diameter_km (lit 0.03) then lit 0.10
         else if lt64 diameter_km (lit 0.20) then lit 0.50
         else lit 0.90))"

definition retention_mars_64 :: "f64 \<Rightarrow> int \<Rightarrow> f64" where
  "retention_mars_64 diameter_km material_type =
     (if material_type = MATERIAL_IRON then
        (if lt64 diameter_km (lit 0.001) then lit 0.80 else lit 0.95)
      else if material_type = MATERIAL_COMETARY then
        (if lt64 diameter_km (lit 0.01) then lit 0.70 else lit 0.90)
      else
        (if lt64 diameter_km (lit 0.005) then lit 0.85 else lit 0.95))"

definition retention_venus_64 :: "f64 \<Rightarrow> int \<Rightarrow> f64" where
  "retention_venus_64 diameter_km material_type =
     (if material_type = MATERIAL_IRON then
        (if lt64 diameter_km (lit 0.10) then lit 0.00
         else if lt64 diameter_km (lit 0.50) then lit 0.10
         else if lt64 diameter_km (lit 1.00) then lit 0.50
         else lit 0.80)
      else if material_type = MATERIAL_COMETARY then
        (if lt64 diameter_km (lit 1.00) then lit 0.00 else lit 0.30)
      else
        (if lt64 diameter_km (lit 0.20) then lit 0.00
         else if lt64 diameter_km (lit 1.00) then lit 0.05
         else lit 0.60))"

definition retention_jupiter_64 :: "f64 \<Rightarrow> int \<Rightarrow> f64" where
  "retention_jupiter_64 diameter_km material_type =
     (if material_type = MATERIAL_IRON then
        (if lt64 diameter_km (lit 1.00) then lit 0.00
         else if lt64 diameter_km (lit 10.0) then lit 0.01
         else lit 0.20)
      else
        (if lt64 diameter_km (lit 10.0) then lit 0.00 else lit 0.10))"

definition retention_saturn_64 :: "f64 \<Rightarrow> int \<Rightarrow> f64" where
  "retention_saturn_64 diameter_km material_type =
     (if material_type = MATERIAL_IRON then
        (if lt64 diameter_km (lit 0.50) then lit 0.00
         else if lt64 diameter_km (lit 5.00) then lit 0.05
         else lit 0.30)
      else
        (if lt64 diameter_km (lit 5.00) then lit 0.00 else lit 0.15))"

definition retention_uranus_64 :: "f64 \<Rightarrow> int \<Rightarrow> f64" where
  "retention_uranus_64 diameter_km material_type =
     (if material_type = MATERIAL_IRON then
        (if lt64 diameter_km (lit 2.00) then lit 0.00
         else if lt64 diameter_km (lit 10.0) then lit 0.02
         else lit 0.25)
      else
        (if lt64 diameter_km (lit 10.0) then lit 0.00 else lit 0.15))"

definition retention_neptune_64 :: "f64 \<Rightarrow> int \<Rightarrow> f64" where
  "retention_neptune_64 diameter_km material_type =
     (if material_type = MATERIAL_IRON then
        (if lt64 diameter_km (lit 3.00) then lit 0.00
         else if lt64 diameter_km (lit 15.0) then lit 0.01
         else lit 0.20)
      else
        (if lt64 diameter_km (lit 15.0) then lit 0.00 else lit 0.10))"

definition retention_pluto_64 :: "f64 \<Rightarrow> int \<Rightarrow> f64" where
  "retention_pluto_64 diameter_km material_type =
     (if material_type = MATERIAL_IRON then
        (if lt64 diameter_km (lit 0.001) then lit 0.95 else lit 0.99)
      else if material_type = MATERIAL_COMETARY then
        (if lt64 diameter_km (lit 0.01) then lit 0.90 else lit 0.98)
      else
        (if lt64 diameter_km (lit 0.005) then lit 0.92 else lit 0.98))"

definition retention_moon_64 :: "f64 \<Rightarrow> int \<Rightarrow> f64" where
  "retention_moon_64 diameter_km material_type =
     (if material_type = MATERIAL_IRON then
        (if lt64 diameter_km (lit 0.001) then lit 0.99 else lit 1.00)
      else if material_type = MATERIAL_COMETARY then
        (if lt64 diameter_km (lit 0.001) then lit 0.98 else lit 0.99)
      else
        (if lt64 diameter_km (lit 0.001) then lit 0.99 else lit 1.00))"

definition atmospheric_retention64 :: "f64 \<Rightarrow> int \<Rightarrow> int \<Rightarrow> f64" where
  "atmospheric_retention64 diameter_km planet_type material_type =
     (if planet_type = PLANET_EARTH then retention_earth_64 diameter_km material_type
      else if planet_type = PLANET_MARS then retention_mars_64 diameter_km material_type
      else if planet_type = PLANET_VENUS then retention_venus_64 diameter_km material_type
      else if planet_type = PLANET_JUPITER then retention_jupiter_64 diameter_km material_type
      else if planet_type = PLANET_SATURN then retention_saturn_64 diameter_km material_type
      else if planet_type = PLANET_URANUS then retention_uranus_64 diameter_km material_type
      else if planet_type = PLANET_NEPTUNE then retention_neptune_64 diameter_km material_type
      else if planet_type = PLANET_PLUTO then retention_pluto_64 diameter_km material_type
      else if planet_type = PLANET_MOON then retention_moon_64 diameter_km material_type
      else lit 1.00)"


record speeds64 =
  mass64 :: f64
  retention64 :: f64
  effective_eps64 :: f64
  v_class64 :: f64
  v_rel64 :: f64

definition solve_m64 ::
  "libm \<Rightarrow> (f64 \<Rightarrow> int \<Rightarrow> int \<Rightarrow> f64) \<Rightarrow> f64 \<Rightarrow> int \<Rightarrow> int \<Rightarrow> f64 \<Rightarrow> f64 \<Rightarrow> speeds64" where
  "solve_m64 lm ret U planet_type material_type m eps =
     (let volume = div64 m (lit 3000.0);
          D_km = div64 (mul64 (lit 2.0)
                   (cbrt lm (div64 (mul64 (lit 3.0) volume) (mul64 (lit 4.0) PI64))))
                   (lit 1000.0);
          looked_up = ret D_km planet_type material_type;
          eff = mul64 eps looked_up;
          v_class = sqrt64 (div64 (mul64 (lit 2.0) (div64 U eff)) m);
          gamma = add64 (lit 1.0) (div64 (div64 U eff) (mul64 (mul64 m c64) c64));
          beta2 = sub64 (lit 1.0) (div64 (lit 1.0) (mul64 gamma gamma));
          v_rel = mul64 c64 (sqrt64 (if le64 beta2 (lit 0.0) then lit 0.0 else beta2))
      in \<lparr>mass64 = m, retention64 = looked_up, effective_eps64 = eff,
          v_class64 = v_class, v_rel64 = v_rel\<rparr>)"

definition solve_d64 ::
  "libm \<Rightarrow> (f64 \<Rightarrow> int \<Rightarrow> int \<Rightarrow> f64) \<Rightarrow> f64 \<Rightarrow> int \<Rightarrow> int \<Rightarrow> f64 \<Rightarrow> f64 \<Rightarrow> f64 \<Rightarrow> speeds64" where
  "solve_d64 lm ret U planet_type material_type D_km rho eps =
     (let looked_up = ret D_km planet_type material_type;
          eff = mul64 eps looked_up;
          D = mul64 D_km (lit 1000.0);
          volume = mul64 (mul64 (div64 (lit 4.0) (lit 3.0)) PI64)
                     (pow lm (div64 D (lit 2.0)) (lit 3.0));
          m = mul64 rho volume;
          v_class = sqrt64 (div64 (mul64 (lit 2.0) (div64 U eff)) m);
          gamma = add64 (lit 1.0) (div64 (div64 U eff) (mul64 (mul64 m c64) c64));
          beta2 = sub64 (lit 1.0) (div64 (lit 1.0) (mul64 gamma gamma));
          v_rel = mul64 c64 (sqrt64 (if le64 beta2 (lit 0.0) then lit 0.0 else beta2))
      in \<lparr>mass64 = m, retention64 = looked_up, effective_eps64 = eff,
          v_class64 = v_class, v_rel64 = v_rel\<rparr>)"

record sizes64 =
  retention_v64 :: f64
  effective_eps_v64 :: f64
  m_req64 :: f64
  D_req64 :: f64
  m_class64 :: f64

definition solve_v64 ::
  "libm \<Rightarrow> (f64 \<Rightarrow> int \<Rightarrow> int \<Rightarrow> f64) \<Rightarrow> f64 \<Rightarrow> int \<Rightarrow> int \<Rightarrow> f64 \<Rightarrow> f64 \<Rightarrow> f64 \<Rightarrow> sizes64" where
  "solve_v64 lm ret U planet_type material_type v_km_s rho eps =
     (let v = mul64 v_km_s (lit 1000.0);
          beta = div64 v c64;
          gamma = div64 (lit 1.0) (sqrt64 (sub64 (lit 1.0) (mul64 beta beta)));
          k_per_mass = mul64 (mul64 (sub64 gamma (lit 1.0)) c64) c64;
          m_req = div64 U (mul64 eps k_per_mass);
          volume = div64 m_req rho;
          D_initial = mul64 (lit 2.0)
                        (cbrt lm (div64 (mul64 (lit 3.0) volume) (mul64 (lit 4.0) PI64)));
          D_km_initial = div64 D_initial (lit 1000.0);
          looked_up = ret D_km_initial planet_type material_type;
          eff = mul64 eps looked_up;
          m_req = div64 U (mul64 eff k_per_mass);
          volume = div64 m_req rho;
          D_initial = mul64 (lit 2.0)
                        (cbrt lm (div64 (mul64 (lit 3.0) volume) (mul64 (lit 4.0) PI64)));
          D_km_initial = div64 D_initial (lit 1000.0);
          looked_up = ret D_km_initial planet_type material_type;
          eff = mul64 eps looked_up;
          m_req = div64 U (mul64 eff k_per_mass);
          volume = div64 m_req rho;
          D = mul64 (lit 2.0)
                (cbrt lm (div64 (mul64 (lit 3.0) volume) (mul64 (lit 4.0) PI64)));
          m_class = div64 (mul64 (lit 2.0) U) (mul64 (mul64 eff v) v)
      in \<lparr>retention_v64 = looked_up, effective_eps_v64 = eff, m_req64 = m_req,
          D_req64 = D, m_class64 = m_class\<rparr>)"

datatype print =
    P_OBJECT string
  | P_PLANET string f64
  | P_MATERIAL string f64
  | P_INPUT "f64 list"
  | P_TARGET f64 f64
  | P_MASS f64 f64 f64
  | P_CLASSICAL f64
  | P_RELATIVISTIC f64
  | P_NOTE_ULTRA
  | P_SURVIVES string
  | P_DESTROYED string f64
  | P_REQUIRED_MASS f64 f64 f64
  | P_CLASSICAL_MASS f64
  | P_DIAMETER f64
  | P_NOTE_ANY f64 f64 string

datatype run64 = Run64 (stdout64: "print list") (stderr64: "string list") (status64: int)

definition object_print :: "args \<Rightarrow> print list" where
  "object_print a = (if has_object a then [P_OBJECT (object_name a)] else [])"

definition planet_print :: "args \<Rightarrow> f64 \<Rightarrow> print list" where
  "planet_print a U = (case planet_name a of Some n \<Rightarrow> [P_PLANET n U] | None \<Rightarrow> [])"

definition material_print :: "args \<Rightarrow> f64 \<Rightarrow> print list" where
  "material_print a fraction =
     (case material_name a of Some n \<Rightarrow> [P_MATERIAL n fraction] | None \<Rightarrow> [])"

definition conclusion64 :: "args \<Rightarrow> f64 \<Rightarrow> print list" where
  "conclusion64 a speed =
     (if ge64 speed (mul64 (lit 0.99) c64)
      then [P_NOTE_ULTRA, P_SURVIVES (planet_or a ''TARGET'')]
      else [P_DESTROYED (planet_or a ''TARGET'') (div64 speed (lit 1000.0))])"

definition mode_m64 :: "libm \<Rightarrow> args \<Rightarrow> f64 \<Rightarrow> f64 \<Rightarrow> run64" where
  "mode_m64 lm a m eps =
     (let planet_type = get_planet_type (planet_name a);
          material_type = get_material_type (material_name a);
          U = get_planetary_binding_energy64 planet_type
      in if le64 m (lit 0.0) \<or> le64 eps (lit 0.0)
         then Run64 [] [''Inputs must be positive.''] 1
         else
           let r = solve_m64 lm atmospheric_retention64 U planet_type material_type m eps
           in Run64 (object_print a @ planet_print a U @ material_print a (retention64 r) @
                   [P_INPUT [m, eps],
                    P_TARGET (div64 U (effective_eps64 r)) (effective_eps64 r),
                    P_CLASSICAL (div64 (v_class64 r) (lit 1000.0)),
                    P_RELATIVISTIC (div64 (v_rel64 r) (lit 1000.0))] @
                   conclusion64 a (v_rel64 r))
                  [] 0)"

definition mode_d64 :: "libm \<Rightarrow> args \<Rightarrow> f64 \<Rightarrow> f64 \<Rightarrow> f64 \<Rightarrow> run64" where
  "mode_d64 lm a D_km rho eps =
     (let planet_type = get_planet_type (planet_name a);
          material_type = get_material_type (material_name a);
          U = get_planetary_binding_energy64 planet_type
      in if le64 D_km (lit 0.0) \<or> le64 rho (lit 0.0) \<or> le64 eps (lit 0.0)
         then Run64 [] [''Inputs must be positive.''] 1
         else
           let r = solve_d64 lm atmospheric_retention64 U planet_type material_type D_km rho eps
           in Run64 (object_print a @ planet_print a U @ material_print a (retention64 r) @
                   [P_INPUT [D_km, rho, eps],
                    P_TARGET (div64 U (effective_eps64 r)) (effective_eps64 r),
                    P_MASS (mass64 r) (div64 (mass64 r) MERCURY_MASS64)
                      (div64 (mass64 r) CERES_MASS64),
                    P_CLASSICAL (div64 (v_class64 r) (lit 1000.0)),
                    P_RELATIVISTIC (div64 (v_rel64 r) (lit 1000.0))] @
                   conclusion64 a (v_rel64 r))
                  [] 0)"

definition mode_v64 :: "libm \<Rightarrow> args \<Rightarrow> f64 \<Rightarrow> f64 \<Rightarrow> f64 \<Rightarrow> run64" where
  "mode_v64 lm a v_km_s rho eps =
     (let planet_type = get_planet_type (planet_name a);
          material_type = get_material_type (material_name a);
          U = get_planetary_binding_energy64 planet_type
      in if le64 v_km_s (lit 0.0) \<or> le64 rho (lit 0.0) \<or> le64 eps (lit 0.0)
         then Run64 [] [''Inputs must be positive.''] 1
         else
           let header = object_print a @ [P_PLANET (planet_or a ''target'') U];
               v = mul64 v_km_s (lit 1000.0);
               beta = div64 v c64
           in if ge64 beta (lit 1.0) then Run64 header [''Speed must be < c.''] 1
              else
                let r = solve_v64 lm atmospheric_retention64 U planet_type material_type
                          v_km_s rho eps
                in Run64 (header @ material_print a (retention_v64 r) @
                        [P_INPUT [v_km_s, rho, eps],
                         P_TARGET (div64 U (effective_eps_v64 r)) (effective_eps_v64 r),
                         P_REQUIRED_MASS (m_req64 r)
                           (div64 (m_req64 r) MERCURY_MASS64)
                           (div64 (m_req64 r) CERES_MASS64),
                         P_CLASSICAL_MASS (m_class64 r),
                         P_DIAMETER (div64 (D_req64 r) (lit 1000.0)),
                         P_NOTE_ANY (div64 (D_req64 r) (lit 1000.0)) v_km_s
                           (planet_or a ''target'')])
                       [] 0)"

section \<open>Notions of the specification, in binary64\<close>


definition relativisticEnergyPerMass64 :: "f64 \<Rightarrow> f64" where
  "relativisticEnergyPerMass64 v =
     (let beta = div64 v c64;
          gamma = div64 (lit 1.0) (sqrt64 (sub64 (lit 1.0) (mul64 beta beta)))
      in mul64 (mul64 (sub64 gamma (lit 1.0)) c64) c64)"

text \<open>
  The three passes of mode v in the specification's words. The diameter derived from a
  mass and a density is that of the sphere of that mass: \<open>2 * cbrt (3 V / (4 pi))\<close> with
  \<open>V = m / rho\<close>. Pass 1 takes the requested efficiency alone; each later pass looks the
  retention up at the current diameter (in km), recomputes the effective efficiency, the
  mass and the diameter.
\<close>

definition sphere_diameter64 :: "libm \<Rightarrow> f64 \<Rightarrow> f64 \<Rightarrow> f64" where
  "sphere_diameter64 lm m rho =
     mul64 (lit 2) (cbrt lm (div64 (mul64 (lit 3) (div64 m rho)) (mul64 (lit 4) PI64)))"

definition first_pass64 :: "libm \<Rightarrow> f64 \<Rightarrow> f64 \<Rightarrow> f64 \<Rightarrow> f64 \<Rightarrow> f64 \<times> f64" where
  "first_pass64 lm U eps k rho =
     (let m = div64 U (mul64 eps k) in (m, sphere_diameter64 lm m rho))"

definition next_pass64 ::
  "libm \<Rightarrow> (f64 \<Rightarrow> int \<Rightarrow> int \<Rightarrow> f64) \<Rightarrow> f64 \<Rightarrow> int \<Rightarrow> int \<Rightarrow> f64 \<Rightarrow> f64 \<Rightarrow> f64
     \<Rightarrow> f64 \<Rightarrow> f64 \<times> f64 \<times> f64 \<times> f64" where
  "next_pass64 lm ret U planet_type material_type eps k rho D =
     (let fraction = ret (div64 D (lit 1000)) planet_type material_type;
          effective = mul64 eps fraction;
          m = div64 U (mul64 effective k)
      in (fraction, effective, m, sphere_diameter64 lm m rho))"

definition three_passes64 ::
  "libm \<Rightarrow> (f64 \<Rightarrow> int \<Rightarrow> int \<Rightarrow> f64) \<Rightarrow> f64 \<Rightarrow> int \<Rightarrow> int \<Rightarrow> f64 \<Rightarrow> f64 \<Rightarrow> f64 \<Rightarrow> sizes64" where
  "three_passes64 lm ret U planet_type material_type v_km_s rho eps =
     (let v = mul64 v_km_s (lit 1000);
          k = relativisticEnergyPerMass64 v;
          (m1, D1) = first_pass64 lm U eps k rho;
          (r2, e2, m2, D2) = next_pass64 lm ret U planet_type material_type eps k rho D1;
          (r3, e3, m3, D3) = next_pass64 lm ret U planet_type material_type eps k rho D2
      in \<lparr>retention_v64 = r3, effective_eps_v64 = e3, m_req64 = m3, D_req64 = D3,
          m_class64 = div64 (mul64 (lit 2) U) (mul64 (mul64 e3 v) v)\<rparr>)"

definition pass2_diameter64 ::
  "libm \<Rightarrow> (f64 \<Rightarrow> int \<Rightarrow> int \<Rightarrow> f64) \<Rightarrow> f64 \<Rightarrow> int \<Rightarrow> int \<Rightarrow> f64 \<Rightarrow> f64 \<Rightarrow> f64 \<Rightarrow> f64" where
  "pass2_diameter64 lm ret U planet_type material_type v_km_s rho eps =
     (let k = relativisticEnergyPerMass64 (mul64 v_km_s (lit 1000));
          (m1, D1) = first_pass64 lm U eps k rho;
          (r2, e2, m2, D2) = next_pass64 lm ret U planet_type material_type eps k rho D1
      in D2)"

text \<open>A run is classified by the \<^verbatim>\<open>CONCLUSION\<close> line it prints.\<close>

fun is_destroyed :: "print \<Rightarrow> bool" where
  "is_destroyed (P_DESTROYED n s) = True"
| "is_destroyed other = False"

fun is_survives :: "print \<Rightarrow> bool" where
  "is_survives (P_SURVIVES n) = True"
| "is_survives other = False"

definition classified_destroyed :: "run64 \<Rightarrow> bool" where
  "classified_destroyed r = list_ex is_destroyed (stdout64 r)"

definition classified_survives :: "run64 \<Rightarrow> bool" where
  "classified_survives r = list_ex is_survives (stdout64 r)"

text \<open>A C library whose two functions are correctly rounded, for examples.\<close>

fun cbrt_rn :: "f64 \<Rightarrow> f64" where
  "cbrt_rn (Finite a) = rnd (root 3 a)"
| "cbrt_rn x = x"

fun pow_rn :: "f64 \<Rightarrow> f64 \<Rightarrow> f64" where
  "pow_rn (Finite a) (Finite b) = (if 0 < a then rnd (a powr b) else NaN)"
| "pow_rn x y = NaN"

definition libm_rn :: libm where
  "libm_rn = \<lparr>cbrt = cbrt_rn, pow = pow_rn\<rparr>"


text \<open>
  The speeds of modes m and d in the specification's words: the classical required speed
  \<open>sqrt (2 (U / eps_eff) / m)\<close>, the relativistic one \<open>c sqrt (1 - 1 / gamma\<^sup>2)\<close> with
  \<open>gamma = 1 + (U / eps_eff) / (m c\<^sup>2)\<close> and \<open>beta2\<close> clamped to zero when not positive, and
  the mass of mode d, the volume of the sphere times the density.
\<close>

definition classical_speed64 :: "f64 \<Rightarrow> f64 \<Rightarrow> f64 \<Rightarrow> f64" where
  "classical_speed64 U eff m = sqrt64 (div64 (mul64 (lit 2) (div64 U eff)) m)"

definition v_rel_of64 :: "f64 \<Rightarrow> f64" where
  "v_rel_of64 gamma =
     (let beta2 = sub64 (lit 1) (div64 (lit 1) (mul64 gamma gamma))
      in mul64 c64 (sqrt64 (if le64 beta2 (lit 0) then lit 0 else beta2)))"

definition relativistic_speed64 :: "f64 \<Rightarrow> f64 \<Rightarrow> f64 \<Rightarrow> f64" where
  "relativistic_speed64 U eff m =
     v_rel_of64 (add64 (lit 1) (div64 (div64 U eff) (mul64 (mul64 m c64) c64)))"

definition sphere_mass64 :: "libm \<Rightarrow> f64 \<Rightarrow> f64 \<Rightarrow> f64" where
  "sphere_mass64 lm D rho =
     mul64 rho (mul64 (mul64 (div64 (lit 4) (lit 3)) PI64) (pow lm (div64 D (lit 2)) (lit 3)))"

text \<open>Command lines used below.\<close>

definition vacuum_stony :: args where
  "vacuum_stony = \<lparr>has_object = False, object_name = [], planet_name = Some ''vacuum'',
     material_name = Some ''stony''\<rparr>"

definition neptune_stony :: args where
  "neptune_stony = \<lparr>has_object = False, object_name = [], planet_name = Some ''neptune'',
     material_name = Some ''stony''\<rparr>"

definition krypton_adamantium :: args where
  "krypton_adamantium = \<lparr>has_object = False, object_name = [],
     planet_name = Some ''Krypton'', material_name = Some ''Adamantium''\<rparr>"

definition neptune_iron :: args where
  "neptune_iron = \<lparr>has_object = False, object_name = [], planet_name = Some ''neptune'',
     material_name = Some ''iron''\<rparr>"

section \<open>Facts about the retention bands\<close>

lemma earth_mono:
  "d1 \<le> d2 \<Longrightarrow> retention_earth (Fin d1) m \<le> retention_earth (Fin d2) m"
  unfolding retention_earth_def by auto
lemma mars_mono:
  "d1 \<le> d2 \<Longrightarrow> retention_mars (Fin d1) m \<le> retention_mars (Fin d2) m"
  unfolding retention_mars_def by auto
lemma venus_mono:
  "d1 \<le> d2 \<Longrightarrow> retention_venus (Fin d1) m \<le> retention_venus (Fin d2) m"
  unfolding retention_venus_def by auto
lemma jupiter_mono:
  "d1 \<le> d2 \<Longrightarrow> retention_jupiter (Fin d1) m \<le> retention_jupiter (Fin d2) m"
  unfolding retention_jupiter_def by auto
lemma saturn_mono:
  "d1 \<le> d2 \<Longrightarrow> retention_saturn (Fin d1) m \<le> retention_saturn (Fin d2) m"
  unfolding retention_saturn_def by auto
lemma uranus_mono:
  "d1 \<le> d2 \<Longrightarrow> retention_uranus (Fin d1) m \<le> retention_uranus (Fin d2) m"
  unfolding retention_uranus_def by auto
lemma neptune_mono:
  "d1 \<le> d2 \<Longrightarrow> retention_neptune (Fin d1) m \<le> retention_neptune (Fin d2) m"
  unfolding retention_neptune_def by auto
lemma pluto_mono:
  "d1 \<le> d2 \<Longrightarrow> retention_pluto (Fin d1) m \<le> retention_pluto (Fin d2) m"
  unfolding retention_pluto_def by auto
lemma moon_mono:
  "d1 \<le> d2 \<Longrightarrow> retention_moon (Fin d1) m \<le> retention_moon (Fin d2) m"
  unfolding retention_moon_def by auto

lemmas planet_mono = earth_mono mars_mono venus_mono jupiter_mono saturn_mono uranus_mono
  neptune_mono pluto_mono moon_mono

lemma retention_mono_fin:
  "d1 \<le> d2 \<Longrightarrow> atmospheric_retention (Fin d1) p m \<le> atmospheric_retention (Fin d2) p m"
  unfolding atmospheric_retention_def by (simp add: planet_mono)

lemma earth_range: "0 \<le> retention_earth d m \<and> retention_earth d m \<le> 1"
  unfolding retention_earth_def by auto
lemma mars_range: "0 \<le> retention_mars d m \<and> retention_mars d m \<le> 1"
  unfolding retention_mars_def by auto
lemma venus_range: "0 \<le> retention_venus d m \<and> retention_venus d m \<le> 1"
  unfolding retention_venus_def by auto
lemma jupiter_range: "0 \<le> retention_jupiter d m \<and> retention_jupiter d m \<le> 1"
  unfolding retention_jupiter_def by auto
lemma saturn_range: "0 \<le> retention_saturn d m \<and> retention_saturn d m \<le> 1"
  unfolding retention_saturn_def by auto
lemma uranus_range: "0 \<le> retention_uranus d m \<and> retention_uranus d m \<le> 1"
  unfolding retention_uranus_def by auto
lemma neptune_range: "0 \<le> retention_neptune d m \<and> retention_neptune d m \<le> 1"
  unfolding retention_neptune_def by auto
lemma pluto_range: "0 \<le> retention_pluto d m \<and> retention_pluto d m \<le> 1"
  unfolding retention_pluto_def by auto
lemma moon_range: "0 \<le> retention_moon d m \<and> retention_moon d m \<le> 1"
  unfolding retention_moon_def by auto

lemmas planet_range = earth_range mars_range venus_range jupiter_range saturn_range
  uranus_range neptune_range pluto_range moon_range

lemma retention_range:
  "0 \<le> atmospheric_retention d p m \<and> atmospheric_retention d p m \<le> 1"
  unfolding atmospheric_retention_def by (simp add: planet_range)

text \<open>
  The QB64 function never looks at the diameter: every conditional assignment is
  overwritten by the last one of its branch.
\<close>

lemma AtmosphericRetention_ignores_diameter:
  "AtmosphericRetention d p m = AtmosphericRetention d' p m"
  by (simp add: AtmosphericRetention_def)




section \<open>Facts about the names\<close>

lemma tolower_lower:
  "map tolower ''earth'' = ''earth''" "map tolower ''mars'' = ''mars''"
  "map tolower ''venus'' = ''venus''" "map tolower ''jupiter'' = ''jupiter''"
  "map tolower ''saturn'' = ''saturn''" "map tolower ''uranus'' = ''uranus''"
  "map tolower ''neptune'' = ''neptune''" "map tolower ''pluto'' = ''pluto''"
  "map tolower ''moon'' = ''moon''" "map tolower ''vacuum'' = ''vacuum''"
  "map tolower ''iron'' = ''iron''" "map tolower ''cometary'' = ''cometary''"
  "map tolower ''stony'' = ''stony''"
  by code_simp+

lemma unknown_planet:
  "map tolower p \<notin> set planet_names \<Longrightarrow> get_planet_type (Some p) = PLANET_EARTH"
  unfolding get_planet_type_def strcasecmp_eq_def planet_names_def tolower_lower
  by simp

lemma unknown_material:
  "map tolower q \<notin> set material_names \<Longrightarrow> get_material_type (Some q) = MATERIAL_STONY"
  unfolding get_material_type_def strcasecmp_eq_def material_names_def tolower_lower
  by simp

lemma no_names_types:
  "get_planet_type (planet_name no_names) = PLANET_EARTH"
  "get_material_type (material_name no_names) = MATERIAL_STONY"
  by (simp_all add: no_names_def get_planet_type_def get_material_type_def)

lemma pluto_iron_types:
  "get_planet_type (planet_name pluto_iron) = PLANET_PLUTO"
  "get_material_type (material_name pluto_iron) = MATERIAL_IRON"
  by code_simp+

lemma krypton: "map tolower ''Krypton'' \<notin> set planet_names"
  "map tolower ''Adamantium'' \<notin> set material_names"
  by code_simp+

section \<open>Facts about the kinematics\<close>





lemma beta2_of_PInf: "beta2_of PInf = 1"
  by (simp add: beta2_of_def)







lemma v_rel_of_bounds:
  assumes "0 \<le> b" "b < 1"
  shows "0 \<le> v_rel_of b" "v_rel_of b < c"
proof -
  have "sqrt b < 1" using assms by simp
  then show "v_rel_of b < c" using assms by (simp add: v_rel_of_def)
  show "0 \<le> v_rel_of b" using assms by (simp add: v_rel_of_def)
qed

lemma v_rel_is_relativisticVelocity:
  assumes "e \<noteq> 0"
  shows "v_rel_of (beta2_of (gamma_of U e m)) = relativisticVelocity (U / e / m)"
proof -
  have "U / e / (m * c * c) = U / e / m / (c * c)" by simp
  then show ?thesis
    using assms by (simp only: gamma_of_def quot_def relativisticVelocity_def Let_def lift.simps if_False)
qed



lemma sqrt_between:
  fixes lo hi b :: real
  assumes "0 \<le> lo" and "0 \<le> hi" and "lo * lo \<le> b" and "b < hi * hi"
  shows "lo \<le> sqrt b" and "sqrt b < hi"
proof -
  have "sqrt (lo * lo) \<le> sqrt b" using assms(3) by (rule real_sqrt_le_mono)
  then show "lo \<le> sqrt b" using assms(1) by simp
  have "sqrt b < sqrt (hi * hi)" using assms(4) by (rule real_sqrt_less_mono)
  then show "sqrt b < hi" using assms(2) by simp
qed

section \<open>Facts about the three modes\<close>


lemma solve_d_fields:
  "mass (solve_d ret U p mt D_km rho eps) = rho * ((4 / 3) * PI * (D_km * 1000 / 2) ^ 3)"
  "retention (solve_d ret U p mt D_km rho eps) = ret (Fin D_km) p mt"
  "effective_eps (solve_d ret U p mt D_km rho eps) = eps * ret (Fin D_km) p mt"
  "v_rel (solve_d ret U p mt D_km rho eps) =
     v_rel_of (beta2_of (gamma_of U (eps * ret (Fin D_km) p mt)
       (rho * ((4 / 3) * PI * (D_km * 1000 / 2) ^ 3))))"
  "v_class (solve_d ret U p mt D_km rho eps) =
     v_class_of U (eps * ret (Fin D_km) p mt) (rho * ((4 / 3) * PI * (D_km * 1000 / 2) ^ 3))"
  unfolding solve_d_def Let_def by (simp_all only: speeds.simps)




lemma mode_d_valid:
  assumes "0 < D_km" "0 < rho" "0 < eps"
  shows "stdout (mode_d a D_km rho eps) =
     (let pt = get_planet_type (planet_name a);
          mt = get_material_type (material_name a);
          U = get_planetary_binding_energy pt;
          r = solve_d atmospheric_retention U pt mt D_km rho eps
      in object_line a @ planet_line a U @ material_line a (retention r) @
           [INPUT [D_km, rho, eps],
            TARGET (quot U (effective_eps r)) (effective_eps r),
            RESULT_mass (mass r) (mass r / MERCURY_MASS) (mass r / CERES_MASS),
            RESULT_classical (lift (\<lambda>x. x / 1000) (v_class r)),
            RESULT_relativistic (v_rel r / 1000)] @
           conclusion a (v_rel r))"
    and "status (mode_d a D_km rho eps) = 0"
    and "stderr (mode_d a D_km rho eps) = []"
proof -
  have v: "\<not> (D_km \<le> 0 \<or> rho \<le> 0 \<or> eps \<le> 0)" using assms by simp
  show "stdout (mode_d a D_km rho eps) =
     (let pt = get_planet_type (planet_name a);
          mt = get_material_type (material_name a);
          U = get_planetary_binding_energy pt;
          r = solve_d atmospheric_retention U pt mt D_km rho eps
      in object_line a @ planet_line a U @ material_line a (retention r) @
           [INPUT [D_km, rho, eps],
            TARGET (quot U (effective_eps r)) (effective_eps r),
            RESULT_mass (mass r) (mass r / MERCURY_MASS) (mass r / CERES_MASS),
            RESULT_classical (lift (\<lambda>x. x / 1000) (v_class r)),
            RESULT_relativistic (v_rel r / 1000)] @
           conclusion a (v_rel r))"
    using v unfolding mode_d_def Let_def by (simp only: if_False run.sel)
  show "status (mode_d a D_km rho eps) = 0"
    using v unfolding mode_d_def Let_def by (simp only: if_False run.sel)
  show "stderr (mode_d a D_km rho eps) = []"
    using v unfolding mode_d_def Let_def by (simp only: if_False run.sel)
qed

lemma mode_v_too_fast:
  assumes "0 < v_km_s" "0 < rho" "0 < eps" "c \<le> v_km_s * 1000"
  shows "mode_v a v_km_s rho eps =
     Run (object_line a @ [PLANET (planet_or a ''target'')
            (get_planetary_binding_energy (get_planet_type (planet_name a)))])
         [''Speed must be < c.''] 1"
proof -
  have "\<not> (v_km_s \<le> 0 \<or> rho \<le> 0 \<or> eps \<le> 0)" using assms by simp
  moreover have "v_km_s * 1000 / c \<ge> 1" using assms by simp
  ultimately show ?thesis unfolding mode_v_def Let_def by (simp only: if_False if_True)
qed

lemma pluto_retention: "atmospheric_retention (Fin 1) PLANET_PLUTO MATERIAL_IRON = 0.99"
  by (simp add: atmospheric_retention_def retention_pluto_def)

lemma pluto_U: "get_planetary_binding_energy PLANET_PLUTO = 2.85 * 10 ^ 27"
  by (simp add: get_planetary_binding_energy_def)

lemma pluto_mass:
  "mass (solve_d atmospheric_retention (2.85 * 10 ^ 27) PLANET_PLUTO MATERIAL_IRON 1 7800 0.25)
     = 2042035224833365604999 / 500000000"
  unfolding solve_d_fields by simp

lemma pluto_beta2:
  "(73378320.5 / c) * (73378320.5 / c)
     \<le> beta2_of (gamma_of (2.85 * 10 ^ 27) (0.25 * 0.99) (2042035224833365604999 / 500000000))"
  "beta2_of (gamma_of (2.85 * 10 ^ 27) (0.25 * 0.99) (2042035224833365604999 / 500000000))
     < (73378321.5 / c) * (73378321.5 / c)"
  by (simp_all add: gamma_of_def quot_def beta2_of_def)

lemma pluto_v_rel:
  "73378320.5 \<le> v_rel (solve_d atmospheric_retention (2.85 * 10 ^ 27) PLANET_PLUTO
      MATERIAL_IRON 1 7800 0.25)"
  "v_rel (solve_d atmospheric_retention (2.85 * 10 ^ 27) PLANET_PLUTO
      MATERIAL_IRON 1 7800 0.25) < 73378321.5"
proof -
  let ?b = "beta2_of (gamma_of (2.85 * 10 ^ 27) (0.25 * 0.99)
      (2042035224833365604999 / 500000000))"
  have m: "7800 * (4 / 3 * PI * (1 * 1000 / 2) ^ 3) = (2042035224833365604999 / 500000000 :: real)"
    by simp
  have v: "v_rel (solve_d atmospheric_retention (2.85 * 10 ^ 27) PLANET_PLUTO
      MATERIAL_IRON 1 7800 0.25) = v_rel_of ?b"
    unfolding solve_d_fields pluto_retention m ..
  have lo: "73378320.5 / c \<le> sqrt ?b" and hi: "sqrt ?b < 73378321.5 / c"
    using sqrt_between [OF _ _ pluto_beta2] by simp_all
  have pos: "0 < ?b" using pluto_beta2(1) by (rule less_le_trans [rotated]) simp
  have vr: "v_rel_of ?b = c * sqrt ?b" using pos by (simp add: v_rel_of_def)
  show "73378320.5 \<le> v_rel (solve_d atmospheric_retention (2.85 * 10 ^ 27) PLANET_PLUTO
      MATERIAL_IRON 1 7800 0.25)"
    unfolding v vr using lo by (simp add: pos_divide_le_eq mult.commute)
  show "v_rel (solve_d atmospheric_retention (2.85 * 10 ^ 27) PLANET_PLUTO
      MATERIAL_IRON 1 7800 0.25) < 73378321.5"
    unfolding v vr using hi by (simp add: pos_less_divide_eq mult.commute)
qed




section \<open>Facts about binary64 rounding\<close>

lemma pow2_pos: "0 < pow2 e" by (simp add: pow2_def)

lemma pow2_add: "pow2 (a + b) = pow2 a * pow2 b" by (simp add: pow2_def powr_add)

lemma pow2_diff: "pow2 (a - b) = pow2 a / pow2 b" by (simp add: pow2_def powr_diff)

lemma pow2_mono: "a \<le> b \<Longrightarrow> pow2 a \<le> pow2 b" by (simp add: pow2_def)

lemma pow2_0: "pow2 0 = 1" by (simp add: pow2_def)

lemma pow2_nat: "pow2 (int n) = 2 ^ n" by (simp add: pow2_def powr_realpow)

lemma pow2_neg: "pow2 (- int n) = 1 / 2 ^ n" by (simp add: pow2_def powr_minus powr_realpow divide_inverse)

lemma pow2_numeral: "pow2 (numeral k) = 2 ^ numeral k"
  using pow2_nat [of "numeral k"] by simp

lemma pow2_neg_numeral: "pow2 (- numeral k) = 1 / 2 ^ numeral k"
  using pow2_neg [of "numeral k"] by simp

lemma expo_bounds:
  assumes "x \<noteq> 0"
  shows "pow2 (expo x) \<le> \<bar>x\<bar>" and "\<bar>x\<bar> < pow2 (expo x + 1)"
proof -
  have ax: "0 < \<bar>x\<bar>" using assms by simp
  have "of_int (expo x) \<le> log 2 \<bar>x\<bar>" by (simp add: expo_def)
  then show "pow2 (expo x) \<le> \<bar>x\<bar>"
    using ax by (simp add: pow2_def le_log_iff)
  have "log 2 \<bar>x\<bar> < of_int (expo x + 1)" by (simp add: expo_def)
  then show "\<bar>x\<bar> < pow2 (expo x + 1)"
    using ax by (simp add: pow2_def log_less_iff del: of_int_add)
qed

lemma expo_unique:
  assumes "pow2 e \<le> \<bar>x\<bar>" and "\<bar>x\<bar> < pow2 (e + 1)"
  shows "expo x = e"
proof -
  have ax: "0 < \<bar>x\<bar>" using assms(1) pow2_pos [of e] by linarith
  have "of_int e \<le> log 2 \<bar>x\<bar>" using assms(1) ax by (simp add: pow2_def le_log_iff)
  moreover have "log 2 \<bar>x\<bar> < of_int e + 1"
    using assms(2) ax by (simp add: pow2_def log_less_iff)
  ultimately show ?thesis unfolding expo_def by (intro floor_unique) simp_all
qed

lemma expo_mono:
  assumes "0 < x" "x \<le> y"
  shows "expo x \<le> expo y"
  unfolding expo_def using assms by (intro floor_mono) (simp add: log_le_cancel_iff)

lemma rhe_cases: "rhe x = \<lfloor>x\<rfloor> \<or> rhe x = \<lfloor>x\<rfloor> + 1"
  by (simp add: rhe_def Let_def)

lemma rhe_int: "rhe (of_int n) = n"
  by (simp add: rhe_def Let_def)

lemma rhe_mono:
  assumes "x \<le> y"
  shows "rhe x \<le> rhe y"
proof (cases "\<lfloor>x\<rfloor> = \<lfloor>y\<rfloor>")
  case True
  then show ?thesis using assms by (auto simp: rhe_def Let_def)
next
  case False
  then have "\<lfloor>x\<rfloor> < \<lfloor>y\<rfloor>" using assms floor_mono [of x y] by linarith
  then show ?thesis using rhe_cases [of x] rhe_cases [of y] by linarith
qed

lemma rhe_err: "\<bar>of_int (rhe x) - x\<bar> \<le> 1 / 2"
  unfolding rhe_def Let_def by (auto simp: abs_le_iff)

lemma rhe_le_int: "x \<le> of_int n \<Longrightarrow> rhe x \<le> n"
  using rhe_mono [of x "of_int n"] by (simp add: rhe_int)

lemma rhe_ge_int: "of_int n \<le> x \<Longrightarrow> n \<le> rhe x"
  using rhe_mono [of "of_int n" x] by (simp add: rhe_int)

lemma quantum_eexp: "quantum x = pow2 (eexp x - 52)"
  by (simp add: quantum_def eexp_def)

lemma quantum_pos: "0 < quantum x"
  by (simp add: quantum_def pow2_pos)

lemma pow2_53: "pow2 (e + 1) = pow2 (e - 52) * of_int (2 ^ 53)"
proof -
  have "e + 1 = (e - 52) + 53" by simp
  then have "pow2 (e + 1) = pow2 ((e - 52) + 53)" by (simp only:)
  also have "\<dots> = pow2 (e - 52) * pow2 53" by (rule pow2_add)
  finally show ?thesis by (simp add: pow2_numeral)
qed

lemma pow2_52: "pow2 e = pow2 (e - 52) * of_int (2 ^ 52)"
proof -
  have "e = (e - 52) + 52" by simp
  then have "pow2 e = pow2 ((e - 52) + 52)" by (simp only:)
  also have "\<dots> = pow2 (e - 52) * pow2 52" by (rule pow2_add)
  finally show ?thesis by (simp add: pow2_numeral)
qed

text \<open>A positive number rounds to at most the top of its binade.\<close>

lemma rr_upper:
  assumes "0 < x"
  shows "rr x \<le> pow2 (eexp x + 1)"
proof -
  let ?u = "quantum x"
  have "x < pow2 (expo x + 1)" using expo_bounds(2) [of x] assms by simp
  also have "\<dots> \<le> pow2 (eexp x + 1)" by (intro pow2_mono) (simp add: eexp_def)
  finally have "x \<le> ?u * of_int (2 ^ 53)" unfolding quantum_eexp pow2_53 by simp
  then have "x / ?u \<le> of_int (2 ^ 53)"
    using quantum_pos [of x] by (simp add: pos_divide_le_eq mult.commute)
  then have "rhe (x / ?u) \<le> 2 ^ 53" by (rule rhe_le_int)
  then have "of_int (rhe (x / ?u)) \<le> (of_int (2 ^ 53) :: real)" by linarith
  then have "?u * of_int (rhe (x / ?u)) \<le> ?u * of_int (2 ^ 53)"
    using quantum_pos [of x] by (intro mult_left_mono) simp_all
  then show ?thesis unfolding rr_def quantum_eexp pow2_53 .
qed

text \<open>A positive normal number rounds to at least the bottom of its binade.\<close>

lemma rr_lower:
  assumes "0 < x" and "- 1022 \<le> expo x"
  shows "pow2 (eexp x) \<le> rr x"
proof -
  let ?u = "quantum x"
  have e: "eexp x = expo x" using assms(2) by (simp add: eexp_def)
  have "pow2 (eexp x) \<le> x" using expo_bounds(1) [of x] assms(1) e by simp
  then have "?u * of_int (2 ^ 52) \<le> x" unfolding quantum_eexp using pow2_52 [of "eexp x"] by simp
  then have "of_int (2 ^ 52) \<le> x / ?u"
    using quantum_pos [of x] by (simp add: pos_le_divide_eq mult.commute)
  then have "2 ^ 52 \<le> rhe (x / ?u)" by (rule rhe_ge_int)
  then have "(of_int (2 ^ 52) :: real) \<le> of_int (rhe (x / ?u))" by linarith
  then have "?u * of_int (2 ^ 52) \<le> ?u * of_int (rhe (x / ?u))"
    using quantum_pos [of x] by (intro mult_left_mono) simp_all
  then show ?thesis unfolding rr_def quantum_eexp using pow2_52 [of "eexp x"] by simp
qed

lemma rr_nonneg: assumes "0 \<le> x" shows "0 \<le> rr x"
proof -
  have "0 \<le> x / quantum x" using assms quantum_pos [of x] by simp
  then have "0 \<le> rhe (x / quantum x)" using rhe_ge_int [of 0 "x / quantum x"] by simp
  then show ?thesis unfolding rr_def using quantum_pos [of x] by simp
qed

lemma rr_mono:
  assumes "0 < x" and "x \<le> y"
  shows "rr x \<le> rr y"
proof -
  have y: "0 < y" using assms by linarith
  have ee: "eexp x \<le> eexp y" using expo_mono [OF assms] by (simp add: eexp_def)
  show ?thesis
  proof (cases "eexp x = eexp y")
    case True
    then have q: "quantum x = quantum y" by (simp add: quantum_eexp)
    have "x / quantum y \<le> y / quantum y"
      using assms(2) quantum_pos [of y] by (simp add: divide_right_mono)
    then have "rhe (x / quantum y) \<le> rhe (y / quantum y)" by (rule rhe_mono)
    then have "(of_int (rhe (x / quantum y)) :: real) \<le> of_int (rhe (y / quantum y))" by simp
    then show ?thesis unfolding rr_def q
      using quantum_pos [of y] by (intro mult_left_mono) simp_all
  next
    case False
    with ee have lt: "eexp x + 1 \<le> eexp y" by simp
    then have "- 1022 < eexp y" unfolding eexp_def by simp
    then have n: "- 1022 \<le> expo y" unfolding eexp_def by simp
    have "rr x \<le> pow2 (eexp x + 1)" by (rule rr_upper [OF assms(1)])
    also have "\<dots> \<le> pow2 (eexp y)" by (rule pow2_mono [OF lt])
    also have "\<dots> \<le> rr y" by (rule rr_lower [OF y n])
    finally show ?thesis .
  qed
qed

text \<open>Representable numbers are fixed.\<close>

lemma rr_dyadic:
  assumes "\<bar>n\<bar> \<le> 2 ^ 53" and "- 1074 \<le> k"
  shows "rr (of_int n * pow2 k) = of_int n * pow2 k"
proof (cases "n = 0")
  case True
  then show ?thesis by (simp add: rr_def rhe_def)
next
  case False
  let ?x = "of_int n * pow2 k"
  have x0: "?x \<noteq> 0" using False pow2_pos [of k] by simp
  have "\<bar>?x\<bar> = \<bar>of_int n\<bar> * pow2 k" using pow2_pos [of k] by (simp add: abs_mult)
  also have "\<dots> \<le> of_int (2 ^ 53) * pow2 k"
  proof (rule mult_right_mono)
    have "(of_int \<bar>n\<bar> :: real) \<le> of_int (2 ^ 53)" using assms(1) by (simp only: of_int_le_iff)
    then show "\<bar>of_int n :: real\<bar> \<le> of_int (2 ^ 53)" by simp
    show "0 \<le> pow2 k" using pow2_pos [of k] by simp
  qed
  also have "\<dots> = pow2 (k + 53)" by (simp add: pow2_add pow2_numeral)
  finally have ub: "\<bar>?x\<bar> \<le> pow2 (k + 53)" .
  have "pow2 (expo ?x) \<le> \<bar>?x\<bar>" by (rule expo_bounds(1) [OF x0])
  with ub have "pow2 (expo ?x) \<le> pow2 (k + 53)" by linarith
  then have "expo ?x \<le> k + 53" by (simp add: pow2_def)
  then have j: "eexp ?x - 52 \<le> k + 1" using assms(2) by (simp add: eexp_def)
  show ?thesis
  proof (cases "eexp ?x - 52 \<le> k")
    case True
    define d where "d = nat (k - (eexp ?x - 52))"
    have kd: "k = (eexp ?x - 52) + int d" using True by (simp add: d_def)
    define u where "u = quantum ?x"
    have u0: "0 < u" unfolding u_def by (rule quantum_pos)
    have "pow2 k = pow2 ((eexp ?x - 52) + int d)" using kd by (simp only:)
    then have pk: "pow2 k = u * 2 ^ d"
      unfolding u_def quantum_eexp by (simp only: pow2_add pow2_nat)
    have "of_int n * (u * 2 ^ d) / u = of_int (n * 2 ^ d)" using u0 by simp
    then have "?x / u = of_int (n * 2 ^ d)" unfolding pk .
    then have "rhe (?x / u) = n * 2 ^ d" by (simp only: rhe_int)
    then have "rr ?x = u * of_int (n * 2 ^ d)" unfolding rr_def u_def by (simp only:)
    also have "\<dots> = of_int n * (u * 2 ^ d)" by simp
    also have "\<dots> = ?x" unfolding pk ..
    finally show ?thesis .
  next
    case False
    with j have e: "eexp ?x - 52 = k + 1" by simp
    then have ex: "expo ?x = k + 53" using assms(2) by (simp add: eexp_def split: if_splits)
    have "pow2 (k + 53) \<le> \<bar>?x\<bar>" using expo_bounds(1) [OF x0] ex by simp
    with ub have "\<bar>?x\<bar> = pow2 (k + 53)" by linarith
    then have "\<bar>of_int n\<bar> * pow2 k = 2 ^ 53 * pow2 k"
      using pow2_pos [of k] by (simp add: abs_mult pow2_add pow2_numeral)
    then have "\<bar>(of_int n :: real)\<bar> = 2 ^ 53" using pow2_pos [of k] by simp
    then have "(of_int \<bar>n\<bar> :: real) = of_int (2 ^ 53)" by simp
    then have "\<bar>n\<bar> = 2 ^ 53" by (simp only: of_int_eq_iff)
    then have n: "n = 2 ^ 53 \<or> n = - (2 ^ 53)" by linarith
    have "pow2 (k + 1) = pow2 k * pow2 1" by (rule pow2_add)
    then have q: "quantum ?x = pow2 k * 2" unfolding quantum_eexp e by (simp add: pow2_def)
    from n show ?thesis
    proof
      assume "n = 2 ^ 53"
      then have "?x / quantum ?x = of_int (2 ^ 52)"
        unfolding q using pow2_pos [of k] by simp
      then have "rhe (?x / quantum ?x) = 2 ^ 52" by (simp only: rhe_int)
      then show ?thesis unfolding rr_def q using \<open>n = 2 ^ 53\<close> by simp
    next
      assume "n = - (2 ^ 53)"
      then have "?x / quantum ?x = of_int (- (2 ^ 52))"
        unfolding q using pow2_pos [of k] by simp
      then have "rhe (?x / quantum ?x) = - (2 ^ 52)" by (simp only: rhe_int)
      then show ?thesis unfolding rr_def q using \<open>n = - (2 ^ 53)\<close> by simp
    qed
  qed
qed

lemma ranged_Finite [simp]: "ranged lo hi (Finite r) = (lo \<le> r \<and> r \<le> hi)"
  by (simp add: ranged_def)

lemma rangedE: assumes "ranged lo hi x" obtains r where "x = Finite r" "lo \<le> r" "r \<le> hi"
  using assms by (cases x) (simp_all add: ranged_def)

lemma ranged_exact: "ranged a a x \<Longrightarrow> x = Finite a"
  by (cases x) (simp_all add: ranged_def)

lemma ranged_weaken: "ranged a b x \<Longrightarrow> a' \<le> a \<Longrightarrow> b \<le> b' \<Longrightarrow> ranged a' b' x"
  by (cases x) (simp_all add: ranged_def)

lemma rr_0: "rr 0 = 0" by (simp add: rr_def rhe_def)

lemma rr_mono0: assumes "0 \<le> x" "x \<le> y" shows "rr x \<le> rr y"
proof (cases "x = 0")
  case True
  then show ?thesis using rr_nonneg [of y] assms by (simp add: rr_0)
next
  case False
  then show ?thesis using assms by (intro rr_mono) simp_all
qed

lemma rnd_sandwich:
  assumes "0 \<le> L" and "L \<le> x" and "x \<le> H" and "rr L = lo" and "rr H = hi"
    and "hi < pow2 1024"
  shows "ranged lo hi (rnd x)"
proof -
  have x0: "0 \<le> x" using assms by linarith
  have lo: "lo \<le> rr x" using rr_mono0 [OF assms(1,2)] assms(4) by simp
  have hi: "rr x \<le> hi" using rr_mono0 [OF x0 assms(3)] assms(5) by simp
  have "0 \<le> rr x" by (rule rr_nonneg [OF x0])
  then have "\<bar>rr x\<bar> < pow2 1024" using hi assms(6) by simp
  then show ?thesis using lo hi by (simp add: rnd_def Let_def)
qed

lemma rnd_0: "rnd 0 = Finite 0"
  using pow2_pos [of 1024] by (simp add: rnd_def rr_0)

lemma mul64_ranged:
  assumes "ranged a b x" and "ranged a' b' y" and "rr L = lo" and "rr H = hi"
    and "0 \<le> a" and "0 \<le> a'" and "0 \<le> L" and "L \<le> a * a'" and "b * b' \<le> H"
    and "hi < pow2 1024"
  shows "ranged lo hi (mul64 x y)"
proof -
  obtain r where x: "x = Finite r" "a \<le> r" "r \<le> b" using assms(1) by (rule rangedE)
  obtain s where y: "y = Finite s" "a' \<le> s" "s \<le> b'" using assms(2) by (rule rangedE)
  have "a * a' \<le> r * s" using x y assms(5,6) by (intro mult_mono) simp_all
  moreover have "r * s \<le> b * b'" using x y assms(5,6) by (intro mult_mono) simp_all
  ultimately have "L \<le> r * s" "r * s \<le> H" using assms(8,9) by simp_all
  then show ?thesis unfolding x y mul64.simps
    by (intro rnd_sandwich [OF assms(7) _ _ assms(3,4,10)])
qed

lemma div64_ranged:
  assumes "ranged a b x" and "ranged a' b' y" and "rr L = lo" and "rr H = hi"
    and "0 \<le> a" and "0 < a'" and "0 \<le> L" and "L \<le> a / b'" and "b / a' \<le> H"
    and "hi < pow2 1024"
  shows "ranged lo hi (div64 x y)"
proof -
  obtain r where x: "x = Finite r" "a \<le> r" "r \<le> b" using assms(1) by (rule rangedE)
  obtain s where y: "y = Finite s" "a' \<le> s" "s \<le> b'" using assms(2) by (rule rangedE)
  have s0: "0 < s" using y assms(6) by linarith
  have "a / b' \<le> r / s" using x y assms(5,6) s0 by (intro frac_le) simp_all
  moreover have "r / s \<le> b / a'" using x y assms(5,6) s0 by (intro frac_le) simp_all
  ultimately have "L \<le> r / s" "r / s \<le> H" using assms(8,9) by simp_all
  then have "ranged lo hi (rnd (r / s))"
    by (intro rnd_sandwich [OF assms(7) _ _ assms(3,4,10)])
  then show ?thesis unfolding x y using s0 by simp
qed

lemma add64_ranged:
  assumes "ranged a b x" and "ranged a' b' y" and "rr L = lo" and "rr H = hi"
    and "0 \<le> L" and "L \<le> a + a'" and "b + b' \<le> H"
    and "hi < pow2 1024"
  shows "ranged lo hi (add64 x y)"
proof -
  obtain r where x: "x = Finite r" "a \<le> r" "r \<le> b" using assms(1) by (rule rangedE)
  obtain s where y: "y = Finite s" "a' \<le> s" "s \<le> b'" using assms(2) by (rule rangedE)
  have "L \<le> r + s" "r + s \<le> H" using x y assms(6,7) by simp_all
  then show ?thesis unfolding x y add64.simps
    by (intro rnd_sandwich [OF assms(5) _ _ assms(3,4,8)])
qed

lemma sub64_ranged:
  assumes "ranged a b x" and "ranged a' b' y" and "rr L = lo" and "rr H = hi"
    and "0 \<le> L" and "L \<le> a - b'" and "b - a' \<le> H"
    and "hi < pow2 1024"
  shows "ranged lo hi (sub64 x y)"
proof -
  obtain r where x: "x = Finite r" "a \<le> r" "r \<le> b" using assms(1) by (rule rangedE)
  obtain s where y: "y = Finite s" "a' \<le> s" "s \<le> b'" using assms(2) by (rule rangedE)
  have "L \<le> r + - s" "r + - s \<le> H" using x y assms(6,7) by simp_all
  then have "ranged lo hi (rnd (r + - s))"
    by (intro rnd_sandwich [OF assms(5) _ _ assms(3,4,8)])
  then show ?thesis unfolding x y sub64_def by simp
qed

lemma sqrt64_ranged:
  assumes "ranged a b x" and "rr L = lo" and "rr H = hi"
    and "0 \<le> L" and "L * L \<le> a" and "b \<le> H * H" and "0 \<le> H"
    and "hi < pow2 1024"
  shows "ranged lo hi (sqrt64 x)"
proof -
  obtain r where x: "x = Finite r" "a \<le> r" "r \<le> b" using assms(1) by (rule rangedE)
  have r0: "0 \<le> r" using x assms(4,5) by (meson mult_nonneg_nonneg order_trans)
  have "sqrt (L * L) \<le> sqrt r" using x assms(5) by (intro real_sqrt_le_mono) simp
  then have l: "L \<le> sqrt r" using assms(4) by simp
  have "sqrt r \<le> sqrt (H * H)" using x assms(6) by (intro real_sqrt_le_mono) simp
  then have h: "sqrt r \<le> H" using assms(7) by simp
  have "ranged lo hi (rnd (sqrt r))"
    by (intro rnd_sandwich [OF assms(4) l h assms(2,3,8)])
  then show ?thesis unfolding x using r0 by simp
qed

lemma lit_ranged:
  assumes "rr L = lo" and "rr H = hi" and "0 \<le> L" and "L \<le> x" and "x \<le> H"
    and "hi < pow2 1024"
  shows "ranged lo hi (lit x)"
  unfolding lit_def by (rule rnd_sandwich [OF assms(3,4,5,1,2,6)])

text \<open>evaluating rr at numerals\<close>

lemma rr_int: "\<bar>n\<bar> \<le> 2 ^ 53 \<Longrightarrow> rr (of_int n) = of_int n"
  using rr_dyadic [of n 0] by (simp add: pow2_0)

lemma rr_int_mul: "\<bar>n\<bar> \<le> 2 ^ 53 \<Longrightarrow> rr (of_int n * 2 ^ k) = of_int n * 2 ^ k"
  using rr_dyadic [of n "int k"] by (simp add: pow2_nat)

lemma rr_int_div: "\<bar>n\<bar> \<le> 2 ^ 53 \<Longrightarrow> k \<le> 1074 \<Longrightarrow> rr (of_int n / 2 ^ k) = of_int n / 2 ^ k"
  using rr_dyadic [of n "- int k"] by (simp add: pow2_neg)

lemma p1024: "pow2 1024 = 2 ^ 1024" by (simp add: pow2_numeral)

section \<open>Facts about the binary64 operations\<close>

lemma rnd_exact: "rr x = x \<Longrightarrow> \<bar>x\<bar> < pow2 1024 \<Longrightarrow> rnd x = Finite x"
  by (simp add: rnd_def Let_def)

lemma rr_numeral: "(numeral w :: int) \<le> 2 ^ 53 \<Longrightarrow> rr (numeral w) = numeral w"
  using rr_int [of "numeral w"] by simp

lemma rr_numeral_mul:
  "(numeral w :: int) \<le> 2 ^ 53 \<Longrightarrow> rr (numeral w * 2 ^ k) = numeral w * 2 ^ k"
  using rr_int_mul [of "numeral w" k] by simp

lemma rr_numeral_div:
  "(numeral w :: int) \<le> 2 ^ 53 \<Longrightarrow> k \<le> 1074 \<Longrightarrow> rr (numeral w / 2 ^ k) = numeral w / 2 ^ k"
  using rr_int_div [of "numeral w" k] by simp

lemma rr_1: "rr 1 = 1"
  using rr_int [of 1] by simp

lemma rr_pow: "rr (2 ^ k) = 2 ^ k"
  using rr_int_mul [of 1 k] by simp

lemma rr_inv_pow: "k \<le> 1074 \<Longrightarrow> rr (1 / 2 ^ k) = 1 / 2 ^ k"
  using rr_int_div [of 1 k] by simp

lemma lit_small:
  "lit 0.0 = Finite 0" "lit 0 = Finite 0" "lit 1.0 = Finite 1" "lit 1 = Finite 1"
  "lit 2.0 = Finite 2" "lit 2 = Finite 2" "lit 3.0 = Finite 3" "lit 3 = Finite 3"
  "lit 4.0 = Finite 4" "lit 4 = Finite 4" "lit 15.0 = Finite 15"
  "lit 1000.0 = Finite 1000" "lit 1000 = Finite 1000" "lit 3000.0 = Finite 3000"
  "lit 0.00 = Finite 0" "lit 1.00 = Finite 1"
  unfolding lit_def by (simp_all add: rnd_0 rnd_exact rr_1 rr_numeral p1024)

lemma c64_value: "c64 = Finite 299792458"
  unfolding c64_def lit_def by (simp add: rnd_exact rr_numeral p1024)

text \<open>One value near an integer multiple of the quantum rounds to it.\<close>

lemma rhe_near:
  assumes "of_int n - 1 / 2 < z" and "z < of_int n + 1 / 2"
  shows "rhe z = n"
proof -
  have "\<bar>of_int (rhe z) - z\<bar> \<le> 1 / 2" by (rule rhe_err)
  then have "of_int (rhe z) < (of_int n :: real) + 1" "(of_int n :: real) - 1 < of_int (rhe z)"
    using assms by linarith+
  then have "rhe z < n + 1" "n - 1 < rhe z" by linarith+
  then show ?thesis by simp
qed

lemma rr_near:
  assumes "pow2 e \<le> x" and "x < pow2 (e + 1)" and "- 1022 \<le> e"
    and "of_int n - 1 / 2 < x / pow2 (e - 52)" and "x / pow2 (e - 52) < of_int n + 1 / 2"
  shows "rr x = pow2 (e - 52) * of_int n"
proof -
  have x0: "0 < x" using assms(1) pow2_pos [of e] by linarith
  have "expo x = e" using assms(1,2) x0 by (intro expo_unique) simp_all
  then have q: "quantum x = pow2 (e - 52)" using assms(3) by (simp add: quantum_def)
  have "rhe (x / pow2 (e - 52)) = n" using assms(4,5) by (rule rhe_near)
  then show ?thesis by (simp add: rr_def q)
qed

text \<open>Comparisons.\<close>

lemma not_ge64_lt64: "x \<noteq> NaN \<Longrightarrow> y \<noteq> NaN \<Longrightarrow> (\<not> ge64 x y) = lt64 x y"
  unfolding ge64_def by (cases x; cases y) auto

lemma ranged_not_NaN: "ranged lo hi x \<Longrightarrow> x \<noteq> NaN"
  by (cases x) (simp_all add: ranged_def)

lemma rr_half: "rr (1 / 2) = 1 / 2"
  using rr_int_div [of 1 1] by simp

lemma rr_c: "rr 299792458 = 299792458"
  by (rule rr_numeral) simp

lemma rr_half_c: "rr 149896229 = 149896229"
  by (rule rr_numeral) simp

lemma c64_ranged: "ranged 299792458 299792458 c64"
  by (simp add: c64_value)

lemma threshold_ranged: "ranged 149896229 299792458 (mul64 (lit 0.99) c64)"
proof -
  have l: "ranged (1 / 2) 1 (lit 0.99)"
    by (rule lit_ranged [OF rr_half rr_1]) (simp_all add: p1024)
  show ?thesis
    by (rule mul64_ranged [OF l c64_ranged rr_half_c rr_c]) (simp_all add: p1024)
qed

section \<open>Facts about the program in binary64\<close>

lemma conclusion64_class:
  "list_ex is_survives (conclusion64 a s) = ge64 s (mul64 (lit 0.99) c64)"
  "list_ex is_destroyed (conclusion64 a s) = (\<not> ge64 s (mul64 (lit 0.99) c64))"
  by (simp_all add: conclusion64_def)

lemma header_no_class:
  "\<not> list_ex is_destroyed (object_print a)" "\<not> list_ex is_destroyed (planet_print a U)"
  "\<not> list_ex is_destroyed (material_print a f)"
  "\<not> list_ex is_survives (object_print a)" "\<not> list_ex is_survives (planet_print a U)"
  "\<not> list_ex is_survives (material_print a f)"
  by (simp_all add: object_print_def planet_print_def material_print_def split: option.splits)

lemma mode_m64_accepted:
  assumes "\<not> le64 m (lit 0.0)" and "\<not> le64 eps (lit 0.0)"
  shows "mode_m64 lm a m eps =
     (let planet_type = get_planet_type (planet_name a);
          material_type = get_material_type (material_name a);
          U = get_planetary_binding_energy64 planet_type;
          r = solve_m64 lm atmospheric_retention64 U planet_type material_type m eps
      in Run64 (object_print a @ planet_print a U @ material_print a (retention64 r) @
                [P_INPUT [m, eps],
                 P_TARGET (div64 U (effective_eps64 r)) (effective_eps64 r),
                 P_CLASSICAL (div64 (v_class64 r) (lit 1000.0)),
                 P_RELATIVISTIC (div64 (v_rel64 r) (lit 1000.0))] @
                conclusion64 a (v_rel64 r))
               [] 0)"
proof -
  have "\<not> (le64 m (lit 0.0) \<or> le64 eps (lit 0.0))" using assms by simp
  then show ?thesis unfolding mode_m64_def Let_def by (simp only: if_False)
qed

lemma mode_d64_accepted:
  assumes "\<not> le64 D_km (lit 0.0)" and "\<not> le64 rho (lit 0.0)" and "\<not> le64 eps (lit 0.0)"
  shows "mode_d64 lm a D_km rho eps =
     (let planet_type = get_planet_type (planet_name a);
          material_type = get_material_type (material_name a);
          U = get_planetary_binding_energy64 planet_type;
          r = solve_d64 lm atmospheric_retention64 U planet_type material_type D_km rho eps
      in Run64 (object_print a @ planet_print a U @ material_print a (retention64 r) @
                [P_INPUT [D_km, rho, eps],
                 P_TARGET (div64 U (effective_eps64 r)) (effective_eps64 r),
                 P_MASS (mass64 r) (div64 (mass64 r) MERCURY_MASS64)
                   (div64 (mass64 r) CERES_MASS64),
                 P_CLASSICAL (div64 (v_class64 r) (lit 1000.0)),
                 P_RELATIVISTIC (div64 (v_rel64 r) (lit 1000.0))] @
                conclusion64 a (v_rel64 r))
               [] 0)"
proof -
  have "\<not> (le64 D_km (lit 0.0) \<or> le64 rho (lit 0.0) \<or> le64 eps (lit 0.0))"
    using assms by simp
  then show ?thesis unfolding mode_d64_def Let_def by (simp only: if_False)
qed

lemma mode_v64_accepted:
  assumes "\<not> le64 v_km_s (lit 0.0)" and "\<not> le64 rho (lit 0.0)" and "\<not> le64 eps (lit 0.0)"
    and "\<not> ge64 (div64 (mul64 v_km_s (lit 1000.0)) c64) (lit 1.0)"
  shows "mode_v64 lm a v_km_s rho eps =
     (let planet_type = get_planet_type (planet_name a);
          material_type = get_material_type (material_name a);
          U = get_planetary_binding_energy64 planet_type;
          r = solve_v64 lm atmospheric_retention64 U planet_type material_type v_km_s rho eps
      in Run64 (object_print a @ [P_PLANET (planet_or a ''target'') U] @
                material_print a (retention_v64 r) @
                [P_INPUT [v_km_s, rho, eps],
                 P_TARGET (div64 U (effective_eps_v64 r)) (effective_eps_v64 r),
                 P_REQUIRED_MASS (m_req64 r)
                   (div64 (m_req64 r) MERCURY_MASS64)
                   (div64 (m_req64 r) CERES_MASS64),
                 P_CLASSICAL_MASS (m_class64 r),
                 P_DIAMETER (div64 (D_req64 r) (lit 1000.0)),
                 P_NOTE_ANY (div64 (D_req64 r) (lit 1000.0)) v_km_s
                   (planet_or a ''target'')])
               [] 0)"
proof -
  have "\<not> (le64 v_km_s (lit 0.0) \<or> le64 rho (lit 0.0) \<or> le64 eps (lit 0.0))"
    using assms by simp
  then show ?thesis
    using assms(4) unfolding mode_v64_def Let_def by (simp only: if_False append_assoc)
qed

text \<open>Mode v prints no conclusion, whatever it is given.\<close>

lemma mode_v64_unclassified:
  "\<not> classified_destroyed (mode_v64 lm a v_km_s rho eps)"
  "\<not> classified_survives (mode_v64 lm a v_km_s rho eps)"
  unfolding classified_destroyed_def classified_survives_def mode_v64_def Let_def
  by (simp_all add: header_no_class)

lemma classified_m64:
  assumes "\<not> le64 m (lit 0.0)" and "\<not> le64 eps (lit 0.0)"
  shows "classified_survives (mode_m64 lm a m eps) =
     ge64 (v_rel64 (solve_m64 lm atmospheric_retention64
        (get_planetary_binding_energy64 (get_planet_type (planet_name a)))
        (get_planet_type (planet_name a)) (get_material_type (material_name a)) m eps))
       (mul64 (lit 0.99) c64)"
    and "classified_destroyed (mode_m64 lm a m eps) =
     (\<not> ge64 (v_rel64 (solve_m64 lm atmospheric_retention64
        (get_planetary_binding_energy64 (get_planet_type (planet_name a)))
        (get_planet_type (planet_name a)) (get_material_type (material_name a)) m eps))
       (mul64 (lit 0.99) c64))"
  unfolding classified_destroyed_def classified_survives_def mode_m64_accepted [OF assms] Let_def
  by (simp_all add: conclusion64_class header_no_class)

lemma classified_d64:
  assumes "\<not> le64 D_km (lit 0.0)" and "\<not> le64 rho (lit 0.0)" and "\<not> le64 eps (lit 0.0)"
  shows "classified_survives (mode_d64 lm a D_km rho eps) =
     ge64 (v_rel64 (solve_d64 lm atmospheric_retention64
        (get_planetary_binding_energy64 (get_planet_type (planet_name a)))
        (get_planet_type (planet_name a)) (get_material_type (material_name a)) D_km rho eps))
       (mul64 (lit 0.99) c64)"
    and "classified_destroyed (mode_d64 lm a D_km rho eps) =
     (\<not> ge64 (v_rel64 (solve_d64 lm atmospheric_retention64
        (get_planetary_binding_energy64 (get_planet_type (planet_name a)))
        (get_planet_type (planet_name a)) (get_material_type (material_name a)) D_km rho eps))
       (mul64 (lit 0.99) c64))"
  unfolding classified_destroyed_def classified_survives_def mode_d64_accepted [OF assms] Let_def
  by (simp_all add: conclusion64_class header_no_class)

lemma threshold_not_NaN: "mul64 (lit 0.99) c64 \<noteq> NaN"
  using threshold_ranged by (rule ranged_not_NaN)

section \<open>Rounding in the kinematics\<close>

lemma rnd_1: "rnd 1 = Finite 1"
  by (rule rnd_exact) (simp_all add: rr_1 p1024)

lemma rnd_c: "rnd 299792458 = Finite 299792458"
  by (rule rnd_exact) (simp_all add: rr_c p1024)

lemma rnd_ge_one:
  assumes "1 \<le> x"
  shows "(\<exists>r. rnd x = Finite r \<and> 1 \<le> r) \<or> rnd x = PlusInf"
proof -
  have "rr 1 \<le> rr x" using assms by (intro rr_mono0) simp_all
  then have "1 \<le> rr x" by (simp add: rr_1)
  then show ?thesis using assms by (simp add: rnd_def Let_def)
qed

lemma pow2_m1: "pow2 (- 1) = 1 / 2" "pow2 1 = 2"
  by (simp_all add: pow2_def)

lemma rr_below_one: "rr (1 - 1 / 2 ^ 55) = 1"
proof -
  have "rr (1 - 1 / 2 ^ 55) = pow2 (- 1 - 52) * of_int (2 ^ 53)"
    by (rule rr_near) (simp_all add: pow2_neg_numeral pow2_0 pow2_m1)
  then show ?thesis by (simp add: pow2_neg_numeral)
qed


lemma rr_cc_lo: "rr (159 * 2 ^ 49) = 159 * 2 ^ 49" by (rule rr_numeral_mul) simp
lemma rr_cc_hi: "rr (5 * 2 ^ 54) = 5 * 2 ^ 54" by (rule rr_numeral_mul) simp

lemma cc_ranged: "ranged (159 * 2 ^ 49) (5 * 2 ^ 54) (mul64 c64 c64)"
  by (rule mul64_ranged [OF c64_ranged c64_ranged rr_cc_lo rr_cc_hi]) (simp_all add: p1024)

text \<open>
  From a ratio \<open>(U / eps) / (m c\<^sup>2)\<close> of \<open>2 ^ 50\<close> or more, \<open>1.0 / (gamma * gamma)\<close> is
  below half the spacing of the doubles under 1, \<open>beta2\<close> is exactly 1 and the
  relativistic speed exactly \<open>c\<close>.
\<close>

lemma v_rel_is_c:
  assumes "ranged (2 ^ 50) (2 ^ 52) q"
  shows "mul64 c64
           (sqrt64 (if le64 (sub64 (lit 1.0) (div64 (lit 1.0)
                        (mul64 (add64 (lit 1.0) q) (add64 (lit 1.0) q)))) (lit 0.0)
                    then lit 0.0
                    else sub64 (lit 1.0) (div64 (lit 1.0)
                        (mul64 (add64 (lit 1.0) q) (add64 (lit 1.0) q)))))
         = Finite 299792458"
proof -
  have one: "ranged 1 1 (lit 1.0)" by (simp add: lit_small)
  have g: "ranged (2 ^ 50) (2 ^ 53) (add64 (lit 1.0) q)"
    by (rule add64_ranged [OF one assms rr_pow rr_pow]) (simp_all add: p1024)
  have gg: "ranged (2 ^ 100) (2 ^ 106) (mul64 (add64 (lit 1.0) q) (add64 (lit 1.0) q))"
    by (rule mul64_ranged [OF g g rr_pow rr_pow]) (simp_all add: p1024)
  have r: "ranged 0 (1 / 2 ^ 100)
      (div64 (lit 1.0) (mul64 (add64 (lit 1.0) q) (add64 (lit 1.0) q)))"
    by (rule div64_ranged [OF one gg rr_0 rr_inv_pow]) (simp_all add: p1024)
  have "ranged 1 1 (sub64 (lit 1.0)
      (div64 (lit 1.0) (mul64 (add64 (lit 1.0) q) (add64 (lit 1.0) q))))"
    by (rule sub64_ranged [OF one r rr_below_one rr_1]) (simp_all add: p1024)
  then have b: "sub64 (lit 1.0)
      (div64 (lit 1.0) (mul64 (add64 (lit 1.0) q) (add64 (lit 1.0) q))) = Finite 1"
    by (rule ranged_exact)
  show ?thesis unfolding b by (simp add: lit_small c64_value rnd_1 rnd_c)
qed

lemma rr_U_lo: "rr (3 * 2 ^ 106) = 3 * 2 ^ 106" by (rule rr_numeral_mul) simp
lemma rr_U_hi: "rr (13 * 2 ^ 104) = 13 * 2 ^ 104" by (rule rr_numeral_mul) simp

lemma U_earth_ranged: "ranged (3 * 2 ^ 106) (13 * 2 ^ 104) (lit (2.49 * 10 ^ 32))"
  by (rule lit_ranged [OF rr_U_lo rr_U_hi]) (simp_all add: p1024)

lemma U_vacuum: "get_planetary_binding_energy64 PLANET_VACUUM = lit (2.49 * 10 ^ 32)"
  by (simp add: get_planetary_binding_energy64_def)

lemma vacuum_retention64: "atmospheric_retention64 d PLANET_VACUUM mt = Finite 1"
  by (simp add: atmospheric_retention64_def lit_small)


lemma solve_m64_fields:
  "v_class64 (solve_m64 lm ret U pt mt m eps) =
     sqrt64 (div64 (mul64 (lit 2.0) (div64 U (effective_eps64 (solve_m64 lm ret U pt mt m eps)))) m)"
  "v_rel64 (solve_m64 lm ret U pt mt m eps) =
     (let q = div64 (div64 U (effective_eps64 (solve_m64 lm ret U pt mt m eps)))
                (mul64 (mul64 m c64) c64)
      in mul64 c64
           (sqrt64 (if le64 (sub64 (lit 1.0) (div64 (lit 1.0)
                        (mul64 (add64 (lit 1.0) q) (add64 (lit 1.0) q)))) (lit 0.0)
                    then lit 0.0
                    else sub64 (lit 1.0) (div64 (lit 1.0)
                        (mul64 (add64 (lit 1.0) q) (add64 (lit 1.0) q))))))"
  "effective_eps64 (solve_m64 lm ret U pt mt m eps) =
     mul64 eps (retention64 (solve_m64 lm ret U pt mt m eps))"
  "retention64 (solve_m64 lm ret U pt mt m eps) =
     ret (div64 (mul64 (lit 2.0)
            (cbrt lm (div64 (mul64 (lit 3.0) (div64 m (lit 3000.0))) (mul64 (lit 4.0) PI64))))
            (lit 1000.0)) pt mt"
  unfolding solve_m64_def Let_def by (simp_all only: speeds64.simps)

lemma vacuum_eff: 
  "effective_eps64 (solve_m64 lm atmospheric_retention64 U PLANET_VACUUM mt m (Finite 1))
     = Finite 1"
  unfolding solve_m64_fields(3,4) vacuum_retention64 by (simp add: rnd_1)

text \<open>The run \<^verbatim>\<open>m 1 1 vacuum stony\<close>: the relativistic speed printed is \<open>c\<close> itself.\<close>

lemma vacuum_m1_v_rel:
  "v_rel64 (solve_m64 lm atmospheric_retention64 (lit (2.49 * 10 ^ 32)) PLANET_VACUUM mt
      (Finite 1) (Finite 1)) = Finite 299792458"
proof -
  have one: "ranged 1 1 (Finite 1)" by simp
  have t: "ranged (3 * 2 ^ 106) (13 * 2 ^ 104) (div64 (lit (2.49 * 10 ^ 32)) (Finite 1))"
    by (rule div64_ranged [OF U_earth_ranged one rr_U_lo rr_U_hi]) (simp_all add: p1024)
  have mc: "mul64 (Finite 1) c64 = c64" by (simp add: c64_value rnd_c)
  have "ranged (2 ^ 50) (2 ^ 52)
      (div64 (div64 (lit (2.49 * 10 ^ 32)) (Finite 1)) (mul64 (mul64 (Finite 1) c64) c64))"
    unfolding mc
    by (rule div64_ranged [OF t cc_ranged rr_pow rr_pow]) (simp_all add: p1024)
  then show ?thesis
    unfolding solve_m64_fields(2) vacuum_eff Let_def by (rule v_rel_is_c)
qed

lemma c_ge_threshold: "ge64 (Finite 299792458) (mul64 (lit 0.99) c64)"
  using threshold_ranged by (auto elim!: rangedE simp: ge64_def)



lemma rnd_rr: "rr x = y \<Longrightarrow> \<bar>y\<bar> < pow2 1024 \<Longrightarrow> rnd x = Finite y"
  by (simp add: rnd_def Let_def)

text \<open>
  A ratio \<open>(U / eps) / (m c\<^sup>2)\<close> of about \<open>1.2 * 2 ^ -53\<close>: \<open>gamma\<close> rounds up to the double
  after 1 and \<open>beta2\<close> comes out as \<open>2 ^ -51\<close>, about 1.6 times the exact value.
\<close>

lemma rr_gamma_lo: "rr (1 + 9 / 2 ^ 56) = 1 + 1 / 2 ^ 52"
proof -
  have "rr (1 + 9 / 2 ^ 56) = pow2 (0 - 52) * of_int (2 ^ 52 + 1)"
    by (rule rr_near) (simp_all add: pow2_neg_numeral pow2_0 pow2_m1)
  then show ?thesis by (simp add: pow2_neg_numeral)
qed

lemma rr_gamma_hi: "rr (1 + 11 / 2 ^ 56) = 1 + 1 / 2 ^ 52"
proof -
  have "rr (1 + 11 / 2 ^ 56) = pow2 (0 - 52) * of_int (2 ^ 52 + 1)"
    by (rule rr_near) (simp_all add: pow2_neg_numeral pow2_0 pow2_m1)
  then show ?thesis by (simp add: pow2_neg_numeral)
qed

lemma rr_gamma_sq: "rr ((1 + 1 / 2 ^ 52) * (1 + 1 / 2 ^ 52)) = 1 + 1 / 2 ^ 51"
proof -
  have "rr ((1 + 1 / 2 ^ 52) * (1 + 1 / 2 ^ 52)) = pow2 (0 - 52) * of_int (2 ^ 52 + 2)"
    by (rule rr_near) (simp_all add: pow2_neg_numeral pow2_0 pow2_m1)
  then show ?thesis by (simp add: pow2_neg_numeral)
qed

lemma rr_gamma_sq_inv: "rr (1 / (1 + 1 / 2 ^ 51)) = 1 - 1 / 2 ^ 51"
proof -
  have "rr (1 / (1 + 1 / 2 ^ 51)) = pow2 (- 1 - 52) * of_int (2 ^ 53 - 4)"
    by (rule rr_near) (simp_all add: pow2_neg_numeral pow2_0 pow2_m1)
  then show ?thesis by (simp add: pow2_neg_numeral)
qed

lemma rr_9: "rr (9 / 2 ^ 56) = 9 / 2 ^ 56" by (rule rr_numeral_div) simp_all
lemma rr_11: "rr (11 / 2 ^ 56) = 11 / 2 ^ 56" by (rule rr_numeral_div) simp_all
lemma rr_mc: "rr (299792458 * 2 ^ 104) = 299792458 * 2 ^ 104" by (rule rr_numeral_mul) simp
lemma rr_mcc_lo: "rr (159 * 2 ^ 153) = 159 * 2 ^ 153" by (rule rr_numeral_mul) simp
lemma rr_mcc_hi: "rr (5 * 2 ^ 158) = 5 * 2 ^ 158" by (rule rr_numeral_mul) simp
lemma rr_2U_lo: "rr (3 * 2 ^ 107) = 3 * 2 ^ 107" by (rule rr_numeral_mul) simp
lemma rr_2U_hi: "rr (13 * 2 ^ 105) = 13 * 2 ^ 105" by (rule rr_numeral_mul) simp
lemma rr_24: "rr 24 = 24" by (rule rr_numeral) simp
lemma rr_26: "rr 26 = 26" by (rule rr_numeral) simp
lemma rr_4: "rr 4 = 4" by (rule rr_numeral) simp
lemma rr_7: "rr 7 = 7" by (rule rr_numeral) simp
lemma rr_11_2: "rr (11 / 2 ^ 1) = 11 / 2 ^ 1" by (rule rr_numeral_div) simp_all
lemma rr_49_8: "rr (49 / 2 ^ 3) = 49 / 2 ^ 3" by (rule rr_numeral_div) simp_all
lemma rr_s_lo: "rr (11 / 2 ^ 29) = 11 / 2 ^ 29" by (rule rr_numeral_div) simp_all
lemma rr_s_hi: "rr (3 / 2 ^ 27) = 3 / 2 ^ 27" by (rule rr_numeral_div) simp_all

lemma v_rel_mid:
  assumes "ranged (9 / 2 ^ 56) (11 / 2 ^ 56) q"
  shows "ranged (49 / 2 ^ 3) 7
     (mul64 c64
        (sqrt64 (if le64 (sub64 (lit 1.0) (div64 (lit 1.0)
                     (mul64 (add64 (lit 1.0) q) (add64 (lit 1.0) q)))) (lit 0.0)
                 then lit 0.0
                 else sub64 (lit 1.0) (div64 (lit 1.0)
                     (mul64 (add64 (lit 1.0) q) (add64 (lit 1.0) q))))))"
proof -
  have l1: "ranged 1 1 (lit 1.0)" by (simp add: lit_small)
  have "ranged (1 + 1 / 2 ^ 52) (1 + 1 / 2 ^ 52) (add64 (lit 1.0) q)"
    by (rule add64_ranged [OF l1 assms rr_gamma_lo rr_gamma_hi]) (simp_all add: p1024)
  then have g: "add64 (lit 1.0) q = Finite (1 + 1 / 2 ^ 52)" by (rule ranged_exact)
  have gg: "mul64 (Finite (1 + 1 / 2 ^ 52)) (Finite (1 + 1 / 2 ^ 52)) = Finite (1 + 1 / 2 ^ 51)"
    unfolding mul64.simps by (rule rnd_rr [OF rr_gamma_sq]) (simp add: p1024)
  have r: "div64 (lit 1.0) (Finite (1 + 1 / 2 ^ 51)) = Finite (1 - 1 / 2 ^ 51)"
  proof -
    have "rnd (1 / (1 + 1 / 2 ^ 51)) = Finite (1 - 1 / 2 ^ 51)"
      by (rule rnd_rr [OF rr_gamma_sq_inv]) (simp add: p1024)
    then show ?thesis by (simp add: lit_small)
  qed
  have b: "sub64 (lit 1.0) (Finite (1 - 1 / 2 ^ 51)) = Finite (1 / 2 ^ 51)"
  proof -
    have "rr (1 / 2 ^ 51) = 1 / 2 ^ 51" by (rule rr_inv_pow) simp
    then have "rnd (1 / 2 ^ 51) = Finite (1 / 2 ^ 51)"
      by (rule rnd_exact) (simp add: p1024)
    then show ?thesis by (simp add: lit_small sub64_def)
  qed
  have nz: "\<not> le64 (Finite (1 / 2 ^ 51)) (lit 0.0)" by (simp add: lit_small)
  have bb: "ranged (1 / 2 ^ 51) (1 / 2 ^ 51) (Finite (1 / 2 ^ 51))" by simp
  have s: "ranged (11 / 2 ^ 29) (3 / 2 ^ 27) (sqrt64 (Finite (1 / 2 ^ 51)))"
    by (rule sqrt64_ranged [OF bb rr_s_lo rr_s_hi]) (simp_all add: p1024)
  have "ranged (49 / 2 ^ 3) 7 (mul64 c64 (sqrt64 (Finite (1 / 2 ^ 51))))"
    by (rule mul64_ranged [OF c64_ranged s rr_49_8 rr_7]) (simp_all add: p1024)
  then show ?thesis unfolding g gg r b using nz by (simp only: if_False)
qed

text \<open>
  The run \<^verbatim>\<open>m 20282409603651670423947251286016 1 vacuum stony\<close> (a mass of \<open>2 ^ 104\<close> kg):
  the classical speed is about 4.96 m/s, the relativistic one about 6.32 m/s.
\<close>

lemma heavy_vacuum_speeds:
  "ranged 4 (11 / 2 ^ 1)
     (v_class64 (solve_m64 lm atmospheric_retention64 (lit (2.49 * 10 ^ 32)) PLANET_VACUUM mt
        (Finite (2 ^ 104)) (Finite 1)))"
  "ranged (49 / 2 ^ 3) 7
     (v_rel64 (solve_m64 lm atmospheric_retention64 (lit (2.49 * 10 ^ 32)) PLANET_VACUUM mt
        (Finite (2 ^ 104)) (Finite 1)))"
proof -
  let ?t = "div64 (lit (2.49 * 10 ^ 32)) (Finite 1)"
  let ?m = "Finite (2 ^ 104)"
  have one: "ranged 1 1 (Finite 1)" by simp
  have l2: "ranged 2 2 (lit 2.0)" by (simp add: lit_small)
  have m: "ranged (2 ^ 104) (2 ^ 104) ?m" by simp
  have t: "ranged (3 * 2 ^ 106) (13 * 2 ^ 104) ?t"
    by (rule div64_ranged [OF U_earth_ranged one rr_U_lo rr_U_hi]) (simp_all add: p1024)
  have t2: "ranged (3 * 2 ^ 107) (13 * 2 ^ 105) (mul64 (lit 2.0) ?t)"
    by (rule mul64_ranged [OF l2 t rr_2U_lo rr_2U_hi]) (simp_all add: p1024)
  have e: "ranged 24 26 (div64 (mul64 (lit 2.0) ?t) ?m)"
    by (rule div64_ranged [OF t2 m rr_24 rr_26]) (simp_all add: p1024)
  have "ranged 4 (11 / 2 ^ 1) (sqrt64 (div64 (mul64 (lit 2.0) ?t) ?m))"
    by (rule sqrt64_ranged [OF e rr_4 rr_11_2]) (simp_all add: p1024)
  then show "ranged 4 (11 / 2 ^ 1)
     (v_class64 (solve_m64 lm atmospheric_retention64 (lit (2.49 * 10 ^ 32)) PLANET_VACUUM mt
        (Finite (2 ^ 104)) (Finite 1)))"
    unfolding solve_m64_fields(1) vacuum_eff .
  have mc: "ranged (299792458 * 2 ^ 104) (299792458 * 2 ^ 104) (mul64 ?m c64)"
    by (rule mul64_ranged [OF m c64_ranged rr_mc rr_mc]) (simp_all add: p1024)
  have mcc: "ranged (159 * 2 ^ 153) (5 * 2 ^ 158) (mul64 (mul64 ?m c64) c64)"
    by (rule mul64_ranged [OF mc c64_ranged rr_mcc_lo rr_mcc_hi]) (simp_all add: p1024)
  have q: "ranged (9 / 2 ^ 56) (11 / 2 ^ 56) (div64 ?t (mul64 (mul64 ?m c64) c64))"
    by (rule div64_ranged [OF t mcc rr_9 rr_11]) (simp_all add: p1024)
  show "ranged (49 / 2 ^ 3) 7
     (v_rel64 (solve_m64 lm atmospheric_retention64 (lit (2.49 * 10 ^ 32)) PLANET_VACUUM mt
        (Finite (2 ^ 104)) (Finite 1)))"
    unfolding solve_m64_fields(2) vacuum_eff Let_def by (rule v_rel_mid [OF q])
qed


section \<open>Mode v: the three passes\<close>

lemma solve_v64_three_passes:
  "solve_v64 lm ret U pt mt v_km_s rho eps = three_passes64 lm ret U pt mt v_km_s rho eps"
  by (simp add: solve_v64_def three_passes64_def first_pass64_def next_pass64_def
      sphere_diameter64_def relativisticEnergyPerMass64_def Let_def)

lemma three_passes64_retention:
  "retention_v64 (three_passes64 lm ret U pt mt v_km_s rho eps) =
     ret (div64 (pass2_diameter64 lm ret U pt mt v_km_s rho eps) (lit 1000)) pt mt"
  by (simp add: three_passes64_def pass2_diameter64_def first_pass64_def next_pass64_def Let_def)

lemma three_passes64_mass:
  "m_req64 (three_passes64 lm ret U pt mt v_km_s rho eps) =
     div64 U (mul64 (mul64 eps (retention_v64 (three_passes64 lm ret U pt mt v_km_s rho eps)))
       (relativisticEnergyPerMass64 (mul64 v_km_s (lit 1000))))"
  by (simp add: three_passes64_def first_pass64_def next_pass64_def Let_def)

lemma three_passes64_diameter:
  "D_req64 (three_passes64 lm ret U pt mt v_km_s rho eps) =
     sphere_diameter64 lm (m_req64 (three_passes64 lm ret U pt mt v_km_s rho eps)) rho"
  by (simp add: three_passes64_def first_pass64_def next_pass64_def Let_def)

text \<open>
  The speed 5150395210789814 / 2 ^ 34 km/s is the double nearest to 299792.458 and lies
  below it; its product with 1000.0 rounds to \<open>c\<close>.
\<close>

lemma rr_1000: "rr 1000 = 1000" by (rule rr_numeral) simp

lemma lit_1000: "lit 1000.0 = Finite 1000" "lit 1000 = Finite 1000"
  unfolding lit_def by (simp_all add: rnd_exact rr_1000 p1024)

lemma rr_edge: "rr (5150395210789814 / 2 ^ 34 * 1000) = 299792458"
proof -
  have "rr (5150395210789814 / 2 ^ 34 * 1000) = pow2 (28 - 52) * of_int (299792458 * 2 ^ 24)"
    by (rule rr_near) (simp_all add: pow2_neg_numeral pow2_numeral)
  then show ?thesis by (simp add: pow2_neg_numeral)
qed

lemma edge_speed_beta:
  "div64 (mul64 (Finite (5150395210789814 / 2 ^ 34)) (lit 1000.0)) c64 = Finite 1"
proof -
  have "rnd (5150395210789814 / 2 ^ 34 * 1000) = Finite 299792458"
    by (rule rnd_rr [OF rr_edge]) (simp add: p1024)
  then have "mul64 (Finite (5150395210789814 / 2 ^ 34)) (lit 1000.0) = Finite 299792458"
    unfolding lit_1000 mul64.simps .
  then show ?thesis by (simp add: c64_value rnd_1)
qed

lemma cbrt_rn_ranged:
  assumes "ranged a b x" and "rr L = lo" and "rr H = hi"
    and "0 \<le> L" and "L ^ 3 \<le> a" and "b \<le> H ^ 3" and "0 \<le> H"
    and "hi < pow2 1024"
  shows "ranged lo hi (cbrt_rn x)"
proof -
  obtain r where x: "x = Finite r" "a \<le> r" "r \<le> b" using assms(1) by (rule rangedE)
  have "root 3 (L ^ 3) \<le> root 3 r" using x assms(5) by (intro real_root_le_mono) simp_all
  then have l: "L \<le> root 3 r" using assms(4) by (simp add: real_root_power_cancel)
  have "root 3 r \<le> root 3 (H ^ 3)" using x assms(6) by (intro real_root_le_mono) simp_all
  then have h: "root 3 r \<le> H" using assms(7) by (simp add: real_root_power_cancel)
  show ?thesis unfolding x cbrt_rn.simps
    by (rule rnd_sandwich [OF assms(4) l h assms(2,3,8)])
qed

text \<open>
  The run \<^verbatim>\<open>v 299792 3000 1 neptune stony\<close>: pass 1 gives a diameter between 3.5 and 9 km,
  where the retention is 0; the mass and the diameter of pass 2 are infinite, and pass 3
  finds the retention 0.10 of the top band.
\<close>

lemma rr_v: "rr 299792000 = 299792000" by (rule rr_numeral) simp
lemma rr_beta_lo: "rr (524287 / 2 ^ 19) = 524287 / 2 ^ 19" by (rule rr_numeral_div) simp_all
lemma rr_beta_hi: "rr (1048575 / 2 ^ 20) = 1048575 / 2 ^ 20" by (rule rr_numeral_div) simp_all
lemma rr_bb_lo: "rr (262143 / 2 ^ 18) = 262143 / 2 ^ 18" by (rule rr_numeral_div) simp_all
lemma rr_p20: "rr (1 / 2 ^ 20) = 1 / 2 ^ 20" by (rule rr_inv_pow) simp
lemma rr_p18: "rr (1 / 2 ^ 18) = 1 / 2 ^ 18" by (rule rr_inv_pow) simp
lemma rr_p10: "rr (1 / 2 ^ 10) = 1 / 2 ^ 10" by (rule rr_inv_pow) simp
lemma rr_p9: "rr (1 / 2 ^ 9) = 1 / 2 ^ 9" by (rule rr_inv_pow) simp
lemma rr_512: "rr 512 = 512" by (rule rr_numeral) simp
lemma rr_1024: "rr 1024 = 1024" by (rule rr_numeral) simp
lemma rr_511: "rr 511 = 511" by (rule rr_numeral) simp
lemma rr_1023: "rr 1023 = 1023" by (rule rr_numeral) simp
lemma rr_511c: "rr 153193946038 = 153193946038" by (rule rr_numeral) simp
lemma rr_1023c: "rr 306687684534 = 306687684534" by (rule rr_numeral) simp
lemma rr_k_lo: "rr (81249 * 2 ^ 49) = 81249 * 2 ^ 49" by (rule rr_numeral_mul) simp
lemma rr_k_hi: "rr (5115 * 2 ^ 54) = 5115 * 2 ^ 54" by (rule rr_numeral_mul) simp
lemma rr_Un_lo: "rr (13 * 2 ^ 110) = 13 * 2 ^ 110" by (rule rr_numeral_mul) simp
lemma rr_Un_hi: "rr (27 * 2 ^ 109) = 27 * 2 ^ 109" by (rule rr_numeral_mul) simp
lemma rr_3V_lo: "rr (3 * 2 ^ 35) = 3 * 2 ^ 35" by (rule rr_numeral_mul) simp
lemma rr_3V_hi: "rr (3 * 2 ^ 38) = 3 * 2 ^ 38" by (rule rr_numeral_mul) simp
lemma rr_q_lo: "rr (3 * 2 ^ 31) = 3 * 2 ^ 31" by (rule rr_numeral_mul) simp
lemma rr_3: "rr 3 = 3" by (rule rr_numeral) simp
lemma rr_12: "rr 12 = 12" by (rule rr_numeral) simp
lemma rr_2: "rr 2 = 2" by (rule rr_numeral) simp
lemma rr_9i: "rr 9 = 9" by (rule rr_numeral) simp
lemma rr_1800: "rr 1800 = 1800" by (rule rr_numeral) simp
lemma rr_3600: "rr 3600 = 3600" by (rule rr_numeral) simp
lemma rr_7_2: "rr (7 / 2 ^ 1) = 7 / 2 ^ 1" by (rule rr_numeral_div) simp_all
lemma rr_13_4: "rr (13 / 2 ^ 2) = 13 / 2 ^ 2" by (rule rr_numeral_div) simp_all
lemma rr_13: "rr 13 = 13" by (rule rr_numeral) simp

lemma PI64_ranged: "ranged 3 (13 / 2 ^ 2) PI64"
  unfolding PI64_def by (rule lit_ranged [OF rr_3 rr_13_4]) (simp_all add: p1024)

lemma four_pi_ranged: "ranged 12 13 (mul64 (lit 4) PI64)"
proof -
  have l4: "ranged 4 4 (lit 4)" by (simp add: lit_small)
  show ?thesis by (rule mul64_ranged [OF l4 PI64_ranged rr_12 rr_13]) (simp_all add: p1024)
qed

lemma U_neptune_ranged: "ranged (13 * 2 ^ 110) (27 * 2 ^ 109) (lit (1.69 * 10 ^ 34))"
  by (rule lit_ranged [OF rr_Un_lo rr_Un_hi]) (simp_all add: p1024)

lemma U_neptune: "get_planetary_binding_energy64 PLANET_NEPTUNE = lit (1.69 * 10 ^ 34)"
  by (simp add: get_planetary_binding_energy64_def)

lemma neptune_v: "mul64 (Finite 299792) (lit 1000) = Finite 299792000"
proof -
  have "rnd 299792000 = Finite 299792000" by (rule rnd_exact [OF rr_v]) (simp add: p1024)
  then show ?thesis by (simp add: lit_1000)
qed

lemma neptune_beta:
  "ranged (524287 / 2 ^ 19) (1048575 / 2 ^ 20) (div64 (Finite 299792000) c64)"
proof -
  have v: "ranged 299792000 299792000 (Finite 299792000)" by simp
  show ?thesis
    by (rule div64_ranged [OF v c64_ranged rr_beta_lo rr_beta_hi]) (simp_all add: p1024)
qed

lemma neptune_k:
  "ranged (81249 * 2 ^ 49) (5115 * 2 ^ 54) (relativisticEnergyPerMass64 (Finite 299792000))"
proof -
  let ?b = "div64 (Finite 299792000) c64"
  have l1: "ranged 1 1 (lit 1.0)" by (simp add: lit_small)
  have bb: "ranged (262143 / 2 ^ 18) (1048575 / 2 ^ 20) (mul64 ?b ?b)"
    by (rule mul64_ranged [OF neptune_beta neptune_beta rr_bb_lo rr_beta_hi])
      (simp_all add: p1024)
  have d: "ranged (1 / 2 ^ 20) (1 / 2 ^ 18) (sub64 (lit 1.0) (mul64 ?b ?b))"
    by (rule sub64_ranged [OF l1 bb rr_p20 rr_p18]) (simp_all add: p1024)
  have s: "ranged (1 / 2 ^ 10) (1 / 2 ^ 9) (sqrt64 (sub64 (lit 1.0) (mul64 ?b ?b)))"
    by (rule sqrt64_ranged [OF d rr_p10 rr_p9]) (simp_all add: p1024)
  let ?g = "div64 (lit 1.0) (sqrt64 (sub64 (lit 1.0) (mul64 ?b ?b)))"
  have g: "ranged 512 1024 ?g"
    by (rule div64_ranged [OF l1 s rr_512 rr_1024]) (simp_all add: p1024)
  have g1: "ranged 511 1023 (sub64 ?g (lit 1.0))"
    by (rule sub64_ranged [OF g l1 rr_511 rr_1023]) (simp_all add: p1024)
  have gc: "ranged 153193946038 306687684534 (mul64 (sub64 ?g (lit 1.0)) c64)"
    by (rule mul64_ranged [OF g1 c64_ranged rr_511c rr_1023c]) (simp_all add: p1024)
  have "ranged (81249 * 2 ^ 49) (5115 * 2 ^ 54) (mul64 (mul64 (sub64 ?g (lit 1.0)) c64) c64)"
    by (rule mul64_ranged [OF gc c64_ranged rr_k_lo rr_k_hi]) (simp_all add: p1024)
  then show ?thesis unfolding relativisticEnergyPerMass64_def Let_def .
qed

lemma neptune_pass1:
  assumes "ranged (81249 * 2 ^ 49) (5115 * 2 ^ 54) k"
  shows "ranged (7 / 2 ^ 1) 9
     (div64 (sphere_diameter64 libm_rn (div64 (lit (1.69 * 10 ^ 34)) (mul64 (Finite 1) k))
        (Finite 3000)) (lit 1000))"
proof -
  let ?U = "lit (1.69 * 10 ^ 34)"
  have one: "ranged 1 1 (Finite 1)" by simp
  have l2: "ranged 2 2 (lit 2)" by (simp add: lit_small)
  have l3: "ranged 3 3 (lit 3)" by (simp add: lit_small)
  have rho: "ranged 3000 3000 (Finite 3000)" by simp
  have th: "ranged 1000 1000 (lit 1000)" by (simp add: lit_1000)
  have ek: "ranged (81249 * 2 ^ 49) (5115 * 2 ^ 54) (mul64 (Finite 1) k)"
    by (rule mul64_ranged [OF one assms rr_k_lo rr_k_hi]) (simp_all add: p1024)
  let ?m = "div64 ?U (mul64 (Finite 1) k)"
  have m: "ranged (2 ^ 47) (2 ^ 49) ?m"
    by (rule div64_ranged [OF U_neptune_ranged ek rr_pow rr_pow]) (simp_all add: p1024)
  have V: "ranged (2 ^ 35) (2 ^ 38) (div64 ?m (Finite 3000))"
    by (rule div64_ranged [OF m rho rr_pow rr_pow]) (simp_all add: p1024)
  have V3: "ranged (3 * 2 ^ 35) (3 * 2 ^ 38) (mul64 (lit 3) (div64 ?m (Finite 3000)))"
    by (rule mul64_ranged [OF l3 V rr_3V_lo rr_3V_hi]) (simp_all add: p1024)
  let ?q = "div64 (mul64 (lit 3) (div64 ?m (Finite 3000))) (mul64 (lit 4) PI64)"
  have q: "ranged (3 * 2 ^ 31) (2 ^ 36) ?q"
    by (rule div64_ranged [OF V3 four_pi_ranged rr_q_lo rr_pow]) (simp_all add: p1024)
  have r: "ranged 1800 (2 ^ 12) (cbrt_rn ?q)"
    by (rule cbrt_rn_ranged [OF q rr_1800 rr_pow]) (simp_all add: p1024)
  have D: "ranged 3600 (2 ^ 13) (mul64 (lit 2) (cbrt_rn ?q))"
    by (rule mul64_ranged [OF l2 r rr_3600 rr_pow]) (simp_all add: p1024)
  have "ranged (7 / 2 ^ 1) 9 (div64 (mul64 (lit 2) (cbrt_rn ?q)) (lit 1000))"
    by (rule div64_ranged [OF D th rr_7_2 rr_9i]) (simp_all add: p1024)
  then show ?thesis by (simp add: sphere_diameter64_def libm_rn_def)
qed

lemma lit_15: "lit 15 = Finite 15"
  unfolding lit_def by (rule rnd_exact [OF rr_numeral]) (simp_all add: p1024)

lemma neptune_small: "ranged (7 / 2 ^ 1) 9 d \<Longrightarrow> atmospheric_retention64 d PLANET_NEPTUNE MATERIAL_STONY = Finite 0"
  by (erule rangedE)
    (simp add: atmospheric_retention64_def retention_neptune_64_def lit_small lit_15)

lemma neptune_large:
  "atmospheric_retention64 (div64 PlusInf (lit 1000)) PLANET_NEPTUNE MATERIAL_STONY = lit 0.10"
  by (simp add: atmospheric_retention64_def retention_neptune_64_def lit_15 lit_1000(2) inf64_def)

lemma sphere_diameter64_inf: "sphere_diameter64 libm_rn PlusInf (Finite 3000) = PlusInf"
proof -
  obtain p where p: "mul64 (lit 4) PI64 = Finite p" "12 \<le> p"
    using four_pi_ranged by (rule rangedE)
  then show ?thesis
    by (simp add: sphere_diameter64_def libm_rn_def lit_small inf64_def)
qed

lemma neptune_pass2:
  "pass2_diameter64 libm_rn atmospheric_retention64 (lit (1.69 * 10 ^ 34))
     PLANET_NEPTUNE MATERIAL_STONY (Finite 299792) (Finite 3000) (Finite 1) = PlusInf"
proof -
  let ?k = "relativisticEnergyPerMass64 (Finite 299792000)"
  obtain kr where k: "?k = Finite kr" using neptune_k by (rule rangedE)
  obtain u where u: "lit (1.69 * 10 ^ 34) = Finite u" "13 * 2 ^ 110 \<le> u"
    using U_neptune_ranged by (rule rangedE)
  have r2: "atmospheric_retention64
       (div64 (sphere_diameter64 libm_rn (div64 (lit (1.69 * 10 ^ 34)) (mul64 (Finite 1) ?k))
          (Finite 3000)) (lit 1000)) PLANET_NEPTUNE MATERIAL_STONY = Finite 0"
    by (rule neptune_small [OF neptune_pass1 [OF neptune_k]])
  have m2: "div64 (lit (1.69 * 10 ^ 34)) (mul64 (mul64 (Finite 1) (Finite 0)) ?k) = PlusInf"
    using u by (simp add: k rnd_0 inf64_def)
  show ?thesis
    unfolding pass2_diameter64_def first_pass64_def next_pass64_def Let_def neptune_v
      prod.case r2 m2 by (rule sphere_diameter64_inf)
qed

lemma neptune_accepted:
  "\<not> le64 (Finite 299792) (lit 0.0)" "\<not> le64 (Finite 3000) (lit 0.0)"
  "\<not> le64 (Finite 1) (lit 0.0)"
  "\<not> ge64 (div64 (mul64 (Finite 299792) (lit 1000.0)) c64) (lit 1.0)"
proof -
  obtain b where b: "div64 (Finite 299792000) c64 = Finite b" "b \<le> 1048575 / 2 ^ 20"
    using neptune_beta by (rule rangedE)
  have "mul64 (Finite 299792) (lit 1000.0) = Finite 299792000"
    using neptune_v by (simp add: lit_1000)
  then show "\<not> ge64 (div64 (mul64 (Finite 299792) (lit 1000.0)) c64) (lit 1.0)"
    using b by (simp add: ge64_def lit_small)
qed (simp_all add: lit_small)

section \<open>The speeds of modes m and d\<close>

lemma solve_m64_speeds:
  "mass64 (solve_m64 lm ret U pt mt m eps) = m"
  "retention64 (solve_m64 lm ret U pt mt m eps) =
     ret (div64 (sphere_diameter64 lm m (lit 3000)) (lit 1000)) pt mt"
  "effective_eps64 (solve_m64 lm ret U pt mt m eps) =
     mul64 eps (ret (div64 (sphere_diameter64 lm m (lit 3000)) (lit 1000)) pt mt)"
  "v_class64 (solve_m64 lm ret U pt mt m eps) =
     classical_speed64 U (effective_eps64 (solve_m64 lm ret U pt mt m eps)) m"
  "v_rel64 (solve_m64 lm ret U pt mt m eps) =
     relativistic_speed64 U (effective_eps64 (solve_m64 lm ret U pt mt m eps)) m"
  by (simp_all add: solve_m64_def sphere_diameter64_def classical_speed64_def
      relativistic_speed64_def v_rel_of64_def Let_def)

lemma solve_d64_speeds:
  "mass64 (solve_d64 lm ret U pt mt D_km rho eps) = sphere_mass64 lm (mul64 D_km (lit 1000)) rho"
  "retention64 (solve_d64 lm ret U pt mt D_km rho eps) = ret D_km pt mt"
  "effective_eps64 (solve_d64 lm ret U pt mt D_km rho eps) = mul64 eps (ret D_km pt mt)"
  "v_class64 (solve_d64 lm ret U pt mt D_km rho eps) =
     classical_speed64 U (mul64 eps (ret D_km pt mt))
       (sphere_mass64 lm (mul64 D_km (lit 1000)) rho)"
  "v_rel64 (solve_d64 lm ret U pt mt D_km rho eps) =
     relativistic_speed64 U (mul64 eps (ret D_km pt mt))
       (sphere_mass64 lm (mul64 D_km (lit 1000)) rho)"
  by (simp_all add: solve_d64_def sphere_mass64_def classical_speed64_def
      relativistic_speed64_def v_rel_of64_def Let_def)



lemma rnd_overflow: assumes "2 ^ 1024 \<le> x" shows "rnd x = PlusInf"
proof -
  have "rr (2 ^ 1024) \<le> rr x" using assms by (intro rr_mono0) simp_all
  then have "pow2 1024 \<le> rr x" unfolding rr_pow p1024 .
  then have big: "pow2 1024 \<le> \<bar>rr x\<bar>" by linarith
  have "(0::real) < 2 ^ 1024" by (rule zero_less_power) simp
  then have "0 < x" using assms by (rule less_le_trans)
  then show ?thesis using big by (simp only: rnd_def Let_def if_True)
qed

lemma gamma64_ge_one: assumes "le64 (lit 0) q" shows "le64 (lit 1) (add64 (lit 1) q)"
proof (cases q)
  case (Finite qv)
  then have "1 \<le> 1 + qv" using assms by (simp add: lit_small)
  from rnd_ge_one [OF this] show ?thesis unfolding Finite by (auto simp: lit_small)
qed (use assms in \<open>simp_all add: lit_small\<close>)

text \<open>
  From \<open>gamma \<ge> 1\<close>, infinite or not, every stage of the relativistic speed stays between
  its exact bounds: the speed lies between 0 and \<open>c\<close>, both included.
\<close>

lemma v_rel_of64_ranged:
  assumes "le64 (lit 1) g"
  shows "ranged 0 299792458 (v_rel_of64 g)"
proof -
  let ?r = "div64 (lit 1) (mul64 g g)"
  let ?b = "sub64 (lit 1) ?r"
  let ?bc = "if le64 ?b (lit 0) then lit 0 else ?b"
  have one: "ranged 1 1 (lit 1)" by (simp add: lit_small)
  have r: "ranged 0 1 ?r"
  proof (cases g)
    case (Finite gv)
    then have gv: "1 \<le> gv" using assms by (simp add: lit_small)
    have "1 * 1 \<le> gv * gv" using gv by (intro mult_mono) simp_all
    then have "1 \<le> gv * gv" by simp
    from rnd_ge_one [OF this] show ?thesis
    proof
      assume "\<exists>r. rnd (gv * gv) = Finite r \<and> 1 \<le> r"
      then obtain s where s: "rnd (gv * gv) = Finite s" "1 \<le> s" by blast
      have sr: "ranged 1 s (Finite s)" using s(2) by simp
      have "ranged 0 1 (div64 (lit 1) (Finite s))"
        by (rule div64_ranged [OF one sr rr_0 rr_1]) (use s(2) in \<open>simp_all add: p1024\<close>)
      then show ?thesis unfolding Finite mul64.simps s(1) .
    next
      assume "rnd (gv * gv) = PlusInf"
      then show ?thesis unfolding Finite mul64.simps by (simp add: lit_small)
    qed
  qed (use assms in \<open>simp_all add: lit_small inf64_def\<close>)
  have b: "ranged 0 1 ?b"
    by (rule sub64_ranged [OF one r rr_0 rr_1]) (simp_all add: p1024)
  have bc: "ranged 0 1 ?bc" using b by (simp add: lit_small)
  have s: "ranged 0 1 (sqrt64 ?bc)"
    by (rule sqrt64_ranged [OF bc rr_0 rr_1]) (simp_all add: p1024)
  have "ranged 0 299792458 (mul64 c64 (sqrt64 ?bc))"
    by (rule mul64_ranged [OF c64_ranged s rr_0 rr_c]) (simp_all add: p1024)
  then show ?thesis unfolding v_rel_of64_def Let_def .
qed




lemma relativistic_speed64_bounds:
  assumes "le64 (lit 0.0) (div64 (div64 U eff) (mul64 (mul64 m c64) c64))"
  shows "ranged 0 299792458 (relativistic_speed64 U eff m)"
proof -
  have "le64 (lit 0) (div64 (div64 U eff) (mul64 (mul64 m c64) c64))"
    using assms by (simp add: lit_small)
  then show ?thesis
    unfolding relativistic_speed64_def by (intro v_rel_of64_ranged gamma64_ge_one)
qed


section \<open>Runs used as examples\<close>

lemma vacuum_stony_types:
  "get_planet_type (planet_name vacuum_stony) = PLANET_VACUUM"
  "get_material_type (material_name vacuum_stony) = MATERIAL_STONY"
  by code_simp+

lemma neptune_stony_types:
  "get_planet_type (planet_name neptune_stony) = PLANET_NEPTUNE"
  "get_material_type (material_name neptune_stony) = MATERIAL_STONY"
  by code_simp+

lemma earth_stony_retention64:
  "atmospheric_retention64 d PLANET_EARTH MATERIAL_STONY = retention_earth_64 d MATERIAL_STONY"
  by (simp add: atmospheric_retention64_def)

lemma U_earth: "get_planetary_binding_energy64 PLANET_EARTH = lit (2.49 * 10 ^ 32)"
  by (simp add: get_planetary_binding_energy64_def)

text \<open>
  The run \<^verbatim>\<open>m 1.0715086071862673e301 5e-324 vacuum stony\<close>, a mass of \<open>2 ^ 1000\<close> kg and the
  smallest positive efficiency: \<open>U / eps\<close> and \<open>m c\<close> overflow, their quotient and the speed
  are NaN.
\<close>

lemma rr_tiny: "rr (1 / 2 ^ 1074) = 1 / 2 ^ 1074" by (rule rr_inv_pow) simp

lemma overflow_v_rel:
  "v_rel64 (solve_m64 lm atmospheric_retention64 (lit (2.49 * 10 ^ 32)) PLANET_VACUUM mt
      (Finite (2 ^ 1000)) (Finite (1 / 2 ^ 1074))) = NaN"
proof -
  obtain u where u: "lit (2.49 * 10 ^ 32) = Finite u" "3 * 2 ^ 106 \<le> u"
    using U_earth_ranged by (rule rangedE)
  have "rnd (1 / 2 ^ 1074) = Finite (1 / 2 ^ 1074)"
    by (rule rnd_exact [OF rr_tiny]) (simp add: p1024)
  then have eff: "mul64 (Finite (1 / 2 ^ 1074)) (Finite 1) = Finite (1 / 2 ^ 1074)" by simp
  have "(2::real) ^ 1024 \<le> 3 * 2 ^ 106 * 2 ^ 1074" by simp
  also have "\<dots> \<le> u * 2 ^ 1074" using u(2) by (intro mult_right_mono) simp_all
  finally have "rnd (u * 2 ^ 1074) = PlusInf" by (rule rnd_overflow)
  then have t: "div64 (Finite u) (Finite (1 / 2 ^ 1074)) = PlusInf" by simp
  have "(2::real) ^ 1024 \<le> 2 ^ 1000 * 299792458" by simp
  then have "rnd (2 ^ 1000 * 299792458) = PlusInf" by (rule rnd_overflow)
  then have mc: "mul64 (Finite (2 ^ 1000)) c64 = PlusInf" unfolding c64_value mul64.simps .
  have mcc: "mul64 PlusInf c64 = PlusInf" by (simp add: c64_value inf64_def)
  show ?thesis
    unfolding solve_m64_fields(2,3,4) vacuum_retention64 eff u(1) t mc mcc Let_def
    by (simp add: sub64_def lit_small c64_value)
qed

text \<open>The run \<^verbatim>\<open>v 30000 3000 1 pluto iron\<close>: a speed below \<open>0.99 c\<close>, accepted.\<close>

lemma rr_3e7: "rr 30000000 = 30000000" by (rule rr_numeral) simp
lemma rr_16th: "rr (1 / 2 ^ 4) = 1 / 2 ^ 4" by (rule rr_inv_pow) simp

lemma mode_v_30000:
  "mul64 (Finite 30000) (lit 1000.0) = Finite 30000000"
  "\<not> ge64 (div64 (mul64 (Finite 30000) (lit 1000.0)) c64) (lit 1.0)"
  "lt64 (mul64 (Finite 30000) (lit 1000.0)) (mul64 (lit 0.99) c64)"
proof -
  have "rnd 30000000 = Finite 30000000" by (rule rnd_exact [OF rr_3e7]) (simp add: p1024)
  then show v: "mul64 (Finite 30000) (lit 1000.0) = Finite 30000000" by (simp add: lit_1000)
  have r: "ranged 30000000 30000000 (Finite 30000000)" by simp
  have "ranged (1 / 2 ^ 4) (1 / 2) (div64 (Finite 30000000) c64)"
    by (rule div64_ranged [OF r c64_ranged rr_16th rr_half]) (simp_all add: p1024)
  then show "\<not> ge64 (div64 (mul64 (Finite 30000) (lit 1000.0)) c64) (lit 1.0)"
    unfolding v by (auto elim!: rangedE simp: ge64_def lit_small)
  show "lt64 (mul64 (Finite 30000) (lit 1000.0)) (mul64 (lit 0.99) c64)"
    unfolding v using threshold_ranged by (auto elim!: rangedE)
qed

lemma rr_2U_s: "rr (13 * 2 ^ 106) = 13 * 2 ^ 106" by (rule rr_numeral_mul) simp





section \<open>The relativistic speed for any \<open>gamma\<close>\<close>




lemma clamp_zero: "mul64 c64 (sqrt64 (lit 0)) = Finite 0"
  by (simp add: lit_small c64_value rnd_0)



section \<open>More of the example runs\<close>

text \<open>The mass of the Neptune run is finite: it is the one of the retention 0.10.\<close>

lemma rr_8th: "rr (1 / 2 ^ 3) = 1 / 2 ^ 3" by (rule rr_inv_pow) simp
lemma rr_ek_lo: "rr (81249 * 2 ^ 45) = 81249 * 2 ^ 45" by (rule rr_numeral_mul) simp
lemma rr_ek_hi: "rr (5115 * 2 ^ 51) = 5115 * 2 ^ 51" by (rule rr_numeral_mul) simp

lemma neptune_retention:
  "retention_v64 (three_passes64 libm_rn atmospheric_retention64 (lit (1.69 * 10 ^ 34))
      PLANET_NEPTUNE MATERIAL_STONY (Finite 299792) (Finite 3000) (Finite 1)) = lit 0.10"
  unfolding three_passes64_retention neptune_pass2 by (rule neptune_large)

lemma neptune_mass:
  "ranged (2 ^ 50) (2 ^ 53)
     (m_req64 (three_passes64 libm_rn atmospheric_retention64 (lit (1.69 * 10 ^ 34))
        PLANET_NEPTUNE MATERIAL_STONY (Finite 299792) (Finite 3000) (Finite 1)))"
proof -
  have one: "ranged 1 1 (Finite 1)" by simp
  have f: "ranged (1 / 2 ^ 4) (1 / 2 ^ 3) (lit 0.10)"
    by (rule lit_ranged [OF rr_16th rr_8th]) (simp_all add: p1024)
  have e: "ranged (1 / 2 ^ 4) (1 / 2 ^ 3) (mul64 (Finite 1) (lit 0.10))"
    by (rule mul64_ranged [OF one f rr_16th rr_8th]) (simp_all add: p1024)
  have ek: "ranged (81249 * 2 ^ 45) (5115 * 2 ^ 51)
      (mul64 (mul64 (Finite 1) (lit 0.10)) (relativisticEnergyPerMass64 (Finite 299792000)))"
    by (rule mul64_ranged [OF e neptune_k rr_ek_lo rr_ek_hi]) (simp_all add: p1024)
  have "ranged (2 ^ 50) (2 ^ 53)
      (div64 (lit (1.69 * 10 ^ 34))
         (mul64 (mul64 (Finite 1) (lit 0.10)) (relativisticEnergyPerMass64 (Finite 299792000))))"
    by (rule div64_ranged [OF U_neptune_ranged ek rr_pow rr_pow]) (simp_all add: p1024)
  then show ?thesis unfolding three_passes64_mass neptune_retention neptune_v .
qed

text \<open>A diameter of 1 km on Earth is in the top stony band.\<close>

lemma above_small_threshold: "0 \<le> t \<Longrightarrow> t \<le> 1 / 2 \<Longrightarrow> \<not> lt64 (Finite 1) (lit t)"
proof -
  assume "0 \<le> t" "t \<le> 1 / 2"
  then have "ranged 0 (1 / 2) (lit t)"
    by (intro lit_ranged [OF rr_0 rr_half]) (simp_all add: p1024)
  then show ?thesis by (auto elim!: rangedE)
qed

lemma earth_stony_1km: "retention_earth_64 (Finite 1) MATERIAL_STONY = lit 0.90"
  by (simp add: retention_earth_64_def above_small_threshold)

lemma vacuum_m1_survives: "ge64 (v_rel64 (solve_m64 lm atmospheric_retention64
    (lit (2.49 * 10 ^ 32)) PLANET_VACUUM mt (Finite 1) (Finite 1))) (mul64 (lit 0.99) c64)"
  unfolding vacuum_m1_v_rel by (rule c_ge_threshold)

lemma heavy_vacuum_destroyed: "\<not> ge64 (v_rel64 (solve_m64 lm atmospheric_retention64
    (lit (2.49 * 10 ^ 32)) PLANET_VACUUM mt (Finite (2 ^ 104)) (Finite 1))) (mul64 (lit 0.99) c64)"
  using heavy_vacuum_speeds(2) [of lm mt] threshold_ranged
  by (auto elim!: rangedE simp: ge64_def)

lemma accepted_examples:
  "\<not> le64 (Finite 1) (lit 0.0)" "\<not> le64 (Finite 3000) (lit 0.0)"
  "\<not> le64 (Finite 30000) (lit 0.0)" "\<not> le64 (Finite (2 ^ 104)) (lit 0.0)"
  "\<not> le64 (Finite (2 ^ 1000)) (lit 0.0)" "\<not> le64 (Finite (1 / 2 ^ 1074)) (lit 0.0)"
  "\<not> le64 (Finite (1 / 2 ^ 10)) (lit 0.0)"
  "\<not> le64 (Finite (5150395210789814 / 2 ^ 34)) (lit 0.0)"
  by (simp_all add: lit_small)

lemma mode_v64_rejected:
  assumes "\<not> le64 v_km_s (lit 0.0)" and "\<not> le64 rho (lit 0.0)" and "\<not> le64 eps (lit 0.0)"
    and "ge64 (div64 (mul64 v_km_s (lit 1000.0)) c64) (lit 1.0)"
  shows "mode_v64 lm a v_km_s rho eps =
     Run64 (object_print a @ [P_PLANET (planet_or a ''target'')
              (get_planetary_binding_energy64 (get_planet_type (planet_name a)))])
       [''Speed must be < c.''] 1"
proof -
  have "\<not> (le64 v_km_s (lit 0.0) \<or> le64 rho (lit 0.0) \<or> le64 eps (lit 0.0))"
    using assms by simp
  then show ?thesis
    using assms(4) unfolding mode_v64_def Let_def by (simp only: if_False if_True)
qed

lemma edge_speed_rejected:
  "mode_v64 lm no_names (Finite (5150395210789814 / 2 ^ 34)) (Finite 3000) (Finite 1) =
     Run64 [P_PLANET ''target'' (lit (2.49 * 10 ^ 32))] [''Speed must be < c.''] 1"
proof -
  have "ge64 (div64 (mul64 (Finite (5150395210789814 / 2 ^ 34)) (lit 1000.0)) c64) (lit 1.0)"
    unfolding edge_speed_beta by (simp add: ge64_def lit_small)
  from mode_v64_rejected [OF accepted_examples(8,2,1) this, of lm no_names]
  show ?thesis
    unfolding no_names_types U_earth by (simp add: object_print_def planet_or_def no_names_def)
qed

lemma rr_edge_speed: "rr (5150395210789814 / 2 ^ 34) = 5150395210789814 / 2 ^ 34"
  by (rule rr_numeral_div) simp_all

text \<open>The threshold \<open>0.99 * c\<close> of the conclusion is below 297450330 m/s.\<close>

lemma rr_127: "rr (127 / 2 ^ 7) = 127 / 2 ^ 7" by (rule rr_numeral_div) simp_all
lemma rr_thr: "rr 297450330 = 297450330" by (rule rr_numeral) simp

lemma threshold_upper: "ranged 149896229 297450330 (mul64 (lit 0.99) c64)"
proof -
  have l: "ranged (1 / 2) (127 / 2 ^ 7) (lit 0.99)"
    by (rule lit_ranged [OF rr_half rr_127]) (simp_all add: p1024)
  show ?thesis
    by (rule mul64_ranged [OF l c64_ranged rr_half_c rr_thr]) (simp_all add: p1024)
qed

text \<open>
  The run \<^verbatim>\<open>d 1 3000 1 vacuum stony\<close>, a body of 1 km: a mass between \<open>2 ^ 40\<close> and
  \<open>2 ^ 42\<close> kg, a classical speed above \<open>c\<close> and a relativistic speed within
  \<open>c / 2 ^ 18\<close> of \<open>c\<close>.
\<close>

lemma rr_125e6: "rr 125000000 = 125000000" by (rule rr_numeral) simp
lemma rr_375e6: "rr 375000000 = 375000000" by (rule rr_numeral) simp
lemma rr_1e9: "rr 1000000000 = 1000000000" by (rule rr_numeral) simp
lemma rr_8: "rr 8 = 8" by (rule rr_numeral) simp
lemma rr_500: "rr 500 = 500" by (rule rr_numeral) simp
lemma rr_3_65: "rr (3 * 2 ^ 65) = 3 * 2 ^ 65" by (rule rr_numeral_mul) simp
lemma rr_13_65: "rr (13 * 2 ^ 65) = 13 * 2 ^ 65" by (rule rr_numeral_mul) simp
lemma rr_mc_lo: "rr (299792458 * 2 ^ 40) = 299792458 * 2 ^ 40" by (rule rr_numeral_mul) simp
lemma rr_mc_hi: "rr (299792458 * 2 ^ 42) = 299792458 * 2 ^ 42" by (rule rr_numeral_mul) simp
lemma rr_mcc_lo1: "rr (159 * 2 ^ 89) = 159 * 2 ^ 89" by (rule rr_numeral_mul) simp
lemma rr_mcc_hi1: "rr (5 * 2 ^ 96) = 5 * 2 ^ 96" by (rule rr_numeral_mul) simp
lemma rr_near_c: "rr 299791314 = 299791314" by (rule rr_numeral) simp
lemma rr_p26: "rr (1 / 2 ^ 26) = 1 / 2 ^ 26" by (rule rr_inv_pow) simp

lemma km_sphere_mass:
  "ranged (2 ^ 40) (2 ^ 42)
     (sphere_mass64 libm_rn (mul64 (Finite 1) (lit 1000)) (Finite 3000))"
proof -
  have "rnd 1000 = Finite 1000" by (rule rnd_exact [OF rr_1000]) (simp add: p1024)
  then have D: "mul64 (Finite 1) (lit 1000) = Finite 1000" by (simp add: lit_1000)
  have "rnd 500 = Finite 500" by (rule rnd_exact [OF rr_500]) (simp add: p1024)
  then have h: "div64 (Finite 1000) (lit 2) = Finite 500" by (simp add: lit_small)
  have "rnd 125000000 = Finite 125000000" by (rule rnd_exact [OF rr_125e6]) (simp add: p1024)
  then have p: "pow_rn (Finite 500) (lit 3) = Finite 125000000" by (simp add: lit_small)
  have pr: "ranged 125000000 125000000 (Finite 125000000)" by simp
  have l3: "ranged 3 3 (lit 3)" by (simp add: lit_small)
  have l4: "ranged 4 4 (lit 4)" by (simp add: lit_small)
  have rho: "ranged 3000 3000 (Finite 3000)" by simp
  have f: "ranged 1 2 (div64 (lit 4) (lit 3))"
    by (rule div64_ranged [OF l4 l3 rr_1 rr_2]) (simp_all add: p1024)
  have fp: "ranged 3 8 (mul64 (div64 (lit 4) (lit 3)) PI64)"
    by (rule mul64_ranged [OF f PI64_ranged rr_3 rr_8]) (simp_all add: p1024)
  have V: "ranged 375000000 1000000000
      (mul64 (mul64 (div64 (lit 4) (lit 3)) PI64) (Finite 125000000))"
    by (rule mul64_ranged [OF fp pr rr_375e6 rr_1e9]) (simp_all add: p1024)
  have "ranged (2 ^ 40) (2 ^ 42)
      (mul64 (Finite 3000) (mul64 (mul64 (div64 (lit 4) (lit 3)) PI64) (Finite 125000000)))"
    by (rule mul64_ranged [OF rho V rr_pow rr_pow]) (simp_all add: p1024)
  then show ?thesis unfolding sphere_mass64_def D h by (simp add: libm_rn_def p)
qed

lemma km_speeds:
  assumes m: "ranged (2 ^ 40) (2 ^ 42) m"
  shows "ranged (2 ^ 33) (2 ^ 35) (classical_speed64 (lit (2.49 * 10 ^ 32)) (Finite 1) m)"
    and "ranged 299791314 299792458 (relativistic_speed64 (lit (2.49 * 10 ^ 32)) (Finite 1) m)"
proof -
  let ?t = "div64 (lit (2.49 * 10 ^ 32)) (Finite 1)"
  have one: "ranged 1 1 (Finite 1)" by simp
  have l1: "ranged 1 1 (lit 1)" by (simp add: lit_small)
  have l2: "ranged 2 2 (lit 2)" by (simp add: lit_small)
  have t: "ranged (3 * 2 ^ 106) (13 * 2 ^ 104) ?t"
    by (rule div64_ranged [OF U_earth_ranged one rr_U_lo rr_U_hi]) (simp_all add: p1024)
  have t2: "ranged (3 * 2 ^ 107) (13 * 2 ^ 105) (mul64 (lit 2) ?t)"
    by (rule mul64_ranged [OF l2 t rr_2U_lo rr_2U_hi]) (simp_all add: p1024)
  have e: "ranged (3 * 2 ^ 65) (13 * 2 ^ 65) (div64 (mul64 (lit 2) ?t) m)"
    by (rule div64_ranged [OF t2 m rr_3_65 rr_13_65]) (simp_all add: p1024)
  have "ranged (2 ^ 33) (2 ^ 35) (sqrt64 (div64 (mul64 (lit 2) ?t) m))"
    by (rule sqrt64_ranged [OF e rr_pow rr_pow]) (simp_all add: p1024)
  then show "ranged (2 ^ 33) (2 ^ 35) (classical_speed64 (lit (2.49 * 10 ^ 32)) (Finite 1) m)"
    unfolding classical_speed64_def .
  have mc: "ranged (299792458 * 2 ^ 40) (299792458 * 2 ^ 42) (mul64 m c64)"
    by (rule mul64_ranged [OF m c64_ranged rr_mc_lo rr_mc_hi]) (simp_all add: p1024)
  have mcc: "ranged (159 * 2 ^ 89) (5 * 2 ^ 96) (mul64 (mul64 m c64) c64)"
    by (rule mul64_ranged [OF mc c64_ranged rr_mcc_lo1 rr_mcc_hi1]) (simp_all add: p1024)
  let ?q = "div64 ?t (mul64 (mul64 m c64) c64)"
  have q: "ranged (2 ^ 9) (2 ^ 12) ?q"
    by (rule div64_ranged [OF t mcc rr_pow rr_pow]) (simp_all add: p1024)
  let ?g = "add64 (lit 1) ?q"
  have g: "ranged (2 ^ 9) (2 ^ 13) ?g"
    by (rule add64_ranged [OF l1 q rr_pow rr_pow]) (simp_all add: p1024)
  have gg: "ranged (2 ^ 18) (2 ^ 26) (mul64 ?g ?g)"
    by (rule mul64_ranged [OF g g rr_pow rr_pow]) (simp_all add: p1024)
  have r: "ranged (1 / 2 ^ 26) (1 / 2 ^ 18) (div64 (lit 1) (mul64 ?g ?g))"
    by (rule div64_ranged [OF l1 gg rr_p26 rr_p18]) (simp_all add: p1024)
  let ?b = "sub64 (lit 1) (div64 (lit 1) (mul64 ?g ?g))"
  have b: "ranged (262143 / 2 ^ 18) 1 ?b"
    by (rule sub64_ranged [OF l1 r rr_bb_lo rr_1]) (simp_all add: p1024)
  then have nz: "\<not> le64 ?b (lit 0)" by (auto elim!: rangedE simp: lit_small)
  have s: "ranged (262143 / 2 ^ 18) 1 (sqrt64 ?b)"
    by (rule sqrt64_ranged [OF b rr_bb_lo rr_1]) (simp_all add: p1024)
  have "ranged 299791314 299792458 (mul64 c64 (sqrt64 ?b))"
    by (rule mul64_ranged [OF c64_ranged s rr_near_c rr_c]) (simp_all add: p1024)
  then show "ranged 299791314 299792458
      (relativistic_speed64 (lit (2.49 * 10 ^ 32)) (Finite 1) m)"
    unfolding relativistic_speed64_def v_rel_of64_def Let_def using nz by (simp only: if_False)
qed

lemma km_vacuum_speeds:
  "ranged (2 ^ 33) (2 ^ 35)
     (v_class64 (solve_d64 libm_rn atmospheric_retention64 (lit (2.49 * 10 ^ 32))
        PLANET_VACUUM mt (Finite 1) (Finite 3000) (Finite 1)))"
  "ranged 299791314 299792458
     (v_rel64 (solve_d64 libm_rn atmospheric_retention64 (lit (2.49 * 10 ^ 32))
        PLANET_VACUUM mt (Finite 1) (Finite 3000) (Finite 1)))"
proof -
  have e: "mul64 (Finite 1) (Finite 1) = Finite 1" by (simp add: rnd_1)
  show "ranged (2 ^ 33) (2 ^ 35)
     (v_class64 (solve_d64 libm_rn atmospheric_retention64 (lit (2.49 * 10 ^ 32))
        PLANET_VACUUM mt (Finite 1) (Finite 3000) (Finite 1)))"
    unfolding solve_d64_speeds vacuum_retention64 e by (rule km_speeds(1) [OF km_sphere_mass])
  show "ranged 299791314 299792458
     (v_rel64 (solve_d64 libm_rn atmospheric_retention64 (lit (2.49 * 10 ^ 32))
        PLANET_VACUUM mt (Finite 1) (Finite 3000) (Finite 1)))"
    unfolding solve_d64_speeds vacuum_retention64 e by (rule km_speeds(2) [OF km_sphere_mass])
qed

lemma km_vacuum_survives: "ge64 (v_rel64 (solve_d64 libm_rn atmospheric_retention64
    (lit (2.49 * 10 ^ 32)) PLANET_VACUUM mt (Finite 1) (Finite 3000) (Finite 1)))
    (mul64 (lit 0.99) c64)"
  using km_vacuum_speeds(2) [of mt] threshold_upper by (auto elim!: rangedE simp: ge64_def)




text \<open>
  The run \<^verbatim>\<open>v 299792 3000 1 neptune iron\<close>: pass 1 gives a diameter between 3.5 and 9 km,
  where the retention is 0.01; pass 2 a diameter between 20 and 66 km, where the
  retention is 0.20; the mass of pass 3 is a twentieth of the mass of pass 2.
\<close>

lemma neptune_iron_types:
  "get_planet_type (planet_name neptune_iron) = PLANET_NEPTUNE"
  "get_material_type (material_name neptune_iron) = MATERIAL_IRON"
  by code_simp+

lemma neptune_iron_mid:
  "ranged (7 / 2 ^ 1) 9 d \<Longrightarrow> atmospheric_retention64 d PLANET_NEPTUNE MATERIAL_IRON = lit 0.01"
  by (erule rangedE)
    (simp add: atmospheric_retention64_def retention_neptune_64_def lit_small lit_15)

lemma neptune_iron_top:
  "ranged 20 66 d \<Longrightarrow> atmospheric_retention64 d PLANET_NEPTUNE MATERIAL_IRON = lit 0.20"
  by (erule rangedE)
    (simp add: atmospheric_retention64_def retention_neptune_64_def lit_small lit_15)

lemma rr_128th: "rr (1 / 2 ^ 7) = 1 / 2 ^ 7" by (rule rr_inv_pow) simp
lemma rr_3_256: "rr (3 / 2 ^ 8) = 3 / 2 ^ 8" by (rule rr_numeral_div) simp_all
lemma rr_quarter: "rr (1 / 2 ^ 2) = 1 / 2 ^ 2" by (rule rr_inv_pow) simp
lemma rr_ek2_lo: "rr (81249 * 2 ^ 42) = 81249 * 2 ^ 42" by (rule rr_numeral_mul) simp
lemma rr_ek2_hi: "rr (15345 * 2 ^ 46) = 15345 * 2 ^ 46" by (rule rr_numeral_mul) simp
lemma rr_ek3_lo: "rr (81249 * 2 ^ 46) = 81249 * 2 ^ 46" by (rule rr_numeral_mul) simp
lemma rr_ek3_hi: "rr (5115 * 2 ^ 52) = 5115 * 2 ^ 52" by (rule rr_numeral_mul) simp
lemma rr_m2_lo: "rr (27 * 2 ^ 49) = 27 * 2 ^ 49" by (rule rr_numeral_mul) simp
lemma rr_V2_lo: "rr (9 * 2 ^ 39) = 9 * 2 ^ 39" by (rule rr_numeral_mul) simp
lemma rr_3V2_lo: "rr (27 * 2 ^ 39) = 27 * 2 ^ 39" by (rule rr_numeral_mul) simp
lemma rr_3V2_hi: "rr (3 * 2 ^ 45) = 3 * 2 ^ 45" by (rule rr_numeral_mul) simp
lemma rr_1e4: "rr 10000 = 10000" by (rule rr_numeral) simp
lemma rr_2e4: "rr 20000 = 20000" by (rule rr_numeral) simp
lemma rr_20: "rr 20 = 20" by (rule rr_numeral) simp
lemma rr_66: "rr 66 = 66" by (rule rr_numeral) simp

lemma neptune_iron_pass2_diameter:
  assumes k: "ranged (81249 * 2 ^ 49) (5115 * 2 ^ 54) k"
  shows "ranged 20000 (2 ^ 16)
     (sphere_diameter64 libm_rn
        (div64 (lit (1.69 * 10 ^ 34)) (mul64 (mul64 (Finite 1) (lit 0.01)) k)) (Finite 3000))"
proof -
  let ?U = "lit (1.69 * 10 ^ 34)"
  have one: "ranged 1 1 (Finite 1)" by simp
  have l2: "ranged 2 2 (lit 2)" by (simp add: lit_small)
  have l3: "ranged 3 3 (lit 3)" by (simp add: lit_small)
  have rho: "ranged 3000 3000 (Finite 3000)" by simp
  have f: "ranged (1 / 2 ^ 7) (3 / 2 ^ 8) (lit 0.01)"
    by (rule lit_ranged [OF rr_128th rr_3_256]) (simp_all add: p1024)
  have e: "ranged (1 / 2 ^ 7) (3 / 2 ^ 8) (mul64 (Finite 1) (lit 0.01))"
    by (rule mul64_ranged [OF one f rr_128th rr_3_256]) (simp_all add: p1024)
  have ek: "ranged (81249 * 2 ^ 42) (15345 * 2 ^ 46) (mul64 (mul64 (Finite 1) (lit 0.01)) k)"
    by (rule mul64_ranged [OF e k rr_ek2_lo rr_ek2_hi]) (simp_all add: p1024)
  let ?m = "div64 ?U (mul64 (mul64 (Finite 1) (lit 0.01)) k)"
  have m: "ranged (27 * 2 ^ 49) (2 ^ 56) ?m"
    by (rule div64_ranged [OF U_neptune_ranged ek rr_m2_lo rr_pow]) (simp_all add: p1024)
  have V: "ranged (9 * 2 ^ 39) (2 ^ 45) (div64 ?m (Finite 3000))"
    by (rule div64_ranged [OF m rho rr_V2_lo rr_pow]) (simp_all add: p1024)
  have V3: "ranged (27 * 2 ^ 39) (3 * 2 ^ 45) (mul64 (lit 3) (div64 ?m (Finite 3000)))"
    by (rule mul64_ranged [OF l3 V rr_3V2_lo rr_3V2_hi]) (simp_all add: p1024)
  let ?q = "div64 (mul64 (lit 3) (div64 ?m (Finite 3000))) (mul64 (lit 4) PI64)"
  have q: "ranged (2 ^ 40) (2 ^ 43) ?q"
    by (rule div64_ranged [OF V3 four_pi_ranged rr_pow rr_pow]) (simp_all add: p1024)
  have r: "ranged 10000 (2 ^ 15) (cbrt_rn ?q)"
    by (rule cbrt_rn_ranged [OF q rr_1e4 rr_pow]) (simp_all add: p1024)
  have "ranged 20000 (2 ^ 16) (mul64 (lit 2) (cbrt_rn ?q))"
    by (rule mul64_ranged [OF l2 r rr_2e4 rr_pow]) (simp_all add: p1024)
  then show ?thesis by (simp add: sphere_diameter64_def libm_rn_def)
qed

lemma neptune_iron_pass2_retention:
  "atmospheric_retention64
     (div64 (snd (first_pass64 libm_rn (lit (1.69 * 10 ^ 34)) (Finite 1)
        (relativisticEnergyPerMass64 (mul64 (Finite 299792) (lit 1000))) (Finite 3000)))
        (lit 1000)) PLANET_NEPTUNE MATERIAL_IRON = lit 0.01"
  unfolding first_pass64_def Let_def snd_conv neptune_v
  by (rule neptune_iron_mid [OF neptune_pass1 [OF neptune_k]])

lemma neptune_iron_pass2:
  "ranged 20000 (2 ^ 16)
     (pass2_diameter64 libm_rn atmospheric_retention64 (lit (1.69 * 10 ^ 34))
        PLANET_NEPTUNE MATERIAL_IRON (Finite 299792) (Finite 3000) (Finite 1))"
proof -
  have r2: "atmospheric_retention64
       (div64 (sphere_diameter64 libm_rn (div64 (lit (1.69 * 10 ^ 34))
          (mul64 (Finite 1) (relativisticEnergyPerMass64 (Finite 299792000))))
          (Finite 3000)) (lit 1000)) PLANET_NEPTUNE MATERIAL_IRON = lit 0.01"
    by (rule neptune_iron_mid [OF neptune_pass1 [OF neptune_k]])
  show ?thesis
    unfolding pass2_diameter64_def first_pass64_def next_pass64_def Let_def neptune_v
      prod.case r2
    by (rule neptune_iron_pass2_diameter [OF neptune_k])
qed

lemma neptune_iron_retention:
  "retention_v64 (three_passes64 libm_rn atmospheric_retention64 (lit (1.69 * 10 ^ 34))
      PLANET_NEPTUNE MATERIAL_IRON (Finite 299792) (Finite 3000) (Finite 1)) = lit 0.20"
proof -
  have th: "ranged 1000 1000 (lit 1000)" by (simp add: lit_1000)
  have "ranged 20 66
     (div64 (pass2_diameter64 libm_rn atmospheric_retention64 (lit (1.69 * 10 ^ 34))
        PLANET_NEPTUNE MATERIAL_IRON (Finite 299792) (Finite 3000) (Finite 1)) (lit 1000))"
    by (rule div64_ranged [OF neptune_iron_pass2 th rr_20 rr_66]) (simp_all add: p1024)
  then show ?thesis unfolding three_passes64_retention by (rule neptune_iron_top)
qed

lemma neptune_iron_mass:
  "ranged (2 ^ 49) (2 ^ 52)
     (m_req64 (three_passes64 libm_rn atmospheric_retention64 (lit (1.69 * 10 ^ 34))
        PLANET_NEPTUNE MATERIAL_IRON (Finite 299792) (Finite 3000) (Finite 1)))"
proof -
  have one: "ranged 1 1 (Finite 1)" by simp
  have f: "ranged (1 / 2 ^ 3) (1 / 2 ^ 2) (lit 0.20)"
    by (rule lit_ranged [OF rr_8th rr_quarter]) (simp_all add: p1024)
  have e: "ranged (1 / 2 ^ 3) (1 / 2 ^ 2) (mul64 (Finite 1) (lit 0.20))"
    by (rule mul64_ranged [OF one f rr_8th rr_quarter]) (simp_all add: p1024)
  have ek: "ranged (81249 * 2 ^ 46) (5115 * 2 ^ 52)
      (mul64 (mul64 (Finite 1) (lit 0.20)) (relativisticEnergyPerMass64 (Finite 299792000)))"
    by (rule mul64_ranged [OF e neptune_k rr_ek3_lo rr_ek3_hi]) (simp_all add: p1024)
  have "ranged (2 ^ 49) (2 ^ 52)
      (div64 (lit (1.69 * 10 ^ 34))
         (mul64 (mul64 (Finite 1) (lit 0.20)) (relativisticEnergyPerMass64 (Finite 299792000))))"
    by (rule div64_ranged [OF U_neptune_ranged ek rr_pow rr_pow]) (simp_all add: p1024)
  then show ?thesis unfolding three_passes64_mass neptune_iron_retention neptune_v .
qed

section \<open>The claims\<close>

text \<open>
  \<^bold>\<open>C1\<close>, as stated: every request with \<open>0 < speed < c\<close>, \<open>density > 0\<close> and
  \<open>efficiency > 0\<close> is solved by the three passes. The speed
  \<open>5150395210789814 / 2 ^ 34\<close> km/s (the double that \<^verbatim>\<open>299792.458\<close> is read as) is a double
  below \<open>c\<close>, but its product with \<^verbatim>\<open>1000.0\<close> rounds to \<open>c\<close>: the program prints the header,
  reports \<^verbatim>\<open>Speed must be < c.\<close> and solves nothing.
\<close>

theorem edge_speed_rejected_counterexample:
  "rr (5150395210789814 / 2 ^ 34) = 5150395210789814 / 2 ^ 34
   \<and> (5150395210789814 / 2 ^ 34 * 1000 :: real) < c
   \<and> \<not> le64 (Finite (5150395210789814 / 2 ^ 34)) (lit 0.0)
   \<and> \<not> le64 (Finite 3000) (lit 0.0) \<and> \<not> le64 (Finite 1) (lit 0.0)
   \<and> mode_v64 libm_rn no_names (Finite (5150395210789814 / 2 ^ 34)) (Finite 3000) (Finite 1) =
       Run64 [P_PLANET ''target'' (lit (2.49 * 10 ^ 32))] [''Speed must be < c.''] 1"
proof -
  have "(5150395210789814 / 2 ^ 34 * 1000 :: real) < c" by simp
  then show ?thesis
    using rr_edge_speed accepted_examples(8,2,1) edge_speed_rejected [of libm_rn] by blast
qed

text \<open>
  \<^bold>\<open>C1\<close>, amended: in mode v, for every request that the program accepts (speed, density
  and efficiency not \<open>\<le> 0\<close>, and the rounded quotient of the rounded \<open>speed * 1000\<close> by \<open>c\<close>
  below 1), the result is that of exactly three passes, whatever the passes return (there
  is no convergence test): pass 1 computes the mass from the relativistic energy per unit
  mass of the speed with the requested efficiency alone, and the diameter of the sphere
  of that mass and the given density; passes 2 and 3 each look the retention up at the
  current diameter and recompute the effective efficiency, the mass and the diameter.
  The retention of the result is the one looked up in pass 3 at the diameter of pass 2,
  the mass of the result is computed with it and the diameter of the result from that
  mass; the program exits with status 0 and prints these values. This holds in binary64
  for any retention function and any \<^verbatim>\<open>cbrt\<close>.
\<close>

theorem three_pass_schedule:
  assumes "\<not> le64 v_km_s (lit 0.0)" and "\<not> le64 rho (lit 0.0)" and "\<not> le64 eps (lit 0.0)"
    and "\<not> ge64 (div64 (mul64 v_km_s (lit 1000.0)) c64) (lit 1.0)"
  shows
    "solve_v64 lm ret U planet_type material_type v_km_s rho eps
       = three_passes64 lm ret U planet_type material_type v_km_s rho eps
     \<and> retention_v64 (solve_v64 lm ret U planet_type material_type v_km_s rho eps)
       = ret (div64 (pass2_diameter64 lm ret U planet_type material_type v_km_s rho eps)
                (lit 1000)) planet_type material_type
     \<and> m_req64 (solve_v64 lm ret U planet_type material_type v_km_s rho eps)
       = div64 U (mul64
           (mul64 eps (retention_v64 (solve_v64 lm ret U planet_type material_type v_km_s rho eps)))
           (relativisticEnergyPerMass64 (mul64 v_km_s (lit 1000))))
     \<and> D_req64 (solve_v64 lm ret U planet_type material_type v_km_s rho eps)
       = sphere_diameter64 lm
           (m_req64 (solve_v64 lm ret U planet_type material_type v_km_s rho eps)) rho
     \<and> mode_v64 lm a v_km_s rho eps =
         (let planet_type = get_planet_type (planet_name a);
              material_type = get_material_type (material_name a);
              U = get_planetary_binding_energy64 planet_type;
              r = three_passes64 lm atmospheric_retention64 U planet_type material_type
                    v_km_s rho eps
          in Run64 (object_print a @ [P_PLANET (planet_or a ''target'') U] @
                material_print a (retention_v64 r) @
                [P_INPUT [v_km_s, rho, eps],
                 P_TARGET (div64 U (effective_eps_v64 r)) (effective_eps_v64 r),
                 P_REQUIRED_MASS (m_req64 r)
                   (div64 (m_req64 r) MERCURY_MASS64)
                   (div64 (m_req64 r) CERES_MASS64),
                 P_CLASSICAL_MASS (m_class64 r),
                 P_DIAMETER (div64 (D_req64 r) (lit 1000.0)),
                 P_NOTE_ANY (div64 (D_req64 r) (lit 1000.0)) v_km_s
                   (planet_or a ''target'')])
               [] 0)"
proof (intro conjI)
  show "solve_v64 lm ret U planet_type material_type v_km_s rho eps
       = three_passes64 lm ret U planet_type material_type v_km_s rho eps"
    by (rule solve_v64_three_passes)
  show "retention_v64 (solve_v64 lm ret U planet_type material_type v_km_s rho eps)
       = ret (div64 (pass2_diameter64 lm ret U planet_type material_type v_km_s rho eps)
                (lit 1000)) planet_type material_type"
    unfolding solve_v64_three_passes by (rule three_passes64_retention)
  show "m_req64 (solve_v64 lm ret U planet_type material_type v_km_s rho eps)
       = div64 U (mul64
           (mul64 eps (retention_v64 (solve_v64 lm ret U planet_type material_type v_km_s rho eps)))
           (relativisticEnergyPerMass64 (mul64 v_km_s (lit 1000))))"
    unfolding solve_v64_three_passes by (rule three_passes64_mass)
  show "D_req64 (solve_v64 lm ret U planet_type material_type v_km_s rho eps)
       = sphere_diameter64 lm
           (m_req64 (solve_v64 lm ret U planet_type material_type v_km_s rho eps)) rho"
    unfolding solve_v64_three_passes by (rule three_passes64_diameter)
  show "mode_v64 lm a v_km_s rho eps =
         (let planet_type = get_planet_type (planet_name a);
              material_type = get_material_type (material_name a);
              U = get_planetary_binding_energy64 planet_type;
              r = three_passes64 lm atmospheric_retention64 U planet_type material_type
                    v_km_s rho eps
          in Run64 (object_print a @ [P_PLANET (planet_or a ''target'') U] @
                material_print a (retention_v64 r) @
                [P_INPUT [v_km_s, rho, eps],
                 P_TARGET (div64 U (effective_eps_v64 r)) (effective_eps_v64 r),
                 P_REQUIRED_MASS (m_req64 r)
                   (div64 (m_req64 r) MERCURY_MASS64)
                   (div64 (m_req64 r) CERES_MASS64),
                 P_CLASSICAL_MASS (m_class64 r),
                 P_DIAMETER (div64 (D_req64 r) (lit 1000.0)),
                 P_NOTE_ANY (div64 (D_req64 r) (lit 1000.0)) v_km_s
                   (planet_or a ''target'')])
               [] 0)"
    using mode_v64_accepted [OF assms, of lm a] unfolding solve_v64_three_passes .
qed

text \<open>
  The run \<^verbatim>\<open>v 299792 3000 1 neptune iron\<close>: the retention looked up in pass 2 is 0.01, the
  diameter of pass 2 lies between 20 and 66 km, the retention of the result is the 0.20
  found there in pass 3 and the mass of the result is the one computed with it. In the
  run \<^verbatim>\<open>v 299792 3000 1 neptune stony\<close> the retention of pass 2 is 0, the diameter of pass 2
  is infinite, and the retention of the result is the 0.10 found there.
\<close>

theorem three_pass_schedule_witness:
  "\<not> le64 (Finite 299792) (lit 0.0) \<and> \<not> le64 (Finite 3000) (lit 0.0)
   \<and> \<not> le64 (Finite 1) (lit 0.0)
   \<and> \<not> ge64 (div64 (mul64 (Finite 299792) (lit 1000.0)) c64) (lit 1.0)
   \<and> atmospheric_retention64
        (div64 (snd (first_pass64 libm_rn (lit (1.69 * 10 ^ 34)) (Finite 1)
           (relativisticEnergyPerMass64 (mul64 (Finite 299792) (lit 1000))) (Finite 3000)))
           (lit 1000)) PLANET_NEPTUNE MATERIAL_IRON = lit 0.01
   \<and> ranged 20000 (2 ^ 16)
        (pass2_diameter64 libm_rn atmospheric_retention64 (lit (1.69 * 10 ^ 34))
           PLANET_NEPTUNE MATERIAL_IRON (Finite 299792) (Finite 3000) (Finite 1))
   \<and> retention_v64 (solve_v64 libm_rn atmospheric_retention64 (lit (1.69 * 10 ^ 34))
        PLANET_NEPTUNE MATERIAL_IRON (Finite 299792) (Finite 3000) (Finite 1)) = lit 0.20
   \<and> ranged (2 ^ 49) (2 ^ 52)
        (m_req64 (solve_v64 libm_rn atmospheric_retention64 (lit (1.69 * 10 ^ 34))
           PLANET_NEPTUNE MATERIAL_IRON (Finite 299792) (Finite 3000) (Finite 1)))
   \<and> status64 (mode_v64 libm_rn neptune_iron (Finite 299792) (Finite 3000) (Finite 1)) = 0
   \<and> pass2_diameter64 libm_rn atmospheric_retention64 (lit (1.69 * 10 ^ 34))
        PLANET_NEPTUNE MATERIAL_STONY (Finite 299792) (Finite 3000) (Finite 1) = PlusInf
   \<and> retention_v64 (solve_v64 libm_rn atmospheric_retention64 (lit (1.69 * 10 ^ 34))
        PLANET_NEPTUNE MATERIAL_STONY (Finite 299792) (Finite 3000) (Finite 1)) = lit 0.10"
proof -
  note iron = three_pass_schedule [OF neptune_accepted, where lm = libm_rn
      and ret = atmospheric_retention64 and U = "lit (1.69 * 10 ^ 34)"
      and planet_type = PLANET_NEPTUNE and material_type = MATERIAL_IRON
      and a = neptune_iron]
  note stony = three_pass_schedule [OF neptune_accepted, where lm = libm_rn
      and ret = atmospheric_retention64 and U = "lit (1.69 * 10 ^ 34)"
      and planet_type = PLANET_NEPTUNE and material_type = MATERIAL_STONY
      and a = neptune_stony]
  from iron have e: "solve_v64 libm_rn atmospheric_retention64 (lit (1.69 * 10 ^ 34))
        PLANET_NEPTUNE MATERIAL_IRON (Finite 299792) (Finite 3000) (Finite 1)
      = three_passes64 libm_rn atmospheric_retention64 (lit (1.69 * 10 ^ 34))
        PLANET_NEPTUNE MATERIAL_IRON (Finite 299792) (Finite 3000) (Finite 1)"
    by (rule conjunct1)
  from stony have e': "solve_v64 libm_rn atmospheric_retention64 (lit (1.69 * 10 ^ 34))
        PLANET_NEPTUNE MATERIAL_STONY (Finite 299792) (Finite 3000) (Finite 1)
      = three_passes64 libm_rn atmospheric_retention64 (lit (1.69 * 10 ^ 34))
        PLANET_NEPTUNE MATERIAL_STONY (Finite 299792) (Finite 3000) (Finite 1)"
    by (rule conjunct1)
  have r: "retention_v64 (solve_v64 libm_rn atmospheric_retention64 (lit (1.69 * 10 ^ 34))
        PLANET_NEPTUNE MATERIAL_IRON (Finite 299792) (Finite 3000) (Finite 1)) = lit 0.20"
    unfolding e by (rule neptune_iron_retention)
  have m: "ranged (2 ^ 49) (2 ^ 52)
        (m_req64 (solve_v64 libm_rn atmospheric_retention64 (lit (1.69 * 10 ^ 34))
           PLANET_NEPTUNE MATERIAL_IRON (Finite 299792) (Finite 3000) (Finite 1)))"
    unfolding e by (rule neptune_iron_mass)
  have s: "status64 (mode_v64 libm_rn neptune_iron (Finite 299792) (Finite 3000) (Finite 1)) = 0"
    using iron by (simp add: Let_def)
  have r': "retention_v64 (solve_v64 libm_rn atmospheric_retention64 (lit (1.69 * 10 ^ 34))
        PLANET_NEPTUNE MATERIAL_STONY (Finite 299792) (Finite 3000) (Finite 1)) = lit 0.10"
    unfolding e' by (rule neptune_retention)
  show ?thesis
    using neptune_accepted neptune_iron_pass2_retention neptune_iron_pass2 r m s
      neptune_pass2 r'
    by blast
qed







text \<open>
  \<^bold>\<open>C4\<close>, as stated: in every mode the run is classified DESTROYED exactly when the
  relativistic velocity is below \<open>0.99 * c\<close>. Mode v prints no conclusion at all: the run
  \<^verbatim>\<open>v 30000 3000 1 pluto iron\<close>, at a speed below \<open>0.99 * c\<close>, ends with status 0 and is not
  classified DESTROYED. In mode m the run \<^verbatim>\<open>m 1.0715086071862673e301 5e-324 vacuum stony\<close>
  computes the relativistic velocity NaN, which is not below \<open>0.99 * c\<close>, and is classified
  DESTROYED.
\<close>

theorem classification_counterexample:
  "lt64 (mul64 (Finite 30000) (lit 1000.0)) (mul64 (lit 0.99) c64)
   \<and> status64 (mode_v64 libm_rn pluto_iron (Finite 30000) (Finite 3000) (Finite 1)) = 0
   \<and> \<not> classified_destroyed (mode_v64 libm_rn pluto_iron (Finite 30000) (Finite 3000) (Finite 1))
   \<and> v_rel64 (solve_m64 libm_rn atmospheric_retention64
        (get_planetary_binding_energy64 (get_planet_type (planet_name vacuum_stony)))
        (get_planet_type (planet_name vacuum_stony))
        (get_material_type (material_name vacuum_stony))
        (Finite (2 ^ 1000)) (Finite (1 / 2 ^ 1074))) = NaN
   \<and> \<not> lt64 NaN (mul64 (lit 0.99) c64)
   \<and> classified_destroyed (mode_m64 libm_rn vacuum_stony (Finite (2 ^ 1000)) (Finite (1 / 2 ^ 1074)))"
proof -
  have s: "status64 (mode_v64 libm_rn pluto_iron (Finite 30000) (Finite 3000) (Finite 1)) = 0"
    unfolding mode_v64_accepted [OF accepted_examples(3,2,1) mode_v_30000(2)] Let_def by simp
  have n: "v_rel64 (solve_m64 libm_rn atmospheric_retention64
        (get_planetary_binding_energy64 (get_planet_type (planet_name vacuum_stony)))
        (get_planet_type (planet_name vacuum_stony))
        (get_material_type (material_name vacuum_stony))
        (Finite (2 ^ 1000)) (Finite (1 / 2 ^ 1074))) = NaN"
    unfolding vacuum_stony_types U_vacuum by (rule overflow_v_rel)
  have d: "classified_destroyed
      (mode_m64 libm_rn vacuum_stony (Finite (2 ^ 1000)) (Finite (1 / 2 ^ 1074)))"
    unfolding classified_m64(2) [OF accepted_examples(5,6)] n
    using threshold_ranged by (auto elim!: rangedE simp: ge64_def)
  have "\<not> lt64 NaN (mul64 (lit 0.99) c64)" by simp
  then show ?thesis
    using mode_v_30000(3) s mode_v64_unclassified(1) n d by blast
qed

text \<open>
  \<^bold>\<open>C4\<close>, amended: in modes m and d, for inputs that the program accepts (none of them
  \<open>\<le> 0\<close>), the run is classified SURVIVES exactly when the computed relativistic velocity
  \<open>v_rel\<close> satisfies \<open>v_rel >= 0.99 * c\<close> in binary64, and DESTROYED exactly when it does
  not, which includes a \<open>v_rel\<close> that is NaN; when \<open>v_rel\<close> is not NaN, DESTROYED means
  \<open>v_rel < 0.99 * c\<close>, where \<open>0.99 * c\<close> is the rounded product of the double \<^verbatim>\<open>0.99\<close> and
  \<open>c\<close>. Mode v classifies no run, whatever it is given.
\<close>

theorem classification_threshold:
  assumes "\<not> le64 x (lit 0.0)" and "\<not> le64 rho (lit 0.0)" and "\<not> le64 eps (lit 0.0)"
  shows
    "(let s = v_rel64 (solve_m64 lm atmospheric_retention64
                (get_planetary_binding_energy64 (get_planet_type (planet_name a)))
                (get_planet_type (planet_name a)) (get_material_type (material_name a)) x eps)
      in (classified_survives (mode_m64 lm a x eps) \<longleftrightarrow> ge64 s (mul64 (lit 0.99) c64))
       \<and> (classified_destroyed (mode_m64 lm a x eps) \<longleftrightarrow> \<not> ge64 s (mul64 (lit 0.99) c64))
       \<and> (s \<noteq> NaN \<longrightarrow>
            (classified_destroyed (mode_m64 lm a x eps) \<longleftrightarrow> lt64 s (mul64 (lit 0.99) c64))))
     \<and> (let s = v_rel64 (solve_d64 lm atmospheric_retention64
                (get_planetary_binding_energy64 (get_planet_type (planet_name a)))
                (get_planet_type (planet_name a)) (get_material_type (material_name a))
                x rho eps)
      in (classified_survives (mode_d64 lm a x rho eps) \<longleftrightarrow> ge64 s (mul64 (lit 0.99) c64))
       \<and> (classified_destroyed (mode_d64 lm a x rho eps) \<longleftrightarrow> \<not> ge64 s (mul64 (lit 0.99) c64))
       \<and> (s \<noteq> NaN \<longrightarrow>
            (classified_destroyed (mode_d64 lm a x rho eps) \<longleftrightarrow> lt64 s (mul64 (lit 0.99) c64))))
     \<and> \<not> classified_destroyed (mode_v64 lm a v_km_s rho' eps')
     \<and> \<not> classified_survives (mode_v64 lm a v_km_s rho' eps')"
  unfolding Let_def
  using classified_m64 [OF assms(1,3), of lm a] classified_d64 [OF assms, of lm a]
    mode_v64_unclassified [of lm a v_km_s rho' eps'] not_ge64_lt64 [OF _ threshold_not_NaN]
  by simp

text \<open>
  The runs \<^verbatim>\<open>m 1 1 vacuum stony\<close>, whose relativistic speed is \<open>c\<close>,
  \<^verbatim>\<open>m 20282409603651670423947251286016 1 vacuum stony\<close>, whose relativistic speed is between
  6 and 7 m/s, and \<^verbatim>\<open>d 1 3000 1 vacuum stony\<close>, whose relativistic speed is within
  \<open>c / 2 ^ 18\<close> of \<open>c\<close>.
\<close>

theorem classification_threshold_witness:
  "\<not> le64 (Finite 1) (lit 0.0) \<and> \<not> le64 (Finite 3000) (lit 0.0)
   \<and> \<not> le64 (Finite (2 ^ 104)) (lit 0.0)
   \<and> classified_survives (mode_m64 libm_rn vacuum_stony (Finite 1) (Finite 1))
   \<and> \<not> classified_destroyed (mode_m64 libm_rn vacuum_stony (Finite 1) (Finite 1))
   \<and> classified_destroyed (mode_m64 libm_rn vacuum_stony (Finite (2 ^ 104)) (Finite 1))
   \<and> \<not> classified_survives (mode_m64 libm_rn vacuum_stony (Finite (2 ^ 104)) (Finite 1))
   \<and> classified_survives (mode_d64 libm_rn vacuum_stony (Finite 1) (Finite 3000) (Finite 1))
   \<and> \<not> classified_destroyed (mode_d64 libm_rn vacuum_stony (Finite 1) (Finite 3000) (Finite 1))"
proof -
  note light = classification_threshold [OF accepted_examples(1,2,1),
      where lm = libm_rn and a = vacuum_stony]
  note heavy = classification_threshold [OF accepted_examples(4,2,1),
      where lm = libm_rn and a = vacuum_stony]
  have l: "classified_survives (mode_m64 libm_rn vacuum_stony (Finite 1) (Finite 1))"
    "\<not> classified_destroyed (mode_m64 libm_rn vacuum_stony (Finite 1) (Finite 1))"
    using light vacuum_m1_survives [of libm_rn MATERIAL_STONY]
    unfolding Let_def vacuum_stony_types U_vacuum by blast+
  have h: "classified_destroyed (mode_m64 libm_rn vacuum_stony (Finite (2 ^ 104)) (Finite 1))"
    "\<not> classified_survives (mode_m64 libm_rn vacuum_stony (Finite (2 ^ 104)) (Finite 1))"
    using heavy heavy_vacuum_destroyed [of libm_rn MATERIAL_STONY]
    unfolding Let_def vacuum_stony_types U_vacuum by blast+
  have d: "classified_survives (mode_d64 libm_rn vacuum_stony (Finite 1) (Finite 3000) (Finite 1))"
    "\<not> classified_destroyed (mode_d64 libm_rn vacuum_stony (Finite 1) (Finite 3000) (Finite 1))"
    using light km_vacuum_survives [of MATERIAL_STONY]
    unfolding Let_def vacuum_stony_types U_vacuum by blast+
  show ?thesis using accepted_examples(1,2,4) l h d by blast
qed

text \<open>
  \<^bold>\<open>C5\<close>. For every planet type and material type, the retention of the C port is
  non-decreasing in the diameter: for \<open>0 < d1 < d2\<close> the retention at \<open>d1\<close> is at most the
  retention at \<open>d2\<close>; and its value at any diameter lies between 0 and 1.
\<close>

theorem retention_monotone:
  assumes "0 < d1" and "d1 < d2"
  shows "atmospheric_retention (Fin d1) planet_type material_type
           \<le> atmospheric_retention (Fin d2) planet_type material_type
         \<and> 0 \<le> atmospheric_retention d planet_type material_type
         \<and> atmospheric_retention d planet_type material_type \<le> 1"
  using assms retention_mono_fin [of d1 d2 planet_type material_type]
    retention_range [of d planet_type material_type] by simp

theorem retention_monotone_witness:
  "(0::real) < 0.02 \<and> (0.02::real) < 0.1
   \<and> atmospheric_retention (Fin 0.02) PLANET_EARTH MATERIAL_IRON = 0.20
   \<and> atmospheric_retention (Fin 0.1) PLANET_EARTH MATERIAL_IRON = 0.90
   \<and> atmospheric_retention (Fin 0.02) PLANET_EARTH MATERIAL_IRON
        \<le> atmospheric_retention (Fin 0.1) PLANET_EARTH MATERIAL_IRON"
proof -
  have lo: "atmospheric_retention (Fin 0.02) PLANET_EARTH MATERIAL_IRON = 0.20"
    by (simp add: atmospheric_retention_def retention_earth_def)
  have hi: "atmospheric_retention (Fin 0.1) PLANET_EARTH MATERIAL_IRON = 0.90"
    by (simp add: atmospheric_retention_def retention_earth_def)
  have "atmospheric_retention (Fin 0.02) PLANET_EARTH MATERIAL_IRON
          \<le> atmospheric_retention (Fin 0.1) PLANET_EARTH MATERIAL_IRON"
    using retention_monotone [of "0.02" "0.1" PLANET_EARTH MATERIAL_IRON "Fin 0.02"]
    by simp
  with lo hi show ?thesis by simp
qed

text \<open>
  \<^bold>\<open>C6\<close>, as stated: no part of a result is produced before a failure is reported. In
  mode v a speed of 300000 km/s (above \<open>c\<close>) fails with status 1 after the header has
  been printed: standard output is not empty.
\<close>

theorem speed_check_after_header_counterexample:
  "status (mode_v no_names 300000 3000 1) = 1
   \<and> stdout (mode_v no_names 300000 3000 1) \<noteq> []"
proof -
  have h: "(0::real) < 300000" "(0::real) < 3000" "(0::real) < 1" "c \<le> 300000 * 1000"
    by simp_all
  show ?thesis unfolding mode_v_too_fast [OF h] by simp
qed

text \<open>
  \<^bold>\<open>C6\<close>, amended: in every mode a non-positive numeric input fails with status 1 and
  the message \<^verbatim>\<open>Inputs must be positive.\<close> before anything is printed on standard output;
  in mode v a speed of \<open>c\<close> or more (with positive inputs) fails with status 1 and the
  message \<^verbatim>\<open>Speed must be < c.\<close> before any mass or diameter is computed, after the
  \<^verbatim>\<open>OBJECT\<close> and \<^verbatim>\<open>PLANET\<close> header lines (the latter with the binding energy) and
  nothing else have been printed.
\<close>

theorem validation_failures:
  "(m \<le> 0 \<or> eps \<le> 0 \<longrightarrow> mode_m a m eps = Run [] [''Inputs must be positive.''] 1)
   \<and> (D_km \<le> 0 \<or> rho \<le> 0 \<or> eps \<le> 0 \<longrightarrow>
        mode_d a D_km rho eps = Run [] [''Inputs must be positive.''] 1)
   \<and> (v_km_s \<le> 0 \<or> rho \<le> 0 \<or> eps \<le> 0 \<longrightarrow>
        mode_v a v_km_s rho eps = Run [] [''Inputs must be positive.''] 1)
   \<and> (0 < v' \<and> 0 < rho' \<and> 0 < eps' \<and> c \<le> v' * 1000 \<longrightarrow>
        mode_v a v' rho' eps' =
          Run (object_line a @ [PLANET (planet_or a ''target'')
                 (get_planetary_binding_energy (get_planet_type (planet_name a)))])
              [''Speed must be < c.''] 1)"
proof (intro conjI impI)
  assume "m \<le> 0 \<or> eps \<le> 0"
  then show "mode_m a m eps = Run [] [''Inputs must be positive.''] 1"
    unfolding mode_m_def Let_def by (simp only: if_True)
next
  assume "D_km \<le> 0 \<or> rho \<le> 0 \<or> eps \<le> 0"
  then show "mode_d a D_km rho eps = Run [] [''Inputs must be positive.''] 1"
    unfolding mode_d_def Let_def by (simp only: if_True)
next
  assume "v_km_s \<le> 0 \<or> rho \<le> 0 \<or> eps \<le> 0"
  then show "mode_v a v_km_s rho eps = Run [] [''Inputs must be positive.''] 1"
    unfolding mode_v_def Let_def by (simp only: if_True)
next
  assume "0 < v' \<and> 0 < rho' \<and> 0 < eps' \<and> c \<le> v' * 1000"
  then show "mode_v a v' rho' eps' =
          Run (object_line a @ [PLANET (planet_or a ''target'')
                 (get_planetary_binding_energy (get_planet_type (planet_name a)))])
              [''Speed must be < c.''] 1"
    by (intro mode_v_too_fast) simp_all
qed

theorem validation_failures_witness:
  "((-1::real) \<le> 0 \<or> (1::real) \<le> 0)
   \<and> mode_m no_names (-1) 1 = Run [] [''Inputs must be positive.''] 1
   \<and> mode_d no_names 1 0 1 = Run [] [''Inputs must be positive.''] 1
   \<and> mode_v no_names 30000 0 1 = Run [] [''Inputs must be positive.''] 1
   \<and> (0::real) < 300000 \<and> (0::real) < 3000 \<and> c \<le> 300000 * 1000
   \<and> mode_v no_names 300000 3000 1 =
        Run [PLANET ''target'' (2.49 * 10 ^ 32)] [''Speed must be < c.''] 1"
proof -
  note t = validation_failures [of "-1" 1 no_names 1 0 30000 300000 3000 1]
  have "mode_v no_names 300000 3000 1 =
        Run [PLANET ''target'' (2.49 * 10 ^ 32)] [''Speed must be < c.''] 1"
    using t unfolding no_names_types
    by (simp add: no_names_def object_line_def planet_or_def get_planetary_binding_energy_def)
  then show ?thesis using t by simp
qed

text \<open>
  \<^bold>\<open>C7\<close>. A body name that is none of the ten recognised names (compared without
  case) is no error: it resolves to Earth, so the binding energy used is \<^verbatim>\<open>2.49e32\<close> J; a
  material name that is none of the three recognised names resolves to stony, so the
  retention is that of the stony bands of Earth. Solving then proceeds as for Earth and
  stony: for inputs that the program accepts, the run of each mode ends with status 0 and
  no error message, and prints the two names as given, the energy \<^verbatim>\<open>2.49e32\<close>, the
  retention of the stony band of Earth and the speeds (modes m and d) or the three-pass
  result (mode v) computed from them.
\<close>

theorem unknown_names_default:
  assumes "map tolower p \<notin> set planet_names" and "map tolower q \<notin> set material_names"
    and "planet_name a = Some p" and "material_name a = Some q"
    and "\<not> le64 x (lit 0.0)" and "\<not> le64 rho (lit 0.0)" and "\<not> le64 eps (lit 0.0)"
    and "\<not> ge64 (div64 (mul64 v_km_s (lit 1000.0)) c64) (lit 1.0)"
    and "\<not> le64 v_km_s (lit 0.0)"
  shows "get_planet_type (planet_name a) = PLANET_EARTH
     \<and> get_planetary_binding_energy (get_planet_type (planet_name a)) = 2.49 * 10 ^ 32
     \<and> get_planetary_binding_energy64 (get_planet_type (planet_name a)) = lit (2.49 * 10 ^ 32)
     \<and> get_material_type (material_name a) = MATERIAL_STONY
     \<and> atmospheric_retention64 d (get_planet_type (planet_name a))
          (get_material_type (material_name a)) = retention_earth_64 d MATERIAL_STONY
     \<and> mode_m64 lm a x eps =
         (let U = lit (2.49 * 10 ^ 32);
              fraction = retention_earth_64
                (div64 (sphere_diameter64 lm x (lit 3000)) (lit 1000)) MATERIAL_STONY;
              eff = mul64 eps fraction;
              speed = relativistic_speed64 U eff x
          in Run64 (object_print a @
                [P_PLANET p U, P_MATERIAL q fraction, P_INPUT [x, eps],
                 P_TARGET (div64 U eff) eff,
                 P_CLASSICAL (div64 (classical_speed64 U eff x) (lit 1000)),
                 P_RELATIVISTIC (div64 speed (lit 1000))] @
                conclusion64 a speed)
               [] 0)
     \<and> mode_d64 lm a x rho eps =
         (let U = lit (2.49 * 10 ^ 32);
              fraction = retention_earth_64 x MATERIAL_STONY;
              eff = mul64 eps fraction;
              m = sphere_mass64 lm (mul64 x (lit 1000)) rho;
              speed = relativistic_speed64 U eff m
          in Run64 (object_print a @
                [P_PLANET p U, P_MATERIAL q fraction, P_INPUT [x, rho, eps],
                 P_TARGET (div64 U eff) eff,
                 P_MASS m (div64 m MERCURY_MASS64) (div64 m CERES_MASS64),
                 P_CLASSICAL (div64 (classical_speed64 U eff m) (lit 1000)),
                 P_RELATIVISTIC (div64 speed (lit 1000))] @
                conclusion64 a speed)
               [] 0)
     \<and> mode_v64 lm a v_km_s rho eps =
         (let U = lit (2.49 * 10 ^ 32);
              r = three_passes64 lm atmospheric_retention64 U PLANET_EARTH MATERIAL_STONY
                    v_km_s rho eps
          in Run64 (object_print a @
                [P_PLANET p U, P_MATERIAL q (retention_v64 r), P_INPUT [v_km_s, rho, eps],
                 P_TARGET (div64 U (effective_eps_v64 r)) (effective_eps_v64 r),
                 P_REQUIRED_MASS (m_req64 r)
                   (div64 (m_req64 r) MERCURY_MASS64)
                   (div64 (m_req64 r) CERES_MASS64),
                 P_CLASSICAL_MASS (m_class64 r),
                 P_DIAMETER (div64 (D_req64 r) (lit 1000)),
                 P_NOTE_ANY (div64 (D_req64 r) (lit 1000)) v_km_s p])
               [] 0)"
proof -
  have p: "get_planet_type (planet_name a) = PLANET_EARTH"
    unfolding assms(3) by (rule unknown_planet [OF assms(1)])
  have q: "get_material_type (material_name a) = MATERIAL_STONY"
    unfolding assms(4) by (rule unknown_material [OF assms(2)])
  have U: "get_planetary_binding_energy PLANET_EARTH = 2.49 * 10 ^ 32"
    by (simp add: get_planetary_binding_energy_def)
  have m: "mode_m64 lm a x eps =
         (let U = lit (2.49 * 10 ^ 32);
              fraction = retention_earth_64
                (div64 (sphere_diameter64 lm x (lit 3000)) (lit 1000)) MATERIAL_STONY;
              eff = mul64 eps fraction;
              speed = relativistic_speed64 U eff x
          in Run64 (object_print a @
                [P_PLANET p U, P_MATERIAL q fraction, P_INPUT [x, eps],
                 P_TARGET (div64 U eff) eff,
                 P_CLASSICAL (div64 (classical_speed64 U eff x) (lit 1000)),
                 P_RELATIVISTIC (div64 speed (lit 1000))] @
                conclusion64 a speed)
               [] 0)"
    unfolding mode_m64_accepted [OF assms(5,7)] Let_def p q U_earth solve_m64_speeds
      earth_stony_retention64
    by (simp add: planet_print_def material_print_def assms(3,4))
  have d: "mode_d64 lm a x rho eps =
         (let U = lit (2.49 * 10 ^ 32);
              fraction = retention_earth_64 x MATERIAL_STONY;
              eff = mul64 eps fraction;
              m = sphere_mass64 lm (mul64 x (lit 1000)) rho;
              speed = relativistic_speed64 U eff m
          in Run64 (object_print a @
                [P_PLANET p U, P_MATERIAL q fraction, P_INPUT [x, rho, eps],
                 P_TARGET (div64 U eff) eff,
                 P_MASS m (div64 m MERCURY_MASS64) (div64 m CERES_MASS64),
                 P_CLASSICAL (div64 (classical_speed64 U eff m) (lit 1000)),
                 P_RELATIVISTIC (div64 speed (lit 1000))] @
                conclusion64 a speed)
               [] 0)"
    unfolding mode_d64_accepted [OF assms(5,6,7)] Let_def p q U_earth solve_d64_speeds
      earth_stony_retention64
    by (simp add: planet_print_def material_print_def assms(3,4))
  have v: "mode_v64 lm a v_km_s rho eps =
         (let U = lit (2.49 * 10 ^ 32);
              r = three_passes64 lm atmospheric_retention64 U PLANET_EARTH MATERIAL_STONY
                    v_km_s rho eps
          in Run64 (object_print a @
                [P_PLANET p U, P_MATERIAL q (retention_v64 r), P_INPUT [v_km_s, rho, eps],
                 P_TARGET (div64 U (effective_eps_v64 r)) (effective_eps_v64 r),
                 P_REQUIRED_MASS (m_req64 r)
                   (div64 (m_req64 r) MERCURY_MASS64)
                   (div64 (m_req64 r) CERES_MASS64),
                 P_CLASSICAL_MASS (m_class64 r),
                 P_DIAMETER (div64 (D_req64 r) (lit 1000)),
                 P_NOTE_ANY (div64 (D_req64 r) (lit 1000)) v_km_s p])
               [] 0)"
    unfolding mode_v64_accepted [OF assms(9,6,7,8)] Let_def p q U_earth solve_v64_three_passes
    by (simp add: material_print_def planet_or_def assms(3,4))
  show ?thesis
    using p q U U_earth earth_stony_retention64 [of d] m d v by simp
qed

text \<open>
  The run \<^verbatim>\<open>d 1 3000 1 Krypton Adamantium\<close>: the first two lines of the output carry the
  energy of Earth and the retention 0.90 of a stony body of 1 km on Earth.
\<close>

theorem unknown_names_default_witness:
  "map tolower ''Krypton'' \<notin> set planet_names
   \<and> map tolower ''Adamantium'' \<notin> set material_names
   \<and> \<not> le64 (Finite 1) (lit 0.0) \<and> \<not> le64 (Finite 3000) (lit 0.0)
   \<and> \<not> le64 (Finite 30000) (lit 0.0)
   \<and> \<not> ge64 (div64 (mul64 (Finite 30000) (lit 1000.0)) c64) (lit 1.0)
   \<and> get_planet_type (planet_name krypton_adamantium) = PLANET_EARTH
   \<and> get_material_type (material_name krypton_adamantium) = MATERIAL_STONY
   \<and> take 2 (stdout64 (mode_d64 libm_rn krypton_adamantium (Finite 1) (Finite 3000) (Finite 1)))
       = [P_PLANET ''Krypton'' (lit (2.49 * 10 ^ 32)), P_MATERIAL ''Adamantium'' (lit 0.90)]
   \<and> status64 (mode_d64 libm_rn krypton_adamantium (Finite 1) (Finite 3000) (Finite 1)) = 0
   \<and> status64 (mode_m64 libm_rn krypton_adamantium (Finite 1) (Finite 1)) = 0
   \<and> status64 (mode_v64 libm_rn krypton_adamantium (Finite 30000) (Finite 3000) (Finite 1)) = 0"
proof -
  have n: "planet_name krypton_adamantium = Some ''Krypton''"
    "material_name krypton_adamantium = Some ''Adamantium''"
    by (simp_all add: krypton_adamantium_def)
  note t = unknown_names_default [OF krypton n accepted_examples(1,2,1) mode_v_30000(2)
      accepted_examples(3), where lm = libm_rn]
  have o: "object_print krypton_adamantium = []"
    by (simp add: object_print_def krypton_adamantium_def)
  have d: "take 2 (stdout64 (mode_d64 libm_rn krypton_adamantium (Finite 1) (Finite 3000) (Finite 1)))
       = [P_PLANET ''Krypton'' (lit (2.49 * 10 ^ 32)), P_MATERIAL ''Adamantium'' (lit 0.90)]"
    using t unfolding Let_def o earth_stony_1km by simp
  have s: "status64 (mode_d64 libm_rn krypton_adamantium (Finite 1) (Finite 3000) (Finite 1)) = 0"
    "status64 (mode_m64 libm_rn krypton_adamantium (Finite 1) (Finite 1)) = 0"
    "status64 (mode_v64 libm_rn krypton_adamantium (Finite 30000) (Finite 3000) (Finite 1)) = 0"
    using t unfolding Let_def by simp_all
  show ?thesis
    using krypton accepted_examples(1,2,3) mode_v_30000(2) t d s by blast
qed

text \<open>
  \<^bold>\<open>C8\<close>. Reference scenario: mode d with diameter 1.0 km, density 7800, efficiency 0.25,
  target \<^verbatim>\<open>pluto\<close>, material \<^verbatim>\<open>iron\<close>. The retention is 0.99; the mass lies in the
  interval that prints as \<^verbatim>\<open>4.084070e+12\<close>; the relativistic speed in km/s lies in the
  interval that prints as \<^verbatim>\<open>73378.321\<close>; it is below \<open>0.99 * c\<close> and the run ends with the
  \<^verbatim>\<open>DESTROYED\<close> conclusion.
\<close>

theorem reference_scenario:
  "get_planet_type (planet_name pluto_iron) = PLANET_PLUTO
   \<and> get_material_type (material_name pluto_iron) = MATERIAL_IRON
   \<and> get_planetary_binding_energy PLANET_PLUTO = 2.85 * 10 ^ 27
   \<and> (let r = solve_d atmospheric_retention (2.85 * 10 ^ 27) PLANET_PLUTO MATERIAL_IRON
                1.0 7800 0.25
       in retention r = 0.99
        \<and> 4.0840695 * 10 ^ 12 \<le> mass r \<and> mass r < 4.0840705 * 10 ^ 12
        \<and> 73378.3205 \<le> v_rel r / 1000 \<and> v_rel r / 1000 < 73378.3215
        \<and> v_rel r < 0.99 * c
        \<and> stdout (mode_d pluto_iron 1.0 7800 0.25) =
            [PLANET ''pluto'' (2.85 * 10 ^ 27), MATERIAL ''iron'' (retention r),
             INPUT [1.0, 7800, 0.25],
             TARGET (quot (2.85 * 10 ^ 27) (effective_eps r)) (effective_eps r),
             RESULT_mass (mass r) (mass r / MERCURY_MASS) (mass r / CERES_MASS),
             RESULT_classical (lift (\<lambda>x. x / 1000) (v_class r)),
             RESULT_relativistic (v_rel r / 1000),
             DESTROYED ''pluto'' (v_rel r / 1000)])"
proof -
  let ?r = "solve_d atmospheric_retention (2.85 * 10 ^ 27) PLANET_PLUTO MATERIAL_IRON
              1.0 7800 0.25"
  have one: "(1.0::real) = 1" by simp
  have ret: "retention ?r = 0.99"
    unfolding solve_d_fields one by (rule pluto_retention)
  have mass: "4.0840695 * 10 ^ 12 \<le> mass ?r" "mass ?r < 4.0840705 * 10 ^ 12"
    unfolding one pluto_mass by simp_all
  have v: "73378.3205 \<le> v_rel ?r / 1000" "v_rel ?r / 1000 < 73378.3215"
    unfolding one using pluto_v_rel by simp_all
  then have slow: "v_rel ?r < 0.99 * c" by simp
  have h: "(0::real) < 1.0" "(0::real) < 7800" "(0::real) < 0.25" by simp_all
  have out: "stdout (mode_d pluto_iron 1.0 7800 0.25) =
            [PLANET ''pluto'' (2.85 * 10 ^ 27), MATERIAL ''iron'' (retention ?r),
             INPUT [1.0, 7800, 0.25],
             TARGET (quot (2.85 * 10 ^ 27) (effective_eps ?r)) (effective_eps ?r),
             RESULT_mass (mass ?r) (mass ?r / MERCURY_MASS) (mass ?r / CERES_MASS),
             RESULT_classical (lift (\<lambda>x. x / 1000) (v_class ?r)),
             RESULT_relativistic (v_rel ?r / 1000),
             DESTROYED ''pluto'' (v_rel ?r / 1000)]"
    unfolding mode_d_valid(1) [OF h] Let_def pluto_iron_types pluto_U
    using slow
    by (simp add: conclusion_def object_line_def planet_line_def material_line_def
        planet_or_def pluto_iron_def)
  show ?thesis
    unfolding Let_def using pluto_iron_types pluto_U ret mass v slow out by blast
qed

text \<open>
  \<^bold>\<open>C9\<close>. The QB64 function and the C function do not return the same fraction. For an
  iron impactor of 5 m on Earth the C port returns the band's \<^verbatim>\<open>0.00\<close>, the QB64 port
  the last assignment of the branch, \<^verbatim>\<open>0.95\<close>; for an iron impactor of 1 km on Saturn the C
  port returns \<^verbatim>\<open>0.05\<close>, the QB64 port, which has no case for Saturn, \<^verbatim>\<open>1.00\<close>.
\<close>

theorem ports_differ:
  "AtmosphericRetention (Fin 0.005) PLANET_EARTH MATERIAL_IRON = 0.95
   \<and> atmospheric_retention (Fin 0.005) PLANET_EARTH MATERIAL_IRON = 0
   \<and> AtmosphericRetention (Fin 1) PLANET_SATURN MATERIAL_IRON = 1
   \<and> atmospheric_retention (Fin 1) PLANET_SATURN MATERIAL_IRON = 0.05"
  by (simp add: AtmosphericRetention_def atmospheric_retention_def retention_earth_def
      retention_saturn_def)




end
